theory Spec2Isabelle
  imports Main
begin

section \<open>Strings\<close>

text \<open>
  JavaScript strings are modelled as \<^typ>\<open>string\<close> (lists of 8-bit characters), so the
  development covers ASCII text; the string methods the client uses are written out.
\<close>

definition startsWith :: "string \<Rightarrow> string \<Rightarrow> bool" where
  "startsWith s p = (take (length p) s = p)"

definition endsWith :: "string \<Rightarrow> string \<Rightarrow> bool" where
  "endsWith s p = (length p \<le> length s \<and> drop (length s - length p) s = p)"

text \<open>\<open>s.substring(n)\<close> for \<open>0 \<le> n\<close>.\<close>

definition substring :: "string \<Rightarrow> nat \<Rightarrow> string" where
  "substring s n = drop n s"

section \<open>Path normalisation: \<open>resolveUrl\<close>\<close>

text \<open>
  \<open>resolveUrl(path)\<close> of the client. The path name of the base URL
  (\<open>new URL(this.baseUrl).pathname\<close>) is the parameter \<open>basePath\<close>.
\<close>

definition resolveUrl :: "string \<Rightarrow> string \<Rightarrow> string" where
  "resolveUrl basePath path =
     (if startsWith path basePath \<and> basePath \<noteq> ''/'' then
        (let stripped = substring path (length basePath)
         in if startsWith stripped ''/'' then stripped else ''/'' @ stripped)
      else path)"

section \<open>Reference diffing: \<open>diffRefs\<close>\<close>

text \<open>
  A reference \<open>{href, etag}\<close>. The declared type of both fields is \<open>string\<close>; references
  read from a server response carry whatever the XML decoder delivered, so the record is
  polymorphic. Values are compared structurally, which is JavaScript's \<open>===\<close> and the
  key comparison of \<open>Map\<close> on strings and numbers.
\<close>

record ('h, 'e) item_ref =
  href :: 'h
  etag :: 'e

record 'h diff_result =
  newItems :: "'h list"
  updatedItems :: "'h list"
  deletedItems :: "'h list"

text \<open>\<open>new Map(entries)\<close>: a later entry for a key replaces an earlier one.\<close>

definition js_Map :: "('k \<times> 'v) list \<Rightarrow> ('k \<rightharpoonup> 'v)" where
  "js_Map entries = fold (\<lambda>(k, v) m. m(k \<mapsto> v)) entries Map.empty"

text \<open>The body of the loop over the remote references; \<open>push\<close> appends.\<close>

definition remote_step ::
  "('h \<rightharpoonup> 'e) \<Rightarrow> ('h, 'e) item_ref \<Rightarrow> 'h list \<times> 'h list \<Rightarrow> 'h list \<times> 'h list" where
  "remote_step localMap r acc =
     (case acc of (new, upd) \<Rightarrow>
        if localMap (href r) = None then (new @ [href r], upd)
        else if localMap (href r) \<noteq> Some (etag r) then (new, upd @ [href r])
        else (new, upd))"

text \<open>The body of the loop over the local references.\<close>

definition local_step :: "('h \<rightharpoonup> 'e) \<Rightarrow> ('h, 'e) item_ref \<Rightarrow> 'h list \<Rightarrow> 'h list" where
  "local_step remoteMap l del = (if remoteMap (href l) = None then del @ [href l] else del)"

definition diffRefs :: "('h, 'e) item_ref list \<Rightarrow> ('h, 'e) item_ref list \<Rightarrow> 'h diff_result" where
  "diffRefs remoteRefs localRefs =
     (let localMap = js_Map (map (\<lambda>i. (href i, etag i)) localRefs);
          remoteMap = js_Map (map (\<lambda>i. (href i, etag i)) remoteRefs);
          (new, upd) = fold (remote_step localMap) remoteRefs ([], []);
          del = fold (local_step remoteMap) localRefs []
      in \<lparr>newItems = new, updatedItems = upd, deletedItems = del\<rparr>)"

text \<open>Each href carries one etag within a list.\<close>

definition single_etag :: "('h, 'e) item_ref list \<Rightarrow> bool" where
  "single_etag refs =
     (\<forall>r \<in> set refs. \<forall>r' \<in> set refs. href r = href r' \<longrightarrow> etag r = etag r')"

section \<open>Decoded XML, errors and the transport\<close>

text \<open>
  The value the XML decoder returns for a response body. \<open>JUndefined\<close> stands for
  \<open>undefined\<close> and \<open>null\<close>.
\<close>

datatype json =
    JUndefined
  | JString string
  | JNumber int
  | JObject "(string \<times> json) list"
  | JArray "json list"

text \<open>
  What the client can throw: a request rejected by the HTTP client (with the status of the
  response, if there was one), a \<open>TypeError\<close> or \<open>RangeError\<close> of the runtime, an error of the calendar
  codec or the XML decoder, \<open>new Error(message)\<close>, and \<open>new Error(message + error)\<close>.
\<close>

datatype error =
    AxiosError "nat option"
  | RangeError
  | TypeError
  | CodecError string
  | Error string
  | ErrorWith string error

text \<open>Truthiness of a decoded value, as \<open>if (v)\<close> and \<open>!v\<close> test it.\<close>

fun truthy :: "json \<Rightarrow> bool" where
  "truthy JUndefined = False"
| "truthy (JString s) = (s \<noteq> [])"
| "truthy (JNumber n) = (n \<noteq> 0)"
| "truthy (JObject fs) = True"
| "truthy (JArray vs) = True"

text \<open>
  \<open>v[k]\<close> for one of the element names the client reads: a \<open>TypeError\<close> on
  \<open>undefined\<close>, the field of an object, \<open>undefined\<close> on anything else.
\<close>

fun js_get :: "json \<Rightarrow> string \<Rightarrow> error + json" where
  "js_get JUndefined k = Inl TypeError"
| "js_get (JObject fs) k = Inr (case map_of fs k of None \<Rightarrow> JUndefined | Some v \<Rightarrow> v)"
| "js_get v k = Inr JUndefined"

text \<open>\<open>v?.[k]\<close>: \<open>undefined\<close> on \<open>undefined\<close>.\<close>

fun js_opt_get :: "json \<Rightarrow> string \<Rightarrow> json" where
  "js_opt_get (JObject fs) k = (case map_of fs k of None \<Rightarrow> JUndefined | Some v \<Rightarrow> v)"
| "js_opt_get v k = JUndefined"

text \<open>A chain \<open>v[k1][k2]...\<close>.\<close>

fun js_path :: "json \<Rightarrow> string list \<Rightarrow> error + json" where
  "js_path v [] = Inr v"
| "js_path v (k # ks) = (case js_get v k of Inl e \<Rightarrow> Inl e | Inr w \<Rightarrow> js_path w ks)"

text \<open>A chain \<open>v?.k1?.k2...\<close>.\<close>

fun js_opt_path :: "json \<Rightarrow> string list \<Rightarrow> json" where
  "js_opt_path v [] = v"
| "js_opt_path v (k # ks) = js_opt_path (js_opt_get v k) ks"

text \<open>
  The bodies the client sends: the change-tag property query, the calendar query for the
  etags of one component kind, a calendar object.
\<close>

datatype req_body =
    CtagPropfind
  | EtagCalendarQuery string
  | CalendarObject string

record http_request =
  req_method :: string
  req_url :: string
  req_headers :: "(string \<times> string) list"
  req_body :: req_body

record http_response =
  resp_status :: nat
  resp_headers :: "(string \<times> string) list"
  resp_data :: string

text \<open>
  The transport answers a request, given the requests sent before it; \<open>None\<close> is a failure
  without a response. The XML decoder is a parameter too. Every operation takes the
  requests sent so far and returns them extended by its own. The headers the HTTP client
  adds to every request (authorisation, default content type) are not listed.
\<close>

type_synonym transport = "http_request list \<Rightarrow> http_request \<Rightarrow> http_response option"

type_synonym xml_decoder = "string \<Rightarrow> error + json"

text \<open>A request through the HTTP client with its \<open>validateStatus\<close>.\<close>

definition axios_request ::
  "transport \<Rightarrow> (nat \<Rightarrow> bool) \<Rightarrow> http_request \<Rightarrow> http_request list
     \<Rightarrow> (error + http_response) \<times> http_request list" where
  "axios_request net validateStatus req trace =
     (case net trace req of
        None \<Rightarrow> (Inl (AxiosError None), trace @ [req])
      | Some resp \<Rightarrow>
          if validateStatus (resp_status resp) then (Inr resp, trace @ [req])
          else (Inl (AxiosError (Some (resp_status resp))), trace @ [req]))"

section \<open>Change tag and references\<close>

definition ctag_request :: "string \<Rightarrow> http_request" where
  "ctag_request calendarUrl =
     \<lparr>req_method = ''PROPFIND'', req_url = calendarUrl,
      req_headers = [(''Depth'', ''0'')], req_body = CtagPropfind\<rparr>"

definition getCtag ::
  "transport \<Rightarrow> xml_decoder \<Rightarrow> string \<Rightarrow> http_request list \<Rightarrow> (error + json) \<times> http_request list" where
  "getCtag net xml calendarUrl trace =
     (case axios_request net (\<lambda>status. status = 207) (ctag_request calendarUrl) trace of
        (Inl e, tr) \<Rightarrow> (Inl e, tr)
      | (Inr response, tr) \<Rightarrow>
          (case xml (resp_data response) of
             Inl e \<Rightarrow> (Inl e, tr)
           | Inr jsonData \<Rightarrow>
               (js_path jsonData [''multistatus'', ''response'', ''propstat'', ''prop'', ''getctag''], tr)))"

definition refs_request :: "string \<Rightarrow> string \<Rightarrow> http_request" where
  "refs_request calendarUrl component =
     \<lparr>req_method = ''REPORT'', req_url = calendarUrl,
      req_headers = [(''Depth'', ''1'')], req_body = EtagCalendarQuery component\<rparr>"

text \<open>\<open>typeof v === "object"\<close> on a value that is not \<open>null\<close>.\<close>

fun is_object :: "json \<Rightarrow> bool" where
  "is_object (JObject fs) = True"
| "is_object (JArray vs) = True"
| "is_object v = False"

text \<open>The loop of \<open>getItemRefs\<close> over the response entries.\<close>

fun collect_refs :: "json list \<Rightarrow> (json, json) item_ref list \<Rightarrow> (json, json) item_ref list" where
  "collect_refs [] refs = refs"
| "collect_refs (obj # rest) refs =
     (if \<not> truthy obj \<or> \<not> is_object obj then collect_refs rest refs
      else
        (let resultHref = js_opt_get obj ''href'';
             resultEtag = js_opt_path obj [''propstat'', ''prop'', ''getetag'']
         in if truthy resultHref \<and> truthy resultEtag
            then collect_refs rest (refs @ [\<lparr>href = resultHref, etag = resultEtag\<rparr>])
            else collect_refs rest refs))"

definition getItemRefs ::
  "transport \<Rightarrow> xml_decoder \<Rightarrow> string \<Rightarrow> string \<Rightarrow> http_request list
     \<Rightarrow> (error + (json, json) item_ref list) \<times> http_request list" where
  "getItemRefs net xml calendarUrl component trace =
     (case axios_request net (\<lambda>status. 200 \<le> status \<and> status < 300)
             (refs_request calendarUrl component) trace of
        (Inl e, tr) \<Rightarrow> (Inl e, tr)
      | (Inr response, tr) \<Rightarrow>
          (case xml (resp_data response) of
             Inl e \<Rightarrow> (Inl e, tr)
           | Inr jsonData \<Rightarrow>
               (let rawResponses = js_opt_path jsonData [''multistatus'', ''response'']
                in if \<not> truthy rawResponses then (Inr [], tr)
                   else (let responses = (case rawResponses of JArray vs \<Rightarrow> vs | v \<Rightarrow> [v])
                         in (Inr (collect_refs responses []), tr)))))"

section \<open>Synchronisation\<close>

record sync_changes_result =
  changed :: bool
  newCtag :: json
  newEvents :: "json list"
  updatedEvents :: "json list"
  deletedEvents :: "json list"

record sync_todos_result =
  todos_changed :: bool
  todos_newCtag :: json
  newTodos :: "json list"
  updatedTodos :: "json list"
  deletedTodos :: "json list"

text \<open>
  \<open>syncChanges(calendarUrl, ctag, localEvents)\<close>; \<open>ctag\<close> is \<open>JUndefined\<close> when the caller
  passes none.
\<close>

definition syncChanges ::
  "transport \<Rightarrow> xml_decoder \<Rightarrow> string \<Rightarrow> json \<Rightarrow> (json, json) item_ref list \<Rightarrow> http_request list
     \<Rightarrow> (error + sync_changes_result) \<times> http_request list" where
  "syncChanges net xml calendarUrl ctag localEvents trace =
     (case getCtag net xml calendarUrl trace of
        (Inl e, tr) \<Rightarrow> (Inl e, tr)
      | (Inr remoteCtag, tr) \<Rightarrow>
          if \<not> truthy ctag \<or> ctag = remoteCtag then
            (Inr \<lparr>changed = False, newCtag = remoteCtag,
                  newEvents = [], updatedEvents = [], deletedEvents = []\<rparr>, tr)
          else
            (case getItemRefs net xml calendarUrl ''VEVENT'' tr of
               (Inl e, tr') \<Rightarrow> (Inl e, tr')
             | (Inr remoteRefs, tr') \<Rightarrow>
                 (let d = diffRefs remoteRefs localEvents
                  in (Inr \<lparr>changed = True, newCtag = remoteCtag,
                        newEvents = newItems d, updatedEvents = updatedItems d,
                        deletedEvents = deletedItems d\<rparr>, tr'))))"

definition syncTodoChanges ::
  "transport \<Rightarrow> xml_decoder \<Rightarrow> string \<Rightarrow> json \<Rightarrow> (json, json) item_ref list \<Rightarrow> http_request list
     \<Rightarrow> (error + sync_todos_result) \<times> http_request list" where
  "syncTodoChanges net xml calendarUrl ctag localTodos trace =
     (case getCtag net xml calendarUrl trace of
        (Inl e, tr) \<Rightarrow> (Inl e, tr)
      | (Inr remoteCtag, tr) \<Rightarrow>
          if \<not> truthy ctag \<or> ctag = remoteCtag then
            (Inr \<lparr>todos_changed = False, todos_newCtag = remoteCtag,
                  newTodos = [], updatedTodos = [], deletedTodos = []\<rparr>, tr)
          else
            (case getItemRefs net xml calendarUrl ''VTODO'' tr of
               (Inl e, tr') \<Rightarrow> (Inl e, tr')
             | (Inr remoteRefs, tr') \<Rightarrow>
                 (let d = diffRefs remoteRefs localTodos
                  in (Inr \<lparr>todos_changed = True, todos_newCtag = remoteCtag,
                        newTodos = newItems d, updatedTodos = updatedItems d,
                        deletedTodos = deletedItems d\<rparr>, tr'))))"

section \<open>An example server\<close>

text \<open>
  A transport that answers the change-tag query and the reference query with status 207,
  a write to \<open>/cal/taken.ics\<close> with status 412 and any other write with status 201 and an
  etag; and a decoder for its bodies: the change tag \<open>abc\<close>, and two references.
\<close>

definition example_transport :: transport where
  "example_transport trace req =
     (if req_body req = CtagPropfind
      then Some \<lparr>resp_status = 207, resp_headers = [], resp_data = ''ctag''\<rparr>
      else if req_method req = ''PUT''
      then (if req_url req = ''/cal/taken.ics''
            then Some \<lparr>resp_status = 412, resp_headers = [], resp_data = []\<rparr>
            else Some \<lparr>resp_status = 201, resp_headers = [(''etag'', ''v1'')], resp_data = []\<rparr>)
      else Some \<lparr>resp_status = 207, resp_headers = [], resp_data = ''refs''\<rparr>)"

definition example_xml :: xml_decoder where
  "example_xml body =
     (if body = ''ctag'' then
        Inr (JObject [(''multistatus'', JObject [(''response'', JObject [(''propstat'',
               JObject [(''prop'', JObject [(''getctag'', JString ''abc'')])])])])])
      else
        Inr (JObject [(''multistatus'', JObject [(''response'', JArray
               [JObject [(''href'', JString ''/cal/a.ics''),
                         (''propstat'', JObject [(''prop'', JObject [(''getetag'', JString ''2'')])])],
                JObject [(''href'', JString ''/cal/b.ics''),
                         (''propstat'', JObject [(''prop'', JObject [(''getetag'', JString ''7'')])])]])])]))"

section \<open>Writes: create and update\<close>

text \<open>\<open>s.slice(0, -1)\<close> when \<open>s\<close> ends with a slash, \<open>s\<close> otherwise.\<close>

definition strip_slash :: "string \<Rightarrow> string" where
  "strip_slash s = (if endsWith s ''/'' then butlast s else s)"

text \<open>\<open>c.toUpperCase()\<close> and \<open>c.toLowerCase()\<close> on an ASCII character.\<close>

definition upper_char :: "char \<Rightarrow> char" where
  "upper_char c =
     (case map_of (zip ''abcdefghijklmnopqrstuvwxyz'' ''ABCDEFGHIJKLMNOPQRSTUVWXYZ'') c of
        None \<Rightarrow> c
      | Some u \<Rightarrow> u)"

definition lower_char :: "char \<Rightarrow> char" where
  "lower_char c =
     (case map_of (zip ''ABCDEFGHIJKLMNOPQRSTUVWXYZ'' ''abcdefghijklmnopqrstuvwxyz'') c of
        None \<Rightarrow> c
      | Some l \<Rightarrow> l)"

text \<open>
  \<open>itemType[0].toUpperCase() + itemType.slice(1)\<close>; on the empty string \<open>itemType[0]\<close>
  is \<open>undefined\<close>.
\<close>

definition capitalize :: "string \<Rightarrow> error + string" where
  "capitalize s = (case s of [] \<Rightarrow> Inl TypeError | c # cs \<Rightarrow> Inr (upper_char c # cs))"

record mutation_result =
  res_uid :: string
  res_href :: string
  res_etag :: string
  res_newCtag :: json

text \<open>\<open>response.headers["etag"] || ""\<close>.\<close>

definition header_etag :: "http_response \<Rightarrow> string" where
  "header_etag response = (case map_of (resp_headers response) ''etag'' of None \<Rightarrow> [] | Some v \<Rightarrow> v)"

text \<open>The \<open>catch\<close> block of \<open>createItem\<close>: what it throws for a caught error.\<close>

definition create_catch :: "string \<Rightarrow> error \<Rightarrow> error" where
  "create_catch itemType e =
     (if e = AxiosError (Some 412) then
        (case capitalize itemType of
           Inl t \<Rightarrow> t
         | Inr name \<Rightarrow> Error (name @ '' with the specified uid already exists.''))
      else ErrorWith (''Failed to create '' @ itemType @ '': '') e)"

definition create_request :: "string \<Rightarrow> string \<Rightarrow> http_request" where
  "create_request target ics =
     \<lparr>req_method = ''PUT'', req_url = target,
      req_headers = [(''Content-Type'', ''text/calendar; charset=utf-8''), (''If-None-Match'', ''*'')],
      req_body = CalendarObject ics\<rparr>"

text \<open>
  \<open>createItem(calendarUrl, data, buildFn, itemType)\<close>. \<open>data_uid\<close> is \<open>data.uid\<close>,
  \<open>fresh_uid\<close> the identifier the generator would deliver, \<open>build\<close> is \<open>buildFn\<close> on
  \<open>data\<close>. The empty \<open>calendarUrl\<close> stands for every falsy one.
\<close>

definition createItem ::
  "transport \<Rightarrow> xml_decoder \<Rightarrow> string \<Rightarrow> string \<Rightarrow> string option \<Rightarrow> (string \<Rightarrow> error + string)
     \<Rightarrow> string \<Rightarrow> http_request list \<Rightarrow> (error + mutation_result) \<times> http_request list" where
  "createItem net xml fresh_uid calendarUrl data_uid build itemType trace =
     (if calendarUrl = [] then
        (Inl (Error (''Calendar URL is required to create a '' @ itemType @ ''.'')), trace)
      else
        (let uid = (case data_uid of None \<Rightarrow> fresh_uid | Some u \<Rightarrow> if u = [] then fresh_uid else u);
             calendarUrl' = strip_slash calendarUrl;
             target = calendarUrl' @ ''/'' @ uid @ ''.ics''
         in case build uid of
              Inl e \<Rightarrow> (Inl e, trace)
            | Inr ics \<Rightarrow>
                (case axios_request net (\<lambda>status. status = 201 \<or> status = 204)
                        (create_request target ics) trace of
                   (Inl e, tr) \<Rightarrow> (Inl (create_catch itemType e), tr)
                 | (Inr response, tr) \<Rightarrow>
                     (case getCtag net xml calendarUrl' tr of
                        (Inl e, tr') \<Rightarrow> (Inl (create_catch itemType e), tr')
                      | (Inr newCtag', tr') \<Rightarrow>
                          (Inr \<lparr>res_uid = uid,
                                res_href = (if endsWith calendarUrl' ''/'' then calendarUrl'
                                            else calendarUrl' @ ''/'') @ uid @ ''.ics'',
                                res_etag = header_etag response,
                                res_newCtag = newCtag'\<rparr>, tr')))))"

text \<open>\<open>etag.replace(/^W\//, "")\<close>.\<close>

definition strip_weak :: "string \<Rightarrow> string" where
  "strip_weak s = (if startsWith s ''W/'' then drop 2 s else s)"

text \<open>
  \<open>s.trim()\<close>. Of the 8-bit characters, the white space of JavaScript is the tab, the
  line feed, the vertical tab, the form feed, the carriage return, the space and the
  no-break space.
\<close>

definition is_space :: "char \<Rightarrow> bool" where
  "is_space c =
     (c \<in> set [CHR 0x09, CHR 0x0A, CHR 0x0B, CHR 0x0C, CHR 0x0D, CHR 0x20, CHR 0xA0])"

definition trim :: "string \<Rightarrow> string" where
  "trim s = rev (dropWhile is_space (rev (dropWhile is_space s)))"

text \<open>
  \<open>isWeak(etag)\<close>: \<open>etag?.startsWith('W/"') || etag?.startsWith("W/")\<close>; \<open>None\<close> is
  \<open>undefined\<close>, on which the result is falsy.
\<close>

definition isWeak :: "string option \<Rightarrow> bool" where
  "isWeak tag =
     (case tag of
        None \<Rightarrow> False
      | Some e \<Rightarrow> startsWith e (''W/'' @ [CHR 0x22]) \<or> startsWith e ''W/'')"

text \<open>The headers of the write of \<open>updateItem\<close>, from \<open>item.etag\<close>.\<close>

definition update_headers :: "string option \<Rightarrow> (string \<times> string) list" where
  "update_headers item_etag =
     (let ifMatch = map_option (\<lambda>e. trim (strip_weak e)) item_etag;
          ifMatchValue = (if isWeak ifMatch then None else ifMatch)
      in [(''Content-Type'', ''text/calendar; charset=utf-8'')]
         @ (case ifMatchValue of
              None \<Rightarrow> []
            | Some v \<Rightarrow> if v \<noteq> [] then [(''If-Match'', v)] else []))"

definition update_request :: "string \<Rightarrow> string option \<Rightarrow> string \<Rightarrow> http_request" where
  "update_request item_href item_etag ics =
     \<lparr>req_method = ''PUT'', req_url = item_href,
      req_headers = update_headers item_etag, req_body = CalendarObject ics\<rparr>"

text \<open>The \<open>catch\<close> block of \<open>updateItem\<close>.\<close>

definition update_catch :: "string \<Rightarrow> error \<Rightarrow> error" where
  "update_catch itemType e =
     (if e = AxiosError (Some 412) then
        (case capitalize itemType of
           Inl t \<Rightarrow> t
         | Inr name \<Rightarrow> Error (name @ '' with the specified uid does not match.''))
      else ErrorWith (''Failed to update '' @ itemType @ '': '') e)"

text \<open>
  \<open>updateItem(calendarUrl, item, buildFn, itemType)\<close>, on \<open>item.uid\<close>, \<open>item.href\<close> (empty
  when absent) and \<open>item.etag\<close> (\<open>None\<close> when absent).
\<close>

definition updateItem ::
  "transport \<Rightarrow> xml_decoder \<Rightarrow> string \<Rightarrow> string \<Rightarrow> string \<Rightarrow> string option
     \<Rightarrow> (string \<Rightarrow> error + string) \<Rightarrow> string \<Rightarrow> http_request list
     \<Rightarrow> (error + mutation_result) \<times> http_request list" where
  "updateItem net xml calendarUrl item_uid item_href item_etag build itemType trace =
     (if item_uid = [] \<or> item_href = [] then
        (Inl (Error (''Both '' @ [CHR 0x27] @ ''uid'' @ [CHR 0x27] @ '' and '' @ [CHR 0x27] @ ''href''
                     @ [CHR 0x27] @ '' are required to update a '' @ itemType @ ''.'')), trace)
      else
        (let normalizedUrl = strip_slash calendarUrl
         in case build item_uid of
              Inl e \<Rightarrow> (Inl e, trace)
            | Inr ics \<Rightarrow>
                (case axios_request net (\<lambda>status. 200 \<le> status \<and> status < 300)
                        (update_request item_href item_etag ics) trace of
                   (Inl e, tr) \<Rightarrow> (Inl (update_catch itemType e), tr)
                 | (Inr response, tr) \<Rightarrow>
                     (case getCtag net xml normalizedUrl tr of
                        (Inl e, tr') \<Rightarrow> (Inl (update_catch itemType e), tr')
                      | (Inr newCtag', tr') \<Rightarrow>
                          (Inr \<lparr>res_uid = item_uid, res_href = item_href,
                                res_etag = header_etag response,
                                res_newCtag = newCtag'\<rparr>, tr')))))"

section \<open>Dates\<close>

text \<open>
  A \<open>Date\<close>: invalid, or given by its UTC fields (year, month from 1, day, hours, minutes,
  seconds, milliseconds).
\<close>

datatype jsdate =
    InvalidDate
  | UTCDate int nat nat nat nat nat nat

definition digit_char :: "nat \<Rightarrow> char" where
  "digit_char n = ''0123456789'' ! (n mod 10)"

definition pad2 :: "nat \<Rightarrow> string" where
  "pad2 n = [digit_char (n div 10), digit_char n]"

definition pad3 :: "nat \<Rightarrow> string" where
  "pad3 n = digit_char (n div 100) # pad2 n"

definition pad4 :: "nat \<Rightarrow> string" where
  "pad4 n = digit_char (n div 1000) # pad3 n"

definition pad6 :: "nat \<Rightarrow> string" where
  "pad6 n = digit_char (n div 100000) # digit_char (n div 10000) # pad4 n"

text \<open>The year of \<open>toISOString\<close>: four digits, or a sign and six digits.\<close>

definition iso_year :: "int \<Rightarrow> string" where
  "iso_year y =
     (if 0 \<le> y \<and> y \<le> 9999 then pad4 (nat y)
      else (if y < 0 then ''-'' else ''+'') @ pad6 (nat \<bar>y\<bar>))"

text \<open>\<open>date.toISOString()\<close>, which throws a \<open>RangeError\<close> on an invalid date.\<close>

fun toISOString :: "jsdate \<Rightarrow> error + string" where
  "toISOString InvalidDate = Inl RangeError"
| "toISOString (UTCDate y mo d h mi s ms) =
     Inr (iso_year y @ ''-'' @ pad2 mo @ ''-'' @ pad2 d @ ''T'' @ pad2 h @ '':'' @ pad2 mi
          @ '':'' @ pad2 s @ ''.'' @ pad3 ms @ ''Z'')"

text \<open>\<open>s.split("T")[0]\<close>.\<close>

definition split_T_first :: "string \<Rightarrow> string" where
  "split_T_first s = takeWhile (\<lambda>c. c \<noteq> CHR ''T'') s"

text \<open>\<open>formatDateOnly(date)\<close>: \<open>date.toISOString().split("T")[0].replace(/-/g, "")\<close>.\<close>

definition formatDateOnly :: "jsdate \<Rightarrow> error + string" where
  "formatDateOnly date =
     (case toISOString date of
        Inl e \<Rightarrow> Inl e
      | Inr isoText \<Rightarrow> Inr (filter (\<lambda>c. c \<noteq> CHR ''-'') (split_T_first isoText)))"

text \<open>Decimal text of a number, and \<open>xs.join(",")\<close>.\<close>

fun nat_str :: "nat \<Rightarrow> string" where
  "nat_str n = (if n < 10 then [digit_char n] else nat_str (n div 10) @ [digit_char n])"

definition int_str :: "int \<Rightarrow> string" where
  "int_str i = (if i < 0 then ''-'' @ nat_str (nat (- i)) else nat_str (nat i))"

fun join_comma :: "string list \<Rightarrow> string" where
  "join_comma [] = []"
| "join_comma [x] = x"
| "join_comma (x # y # ys) = x @ '','' @ join_comma (y # ys)"

section \<open>The calendar object tree\<close>

text \<open>
  The calendar codec is an external library. What the client hands to it is modelled as
  data: a component has a name, properties and sub-components; a property has a name,
  parameters and a value. The values the client builds are a text, a number, a date-only
  value made from a date string (\<open>Time.fromDateString\<close>), a UTC date-time made from a
  \<open>Date\<close> (\<open>Time.fromJSDate(d, true)\<close>), and the parts of a recurrence rule.
\<close>

datatype recur_part =
    PartText string
  | PartNumber int
  | PartUtcTime jsdate

datatype ical_value =
    TextValue string
  | NumberValue int
  | DateValue string
  | UtcTimeValue jsdate
  | RecurValue "(string \<times> recur_part) list"

record property =
  prop_name :: string
  prop_params :: "(string \<times> string) list"
  prop_value :: ical_value

datatype component = Component string "property list" "component list"

fun comp_name :: "component \<Rightarrow> string" where
  "comp_name (Component n ps cs) = n"

fun comp_props :: "component \<Rightarrow> property list" where
  "comp_props (Component n ps cs) = ps"

fun comp_subs :: "component \<Rightarrow> component list" where
  "comp_subs (Component n ps cs) = cs"

text \<open>\<open>c.addPropertyWithValue(name, value)\<close>, and the same followed by \<open>setParameter\<close>.\<close>

fun addPropertyWithValue :: "string \<Rightarrow> ical_value \<Rightarrow> component \<Rightarrow> component" where
  "addPropertyWithValue name v (Component n ps cs) =
     Component n (ps @ [\<lparr>prop_name = name, prop_params = [], prop_value = v\<rparr>]) cs"

fun addPropertyWithParameter ::
  "string \<Rightarrow> ical_value \<Rightarrow> string \<times> string \<Rightarrow> component \<Rightarrow> component" where
  "addPropertyWithParameter name v param (Component n ps cs) =
     Component n (ps @ [\<lparr>prop_name = name, prop_params = [param], prop_value = v\<rparr>]) cs"

fun addSubcomponent :: "component \<Rightarrow> component \<Rightarrow> component" where
  "addSubcomponent sub (Component n ps cs) = Component n ps (cs @ [sub])"

text \<open>
  Assigning a field of the codec's event facade (\<open>e.uid = ...\<close>, \<open>e.summary = ...\<close>) sets the
  value of the first property of that name and adds the property when there is none.
  Assigning \<open>e.startDate\<close> or \<open>e.endDate\<close> a value without a time zone of its own (a date,
  a UTC time) does the same and leaves the property without a \<open>tzid\<close> parameter.
\<close>

fun set_first :: "string \<Rightarrow> (property \<Rightarrow> property) \<Rightarrow> property list \<Rightarrow> property list" where
  "set_first name f [] = []"
| "set_first name f (p # ps) =
     (if prop_name p = name then f p # ps else p # set_first name f ps)"

fun assign_field :: "string \<Rightarrow> ical_value \<Rightarrow> component \<Rightarrow> component" where
  "assign_field name v (Component n ps cs) =
     (if list_ex (\<lambda>p. prop_name p = name) ps
      then Component n (set_first name (\<lambda>p. p\<lparr>prop_value := v\<rparr>) ps) cs
      else Component n (ps @ [\<lparr>prop_name = name, prop_params = [], prop_value = v\<rparr>]) cs)"

fun assign_time :: "string \<Rightarrow> ical_value \<Rightarrow> component \<Rightarrow> component" where
  "assign_time name v (Component n ps cs) =
     (if list_ex (\<lambda>p. prop_name p = name) ps
      then Component n
             (set_first name
                (\<lambda>p. p\<lparr>prop_params := filter (\<lambda>kv. fst kv \<noteq> ''tzid'') (prop_params p),
                        prop_value := v\<rparr>) ps) cs
      else Component n (ps @ [\<lparr>prop_name = name, prop_params = [], prop_value = v\<rparr>]) cs)"

section \<open>Events, todos and their encoding\<close>

record recurrence_rule =
  freq :: "string option"
  interval :: "int option"
  count :: "int option"
  until :: "jsdate option"
  byday :: "string list option"
  bymonthday :: "int list option"
  bymonth :: "int list option"

datatype alarm =
    DisplayAlarm string "string option"
  | EmailAlarm string "string option" "string option" "string list"
  | AudioAlarm string

record event =
  ev_uid :: "string option"
  ev_summary :: string
  ev_start :: jsdate
  ev_end :: jsdate
  ev_description :: "string option"
  ev_location :: "string option"
  ev_etag :: "string option"
  ev_href :: string
  ev_wholeDay :: bool
  ev_recurrenceRule :: "recurrence_rule option"
  ev_startTzid :: "string option"
  ev_endTzid :: "string option"
  ev_alarms :: "alarm list option"

record todo =
  td_uid :: "string option"
  td_summary :: string
  td_start :: "jsdate option"
  td_due :: "jsdate option"
  td_completed :: "jsdate option"
  td_status :: "string option"
  td_description :: "string option"
  td_location :: "string option"
  td_etag :: "string option"
  td_href :: string
  td_alarms :: "alarm list option"
  td_sortOrder :: "int option"

text \<open>A string that is present and not empty, as \<open>if (s)\<close> tests it; \<open>s || ""\<close>.\<close>

definition truthy_str :: "string option \<Rightarrow> bool" where
  "truthy_str s = (case s of None \<Rightarrow> False | Some t \<Rightarrow> t \<noteq> [])"

definition or_empty :: "string option \<Rightarrow> string" where
  "or_empty s = (case s of None \<Rightarrow> [] | Some t \<Rightarrow> t)"

text \<open>The parts of \<open>rruleProps\<close>, in the order the fields are tested.\<close>

definition rruleProps :: "recurrence_rule \<Rightarrow> (string \<times> recur_part) list" where
  "rruleProps r =
     (if truthy_str (freq r) then [(''FREQ'', PartText (the (freq r)))] else [])
     @ (case interval r of None \<Rightarrow> [] | Some i \<Rightarrow> if i \<noteq> 0 then [(''INTERVAL'', PartNumber i)] else [])
     @ (case count r of None \<Rightarrow> [] | Some c \<Rightarrow> if c \<noteq> 0 then [(''COUNT'', PartNumber c)] else [])
     @ (case until r of None \<Rightarrow> [] | Some u \<Rightarrow> [(''UNTIL'', PartUtcTime u)])
     @ (case byday r of None \<Rightarrow> [] | Some ds \<Rightarrow> [(''BYDAY'', PartText (join_comma ds))])
     @ (case bymonthday r of None \<Rightarrow> []
        | Some ds \<Rightarrow> [(''BYMONTHDAY'', PartText (join_comma (map int_str ds)))])
     @ (case bymonth r of None \<Rightarrow> []
        | Some ms \<Rightarrow> [(''BYMONTH'', PartText (join_comma (map int_str ms)))])"

text \<open>The \<open>valarm\<close> component of one alarm.\<close>

fun build_valarm :: "alarm \<Rightarrow> component" where
  "build_valarm (DisplayAlarm trigger description) =
     Component ''valarm''
       ([\<lparr>prop_name = ''trigger'', prop_params = [], prop_value = TextValue trigger\<rparr>,
         \<lparr>prop_name = ''action'', prop_params = [], prop_value = TextValue ''DISPLAY''\<rparr>]
        @ (if truthy_str description
           then [\<lparr>prop_name = ''description'', prop_params = [],
                   prop_value = TextValue (the description)\<rparr>]
           else [])) []"
| "build_valarm (EmailAlarm trigger description summary attendees) =
     Component ''valarm''
       ([\<lparr>prop_name = ''trigger'', prop_params = [], prop_value = TextValue trigger\<rparr>,
         \<lparr>prop_name = ''action'', prop_params = [], prop_value = TextValue ''EMAIL''\<rparr>]
        @ (if truthy_str summary
           then [\<lparr>prop_name = ''summary'', prop_params = [], prop_value = TextValue (the summary)\<rparr>]
           else [])
        @ (if truthy_str description
           then [\<lparr>prop_name = ''description'', prop_params = [],
                   prop_value = TextValue (the description)\<rparr>]
           else [])
        @ map (\<lambda>a. \<lparr>prop_name = ''attendee'', prop_params = [], prop_value = TextValue a\<rparr>)
            attendees) []"
| "build_valarm (AudioAlarm trigger) =
     Component ''valarm''
       [\<lparr>prop_name = ''trigger'', prop_params = [], prop_value = TextValue trigger\<rparr>,
        \<lparr>prop_name = ''action'', prop_params = [], prop_value = TextValue ''AUDIO''\<rparr>] []"

text \<open>The loop over the alarms.\<close>

definition add_alarms :: "alarm list option \<Rightarrow> component \<Rightarrow> component" where
  "add_alarms as c =
     (case as of None \<Rightarrow> c | Some al \<Rightarrow> fold (\<lambda>a. addSubcomponent (build_valarm a)) al c)"

text \<open>
  The start and end of the event component: the branch on \<open>event.wholeDay\<close> of
  \<open>buildICSData\<close>.
\<close>

definition add_event_times :: "event \<Rightarrow> component \<Rightarrow> error + component" where
  "add_event_times event vevent =
     (if ev_wholeDay event then
        (case toISOString (ev_start event) of
           Inl e \<Rightarrow> Inl e
         | Inr isoStart \<Rightarrow>
             (let vevent1 = assign_time ''dtstart'' (DateValue (split_T_first isoStart)) vevent
              in case toISOString (ev_end event) of
                   Inl e \<Rightarrow> Inl e
                 | Inr isoEnd \<Rightarrow>
                     Inr (assign_time ''dtend'' (DateValue (split_T_first isoEnd)) vevent1)))
      else
        (let start = UtcTimeValue (ev_start event);
             end' = UtcTimeValue (ev_end event);
             vevent1 =
               (if truthy_str (ev_startTzid event)
                then addPropertyWithParameter ''dtstart'' start
                       (''tzid'', the (ev_startTzid event)) vevent
                else assign_time ''dtstart'' start vevent)
         in Inr (if truthy_str (ev_endTzid event)
                 then addPropertyWithParameter ''dtend'' end'
                        (''tzid'', the (ev_endTzid event)) vevent1
                 else assign_time ''dtend'' end' vevent1)))"

text \<open>
  \<open>buildICSData(event, uid)\<close>, up to the final \<open>vcalendar.toString()\<close>: the tree that is
  serialised. \<open>now\<close> is \<open>new Date()\<close>.
\<close>

definition buildICSData :: "string \<Rightarrow> jsdate \<Rightarrow> event \<Rightarrow> string \<Rightarrow> error + component" where
  "buildICSData prodId now event uid =
     (let vcalendar =
            addPropertyWithValue ''prodid'' (TextValue prodId)
              (addPropertyWithValue ''method'' (TextValue ''REQUEST'')
                 (addPropertyWithValue ''version'' (TextValue ''2.0'')
                    (Component ''vcalendar'' [] [])));
          vevent0 =
            addPropertyWithValue ''dtstamp'' (UtcTimeValue now)
              (assign_field ''uid'' (TextValue uid) (Component ''vevent'' [] []))
      in case add_event_times event vevent0 of
           Inl e \<Rightarrow> Inl e
         | Inr vevent1 \<Rightarrow>
             (let vevent2 =
                    assign_field ''location'' (TextValue (or_empty (ev_location event)))
                      (assign_field ''description'' (TextValue (or_empty (ev_description event)))
                         (assign_field ''summary'' (TextValue (ev_summary event)) vevent1));
                  vevent3 =
                    (case ev_recurrenceRule event of
                       None \<Rightarrow> vevent2
                     | Some r \<Rightarrow> addPropertyWithValue ''rrule'' (RecurValue (rruleProps r)) vevent2)
              in Inr (addSubcomponent (add_alarms (ev_alarms event) vevent3) vcalendar)))"

text \<open>\<open>buildTodoICSData(todo, uid)\<close>, up to the final \<open>vcalendar.toString()\<close>.\<close>

definition add_optional_time :: "string \<Rightarrow> jsdate option \<Rightarrow> component \<Rightarrow> component" where
  "add_optional_time name d c =
     (case d of None \<Rightarrow> c | Some t \<Rightarrow> addPropertyWithValue name (UtcTimeValue t) c)"

definition add_optional_text :: "string \<Rightarrow> string option \<Rightarrow> component \<Rightarrow> component" where
  "add_optional_text name s c =
     (if truthy_str s then addPropertyWithValue name (TextValue (the s)) c else c)"

definition buildTodoICSData :: "string \<Rightarrow> jsdate \<Rightarrow> todo \<Rightarrow> string \<Rightarrow> error + component" where
  "buildTodoICSData prodId now todo uid =
     (let vcalendar =
            addPropertyWithValue ''prodid'' (TextValue prodId)
              (addPropertyWithValue ''version'' (TextValue ''2.0'')
                 (Component ''vcalendar'' [] []));
          vtodo0 =
            addPropertyWithValue ''dtstamp'' (UtcTimeValue now)
              (addPropertyWithValue ''uid'' (TextValue uid) (Component ''vtodo'' [] []));
          vtodo1 =
            add_optional_time ''completed'' (td_completed todo)
              (add_optional_time ''due'' (td_due todo)
                 (add_optional_time ''dtstart'' (td_start todo) vtodo0));
          vtodo2 =
            add_optional_text ''status'' (td_status todo)
              (add_optional_text ''location'' (td_location todo)
                 (add_optional_text ''description'' (td_description todo)
                    (addPropertyWithValue ''summary'' (TextValue (td_summary todo)) vtodo1)));
          vtodo3 =
            (case td_sortOrder todo of
               None \<Rightarrow> vtodo2
             | Some n \<Rightarrow> addPropertyWithValue ''X-APPLE-SORT-ORDER'' (NumberValue n) vtodo2)
      in Inr (addSubcomponent (add_alarms (td_alarms todo) vtodo3) vcalendar))"

section \<open>The public write operations\<close>

text \<open>
  The client's own data: the transport, the XML decoder, the serialiser of the codec
  (\<open>toString\<close> of a component), the product identifier, and what \<open>new Date()\<close> and the
  identifier generator deliver during the call.
\<close>

record client =
  cl_net :: transport
  cl_xml :: xml_decoder
  cl_serialize :: "component \<Rightarrow> string"
  cl_prodId :: string
  cl_now :: jsdate
  cl_fresh_uid :: string

definition serialized :: "client \<Rightarrow> error + component \<Rightarrow> error + string" where
  "serialized cl r = (case r of Inl e \<Rightarrow> Inl e | Inr c \<Rightarrow> Inr (cl_serialize cl c))"

definition createEvent ::
  "client \<Rightarrow> string \<Rightarrow> event \<Rightarrow> http_request list \<Rightarrow> (error + mutation_result) \<times> http_request list" where
  "createEvent cl calendarUrl eventData trace =
     createItem (cl_net cl) (cl_xml cl) (cl_fresh_uid cl) calendarUrl (ev_uid eventData)
       (\<lambda>uid. serialized cl (buildICSData (cl_prodId cl) (cl_now cl) eventData uid))
       ''event'' trace"

definition createTodo ::
  "client \<Rightarrow> string \<Rightarrow> todo \<Rightarrow> http_request list \<Rightarrow> (error + mutation_result) \<times> http_request list" where
  "createTodo cl calendarUrl todoData trace =
     createItem (cl_net cl) (cl_xml cl) (cl_fresh_uid cl) calendarUrl (td_uid todoData)
       (\<lambda>uid. serialized cl (buildTodoICSData (cl_prodId cl) (cl_now cl) todoData uid))
       ''todo'' trace"

definition updateEvent ::
  "client \<Rightarrow> string \<Rightarrow> event \<Rightarrow> http_request list \<Rightarrow> (error + mutation_result) \<times> http_request list" where
  "updateEvent cl calendarUrl event trace =
     updateItem (cl_net cl) (cl_xml cl) calendarUrl (or_empty (ev_uid event)) (ev_href event)
       (ev_etag event)
       (\<lambda>uid. serialized cl (buildICSData (cl_prodId cl) (cl_now cl) event uid))
       ''event'' trace"

definition updateTodo ::
  "client \<Rightarrow> string \<Rightarrow> todo \<Rightarrow> http_request list \<Rightarrow> (error + mutation_result) \<times> http_request list" where
  "updateTodo cl calendarUrl todo trace =
     updateItem (cl_net cl) (cl_xml cl) calendarUrl (or_empty (td_uid todo)) (td_href todo)
       (td_etag todo)
       (\<lambda>uid. serialized cl (buildTodoICSData (cl_prodId cl) (cl_now cl) todo uid))
       ''todo'' trace"

text \<open>A client on the example server, an event and a todo.\<close>

definition example_client :: client where
  "example_client =
     \<lparr>cl_net = example_transport, cl_xml = example_xml,
      cl_serialize = (\<lambda>c. ''BEGIN:VCALENDAR''), cl_prodId = ''-//example//EN'',
      cl_now = UTCDate 2024 1 1 0 0 0 0, cl_fresh_uid = ''fresh''\<rparr>"

definition example_event :: event where
  "example_event =
     \<lparr>ev_uid = Some ''e1'', ev_summary = ''Standup'',
      ev_start = UTCDate 2024 1 1 9 0 0 0, ev_end = UTCDate 2024 1 1 9 30 0 0,
      ev_description = None, ev_location = None, ev_etag = None, ev_href = ''/cal/e1.ics'',
      ev_wholeDay = False,
      ev_recurrenceRule = Some \<lparr>freq = Some ''WEEKLY'', interval = None, count = None,
        until = None, byday = Some [''MO''], bymonthday = None, bymonth = None\<rparr>,
      ev_startTzid = None, ev_endTzid = None, ev_alarms = None\<rparr>"

definition example_todo :: todo where
  "example_todo =
     \<lparr>td_uid = Some ''t1'', td_summary = ''Buy milk'', td_start = None, td_due = None,
      td_completed = None, td_status = None, td_description = None, td_location = None,
      td_etag = None, td_href = ''/cal/t1.ics'', td_alarms = None, td_sortOrder = None\<rparr>"

section \<open>Parsing the calendar listing\<close>

text \<open>\<open>s.includes(t)\<close>, and \<open>s.toLowerCase()\<close> on ASCII text.\<close>

fun str_includes :: "string \<Rightarrow> string \<Rightarrow> bool" where
  "str_includes [] t = (t = [])"
| "str_includes (c # cs) t = (startsWith (c # cs) t \<or> str_includes cs t)"

definition toLowerCase :: "string \<Rightarrow> string" where
  "toLowerCase s = map lower_char s"

text \<open>\<open>toArray(value)\<close>: \<open>Array.isArray(value) ? value : value ? [value] : []\<close>.\<close>

definition toArray :: "json \<Rightarrow> json list" where
  "toArray v = (case v of JArray vs \<Rightarrow> vs | _ \<Rightarrow> if truthy v then [v] else [])"

definition known_components :: "json list" where
  "known_components =
     [JString ''VEVENT'', JString ''VTODO'', JString ''VJOURNAL'', JString ''VFREEBUSY'',
      JString ''VTIMEZONE'', JString ''VAVAILABILITY'']"

text \<open>
  The predicate of \<open>propstats.find\<close>:
  \<open>typeof p?.status === "string" && p.status.toLowerCase().includes("200 ok")\<close>.
\<close>

definition status_ok :: "json \<Rightarrow> bool" where
  "status_ok p =
     (case js_opt_get p ''status'' of
        JString s \<Rightarrow> str_includes (toLowerCase s) ''200 ok''
      | _ \<Rightarrow> False)"

text \<open>\<open>compArray.map((c) => c.name)\<close>, which throws on an element that is \<open>undefined\<close>.\<close>

fun comp_names :: "json list \<Rightarrow> error + json list" where
  "comp_names [] = Inr []"
| "comp_names (c # cs) =
     (case js_get c ''name'' of
        Inl e \<Rightarrow> Inl e
      | Inr n \<Rightarrow> (case comp_names cs of Inl e \<Rightarrow> Inl e | Inr ns \<Rightarrow> Inr (n # ns)))"

text \<open>
  \<open>baseUrl ? new URL(res.href, baseUrl).toString() : res.href\<close>. Resolving a URL is the
  parameter \<open>resolve\<close>; it fails where the \<open>URL\<close> constructor throws.
\<close>

type_synonym url_resolver = "json \<Rightarrow> string \<Rightarrow> error + string"

definition entry_url :: "url_resolver \<Rightarrow> string option \<Rightarrow> json \<Rightarrow> error + json" where
  "entry_url resolve baseUrl res =
     (if truthy_str baseUrl then
        (case resolve (js_opt_get res ''href'') (the baseUrl) of
           Inl e \<Rightarrow> Inl e
         | Inr u \<Rightarrow> Inr (JString u))
      else Inr (js_opt_get res ''href''))"

record calendar =
  displayName :: json
  cal_url :: json
  cal_ctag :: json
  supportedComponents :: "json list"

text \<open>\<open>prop?.displayname ?? ""\<close>.\<close>

definition or_empty_text :: "json \<Rightarrow> json" where
  "or_empty_text v = (if v = JUndefined then JString [] else v)"

text \<open>The loop of \<open>parseCalendars\<close> over the response entries.\<close>

fun calendars_loop ::
  "url_resolver \<Rightarrow> string option \<Rightarrow> json list \<Rightarrow> calendar list \<Rightarrow> error + calendar list" where
  "calendars_loop resolve baseUrl [] calendars = Inr calendars"
| "calendars_loop resolve baseUrl (res # rest) calendars =
     (case find status_ok (toArray (js_opt_get res ''propstat'')) of
        None \<Rightarrow> calendars_loop resolve baseUrl rest calendars
      | Some okPropstat \<Rightarrow>
          (let prop = js_opt_get okPropstat ''prop'';
               compArray = toArray (js_opt_path prop [''supported-calendar-component-set'', ''comp''])
           in case comp_names compArray of
                Inl e \<Rightarrow> Inl e
              | Inr names \<Rightarrow>
                  (let supported = filter (\<lambda>name. name \<in> set known_components) names
                   in if JString ''VEVENT'' \<notin> set supported \<and> JString ''VTODO'' \<notin> set supported
                      then calendars_loop resolve baseUrl rest calendars
                      else
                        (case entry_url resolve baseUrl res of
                           Inl e \<Rightarrow> Inl e
                         | Inr u \<Rightarrow>
                             calendars_loop resolve baseUrl rest
                               (calendars @
                                  [\<lparr>displayName = or_empty_text (js_opt_get prop ''displayname''),
                                    cal_url = u,
                                    cal_ctag = js_opt_get prop ''getctag'',
                                    supportedComponents = supported\<rparr>])))))"

definition parseCalendars ::
  "xml_decoder \<Rightarrow> url_resolver \<Rightarrow> string \<Rightarrow> string option \<Rightarrow> error + calendar list" where
  "parseCalendars xml resolve responseData baseUrl =
     (case xml responseData of
        Inl e \<Rightarrow> Inl e
      | Inr jsonData \<Rightarrow>
          calendars_loop resolve baseUrl
            (toArray (js_opt_path jsonData [''multistatus'', ''response''])) [])"

text \<open>
  The listing rule in the words of the specification: of an entry, the first
  property-status block whose status contains \<open>200 ok\<close>; the names of its components that
  are among the six known kinds; the entry is listed when these hold \<open>VEVENT\<close> or
  \<open>VTODO\<close>. For a listed entry: its display name, change tag and kinds.
\<close>

definition first_ok_block :: "json \<Rightarrow> json option" where
  "first_ok_block entry = find status_ok (toArray (js_opt_get entry ''propstat''))"

definition known_kinds :: "json \<Rightarrow> json list" where
  "known_kinds block =
     filter (\<lambda>name. name \<in> set known_components)
       (map (\<lambda>c. js_opt_get c ''name'')
          (toArray (js_opt_path block [''prop'', ''supported-calendar-component-set'', ''comp''])))"

definition listed_entry :: "json \<Rightarrow> (json \<times> json \<times> json list) option" where
  "listed_entry entry =
     (case first_ok_block entry of
        None \<Rightarrow> None
      | Some block \<Rightarrow>
          if JString ''VEVENT'' \<in> set (known_kinds block) \<or> JString ''VTODO'' \<in> set (known_kinds block)
          then Some (or_empty_text (js_opt_path block [''prop'', ''displayname'']),
                     js_opt_path block [''prop'', ''getctag''], known_kinds block)
          else None)"

text \<open>
  A decoded listing of three entries: a calendar of events and todos whose first block is
  a failure, a journal, and an entry without a successful block.
\<close>

definition example_listing :: json where
  "example_listing =
     JObject [(''multistatus'', JObject [(''response'', JArray
       [JObject [(''href'', JString ''/cal/work/''),
          (''propstat'', JArray
            [JObject [(''status'', JString ''HTTP/1.1 404 Not Found'')],
             JObject [(''status'', JString ''HTTP/1.1 200 OK''),
               (''prop'', JObject [(''displayname'', JString ''Work''), (''getctag'', JString ''c1''),
                  (''supported-calendar-component-set'', JObject [(''comp'', JArray
                     [JObject [(''name'', JString ''VEVENT'')],
                      JObject [(''name'', JString ''VPOLL'')],
                      JObject [(''name'', JString ''VTODO'')]])])])]])],
        JObject [(''href'', JString ''/cal/journal/''),
          (''propstat'', JObject [(''status'', JString ''HTTP/1.1 200 OK''),
            (''prop'', JObject [(''displayname'', JString ''Journal''),
               (''supported-calendar-component-set'', JObject [(''comp'',
                  JObject [(''name'', JString ''VJOURNAL'')])])])])],
        JObject [(''href'', JString ''/cal/denied/''),
          (''propstat'', JObject [(''status'', JString ''HTTP/1.1 403 Forbidden'')])]])])]"

section \<open>Parsing events and todos\<close>

text \<open>
  \<open>s.replace(/&#13;/g, r)\<close>: every occurrence of \<open>&#13;\<close>, from left to right, becomes
  \<open>r\<close>. The counter is the number of characters of the current occurrence still to skip.
\<close>

fun replace_cr :: "string \<Rightarrow> nat \<Rightarrow> string \<Rightarrow> string" where
  "replace_cr r k [] = []"
| "replace_cr r (Suc k) (c # cs) = replace_cr r k cs"
| "replace_cr r 0 (c # cs) =
     (if startsWith (c # cs) ''&#13;'' then r @ replace_cr r (length ''#13;'') cs else c # replace_cr r 0 cs)"

text \<open>
  What the calendar codec delivers for the text of one calendar object is a parameter:
  the decoder fails where \<open>ICAL.parse\<close> throws, and otherwise gives the event (or todo)
  components of the object, each as the values the client reads from it through the
  codec: a time with its \<open>isDate\<close> flag and its \<open>toJSDate()\<close>, the \<open>tzid\<close> parameter of a
  property (absent, a text, or a list), the recurrence rule as \<open>Recur.fromString\<close> gives
  it (or the error it throws), the alarm components.
\<close>

record decoded_time =
  dt_isDate :: bool
  dt_date :: jsdate

record decoded_recur =
  rc_freq :: string
  rc_interval :: int
  rc_count :: "int option"
  rc_until :: "jsdate option"
  rc_BYDAY :: "string list option"
  rc_BYMONTHDAY :: "int list option"
  rc_BYMONTH :: "int list option"

record decoded_valarm =
  va_action :: "string option"
  va_trigger :: "string option"
  va_description :: "string option"
  va_summary :: "string option"
  va_attendees :: "string list"

record decoded_vevent =
  ve_uid :: "string option"
  ve_summary :: "string option"
  ve_startDate :: "decoded_time option"
  ve_endDate :: "decoded_time option"
  ve_description :: "string option"
  ve_location :: "string option"
  ve_dtstart_tzid :: json
  ve_dtend_tzid :: json
  ve_rrule :: "(error + decoded_recur) option"
  ve_valarms :: "decoded_valarm list"

text \<open>
  Of a todo component: a date property is absent, or has a value without \<open>toJSDate\<close>
  (\<open>Some None\<close>), or a time.
\<close>

record decoded_vtodo =
  vt_uid :: "string option"
  vt_summary :: "string option"
  vt_description :: "string option"
  vt_location :: "string option"
  vt_status :: "string option"
  vt_sortOrder :: "int option"
  vt_dtstart :: "jsdate option option"
  vt_due :: "jsdate option option"
  vt_completed :: "jsdate option option"
  vt_valarms :: "decoded_valarm list"

type_synonym event_decoder = "string \<Rightarrow> error + decoded_vevent list"

type_synonym todo_decoder = "string \<Rightarrow> error + decoded_vtodo list"

text \<open>The events and todos the parsers return; etag and href are as decoded from the XML.\<close>

record parsed_event =
  pe_uid :: "string option"
  pe_summary :: string
  pe_start :: jsdate
  pe_end :: jsdate
  pe_description :: "string option"
  pe_location :: "string option"
  pe_etag :: json
  pe_href :: json
  pe_wholeDay :: bool
  pe_recurrenceRule :: "recurrence_rule option"
  pe_startTzid :: json
  pe_endTzid :: json
  pe_alarms :: "alarm list"

record parsed_todo =
  pt_uid :: "string option"
  pt_summary :: string
  pt_start :: "jsdate option"
  pt_due :: "jsdate option"
  pt_completed :: "jsdate option"
  pt_status :: "string option"
  pt_description :: "string option"
  pt_location :: "string option"
  pt_etag :: json
  pt_href :: json
  pt_alarms :: "alarm list"
  pt_sortOrder :: "int option"

text \<open>\<open>normalizeParam(value)\<close>: the first element of an array, the value otherwise.\<close>

definition normalizeParam :: "json \<Rightarrow> json" where
  "normalizeParam v =
     (case v of JArray vs \<Rightarrow> (case vs of [] \<Rightarrow> JUndefined | x # xs \<Rightarrow> x) | _ \<Rightarrow> v)"

text \<open>\<open>parseRecurrence(recur)\<close>.\<close>

definition parseRecurrence :: "decoded_recur \<Rightarrow> recurrence_rule" where
  "parseRecurrence recur =
     \<lparr>freq = (if rc_freq recur \<in> set [''DAILY'', ''WEEKLY'', ''MONTHLY'', ''YEARLY'']
              then Some (rc_freq recur) else None),
      interval = Some (rc_interval recur),
      count = (case rc_count recur of None \<Rightarrow> None | Some c \<Rightarrow> if c \<noteq> 0 then Some c else None),
      until = rc_until recur,
      byday = rc_BYDAY recur,
      bymonthday = rc_BYMONTHDAY recur,
      bymonth = rc_BYMONTH recur\<rparr>"

text \<open>The loop over the alarm components, the same in both parsers.\<close>

fun convert_alarms :: "decoded_valarm list \<Rightarrow> alarm list \<Rightarrow> alarm list" where
  "convert_alarms [] alarms = alarms"
| "convert_alarms (valarm # rest) alarms =
     (if \<not> truthy_str (va_action valarm) \<or> \<not> truthy_str (va_trigger valarm)
      then convert_alarms rest alarms
      else if va_action valarm = Some ''DISPLAY''
      then convert_alarms rest
             (alarms @ [DisplayAlarm (the (va_trigger valarm)) (va_description valarm)])
      else if va_action valarm = Some ''EMAIL''
      then convert_alarms rest
             (alarms @ [EmailAlarm (the (va_trigger valarm)) (va_description valarm)
                          (va_summary valarm) (va_attendees valarm)])
      else if va_action valarm = Some ''AUDIO''
      then convert_alarms rest (alarms @ [AudioAlarm (the (va_trigger valarm))])
      else convert_alarms rest alarms)"

text \<open>\<open>v || ""\<close> on a decoded value, and \<open>s || undefined\<close> on a text.\<close>

definition or_empty_json :: "json \<Rightarrow> json" where
  "or_empty_json v = (if truthy v then v else JString [])"

definition nonempty :: "string option \<Rightarrow> string option" where
  "nonempty s = (if truthy_str s then s else None)"

text \<open>
  The body of the loop over the event components of one entry, up to the \<open>push\<close>: the
  event, or the error thrown.
\<close>

definition convert_vevent ::
  "url_resolver \<Rightarrow> string option \<Rightarrow> json \<Rightarrow> json \<Rightarrow> decoded_vevent \<Rightarrow> error + parsed_event" where
  "convert_vevent resolve baseUrl obj eventData vevent =
     (case ve_startDate vevent of
        None \<Rightarrow> Inl TypeError
      | Some start \<Rightarrow>
          (let isWholeDay = dt_isDate start;
               startDate = dt_date start;
               endDate = (case ve_endDate vevent of None \<Rightarrow> startDate | Some e \<Rightarrow> dt_date e);
               startTzid = normalizeParam (ve_dtstart_tzid vevent);
               endTzid = normalizeParam (ve_dtend_tzid vevent)
           in case ve_rrule vevent of
                Some (Inl e) \<Rightarrow> Inl e
              | rrule \<Rightarrow>
                  (let recurrenceRule =
                         (case rrule of Some (Inr recur) \<Rightarrow> Some (parseRecurrence recur) | _ \<Rightarrow> None);
                       alarms = convert_alarms (ve_valarms vevent) []
                   in case entry_url resolve baseUrl obj of
                        Inl e \<Rightarrow> Inl e
                      | Inr u \<Rightarrow>
                          Inr \<lparr>pe_uid = ve_uid vevent,
                               pe_summary = (if truthy_str (ve_summary vevent)
                                             then the (ve_summary vevent) else ''Untitled Event''),
                               pe_start = startDate,
                               pe_end = endDate,
                               pe_description = nonempty (ve_description vevent),
                               pe_location = nonempty (ve_location vevent),
                               pe_etag = or_empty_json (js_opt_get eventData ''getetag''),
                               pe_href = u,
                               pe_wholeDay = isWholeDay,
                               pe_recurrenceRule = recurrenceRule,
                               pe_startTzid = startTzid,
                               pe_endTzid = endTzid,
                               pe_alarms = alarms\<rparr>)))"

text \<open>
  The loop over the event components inside the \<open>try\<close> block: the events pushed, and the
  error that ended the loop, if one was thrown.
\<close>

fun vevents_loop ::
  "url_resolver \<Rightarrow> string option \<Rightarrow> json \<Rightarrow> json \<Rightarrow> decoded_vevent list \<Rightarrow> parsed_event list
     \<Rightarrow> parsed_event list \<times> error option" where
  "vevents_loop resolve baseUrl obj eventData [] events = (events, None)"
| "vevents_loop resolve baseUrl obj eventData (vevent # rest) events =
     (case convert_vevent resolve baseUrl obj eventData vevent of
        Inl e \<Rightarrow> (events, Some e)
      | Inr event \<Rightarrow> vevents_loop resolve baseUrl obj eventData rest (events @ [event]))"

text \<open>
  The loop of \<open>parseEvents\<close> over the response entries: the events, and the errors logged
  by the \<open>catch\<close> block; \<open>Inl\<close> is an error thrown outside the \<open>try\<close> block.
\<close>

fun events_loop ::
  "event_decoder \<Rightarrow> url_resolver \<Rightarrow> string option \<Rightarrow> json list \<Rightarrow> parsed_event list \<Rightarrow> error list
     \<Rightarrow> error + parsed_event list \<times> error list" where
  "events_loop decode resolve baseUrl [] events logged = Inr (events, logged)"
| "events_loop decode resolve baseUrl (obj # rest) events logged =
     (case js_get obj ''propstat'' of
        Inl e \<Rightarrow> Inl e
      | Inr propstat \<Rightarrow>
          (let eventData = js_opt_get propstat ''prop''
           in if \<not> truthy eventData then events_loop decode resolve baseUrl rest events logged
              else
                (let rawCalendarData = js_opt_get eventData ''calendar-data''
                 in if \<not> truthy rawCalendarData
                    then events_loop decode resolve baseUrl rest events logged
                    else
                      (case rawCalendarData of
                         JString raw \<Rightarrow>
                           (case decode (replace_cr [CHR 0x0D] 0 raw) of
                              Inl e \<Rightarrow> events_loop decode resolve baseUrl rest events (logged @ [e])
                            | Inr vevents \<Rightarrow>
                                (case vevents_loop resolve baseUrl obj eventData vevents events of
                                   (events', None) \<Rightarrow>
                                     events_loop decode resolve baseUrl rest events' logged
                                 | (events', Some e) \<Rightarrow>
                                     events_loop decode resolve baseUrl rest events' (logged @ [e])))
                       | _ \<Rightarrow> Inl TypeError))))"

text \<open>The entries of a decoded response, as both parsers take them.\<close>

definition response_entries :: "json \<Rightarrow> error + json list" where
  "response_entries jsonData =
     (case js_get jsonData ''multistatus'' of
        Inl e \<Rightarrow> Inl e
      | Inr multistatus \<Rightarrow>
          (let response = js_opt_get multistatus ''response''
           in if \<not> truthy response then Inr []
              else Inr (case response of JArray vs \<Rightarrow> vs | v \<Rightarrow> [v])))"

definition parseEvents ::
  "xml_decoder \<Rightarrow> event_decoder \<Rightarrow> url_resolver \<Rightarrow> string \<Rightarrow> string option
     \<Rightarrow> error + parsed_event list \<times> error list" where
  "parseEvents xml decode resolve responseData baseUrl =
     (case xml responseData of
        Inl e \<Rightarrow> Inl e
      | Inr jsonData \<Rightarrow>
          (case response_entries jsonData of
             Inl e \<Rightarrow> Inl e
           | Inr response \<Rightarrow> events_loop decode resolve baseUrl response [] []))"

text \<open>A date property of a todo: \<open>prop ? prop.getFirstValue().toJSDate() : undefined\<close>.\<close>

definition todo_date :: "jsdate option option \<Rightarrow> error + jsdate option" where
  "todo_date p = (case p of None \<Rightarrow> Inr None | Some None \<Rightarrow> Inl TypeError | Some (Some d) \<Rightarrow> Inr (Some d))"

definition convert_vtodo ::
  "url_resolver \<Rightarrow> string option \<Rightarrow> json \<Rightarrow> json \<Rightarrow> decoded_vtodo \<Rightarrow> error + parsed_todo" where
  "convert_vtodo resolve baseUrl obj todoData vtodo =
     (case todo_date (vt_dtstart vtodo) of
        Inl e \<Rightarrow> Inl e
      | Inr start \<Rightarrow>
          (case todo_date (vt_due vtodo) of
             Inl e \<Rightarrow> Inl e
           | Inr due \<Rightarrow>
               (case todo_date (vt_completed vtodo) of
                  Inl e \<Rightarrow> Inl e
                | Inr completed \<Rightarrow>
                    (let alarms = convert_alarms (vt_valarms vtodo) []
                     in case entry_url resolve baseUrl obj of
                          Inl e \<Rightarrow> Inl e
                        | Inr u \<Rightarrow>
                            Inr \<lparr>pt_uid = vt_uid vtodo,
                                 pt_summary = (if truthy_str (vt_summary vtodo)
                                               then the (vt_summary vtodo) else ''Untitled Todo''),
                                 pt_start = start,
                                 pt_due = due,
                                 pt_completed = completed,
                                 pt_status = vt_status vtodo,
                                 pt_description = vt_description vtodo,
                                 pt_location = vt_location vtodo,
                                 pt_etag = or_empty_json (js_opt_get todoData ''getetag''),
                                 pt_href = u,
                                 pt_alarms = alarms,
                                 pt_sortOrder = vt_sortOrder vtodo\<rparr>))))"

fun vtodos_loop ::
  "url_resolver \<Rightarrow> string option \<Rightarrow> json \<Rightarrow> json \<Rightarrow> decoded_vtodo list \<Rightarrow> parsed_todo list
     \<Rightarrow> parsed_todo list \<times> error option" where
  "vtodos_loop resolve baseUrl obj todoData [] todos = (todos, None)"
| "vtodos_loop resolve baseUrl obj todoData (vtodo # rest) todos =
     (case convert_vtodo resolve baseUrl obj todoData vtodo of
        Inl e \<Rightarrow> (todos, Some e)
      | Inr todo \<Rightarrow> vtodos_loop resolve baseUrl obj todoData rest (todos @ [todo]))"

fun todos_loop ::
  "todo_decoder \<Rightarrow> url_resolver \<Rightarrow> string option \<Rightarrow> json list \<Rightarrow> parsed_todo list \<Rightarrow> error list
     \<Rightarrow> error + parsed_todo list \<times> error list" where
  "todos_loop decode resolve baseUrl [] todos logged = Inr (todos, logged)"
| "todos_loop decode resolve baseUrl (obj # rest) todos logged =
     (case js_get obj ''propstat'' of
        Inl e \<Rightarrow> Inl e
      | Inr propstat \<Rightarrow>
          (let todoData = js_opt_get propstat ''prop''
           in if \<not> truthy todoData then todos_loop decode resolve baseUrl rest todos logged
              else
                (let rawCalendarData = js_opt_get todoData ''calendar-data''
                 in if \<not> truthy rawCalendarData
                    then todos_loop decode resolve baseUrl rest todos logged
                    else
                      (case rawCalendarData of
                         JString raw \<Rightarrow>
                           (case decode (replace_cr [CHR 0x0D, CHR 0x0A] 0 raw) of
                              Inl e \<Rightarrow> todos_loop decode resolve baseUrl rest todos (logged @ [e])
                            | Inr vtodos \<Rightarrow>
                                (case vtodos_loop resolve baseUrl obj todoData vtodos todos of
                                   (todos', None) \<Rightarrow>
                                     todos_loop decode resolve baseUrl rest todos' logged
                                 | (todos', Some e) \<Rightarrow>
                                     todos_loop decode resolve baseUrl rest todos' (logged @ [e])))
                       | _ \<Rightarrow> Inl TypeError))))"

definition parseTodos ::
  "xml_decoder \<Rightarrow> todo_decoder \<Rightarrow> url_resolver \<Rightarrow> string \<Rightarrow> string option
     \<Rightarrow> error + parsed_todo list \<times> error list" where
  "parseTodos xml decode resolve responseData baseUrl =
     (case xml responseData of
        Inl e \<Rightarrow> Inl e
      | Inr jsonData \<Rightarrow>
          (case response_entries jsonData of
             Inl e \<Rightarrow> Inl e
           | Inr response \<Rightarrow> todos_loop decode resolve baseUrl response [] []))"

text \<open>
  The calendar data of an entry is text when the entry is defined and its calendar data,
  if it has any, is a string. The parse of one entry alone: its events (or todos) and
  what it logs.
\<close>

definition text_entry :: "json \<Rightarrow> bool" where
  "text_entry obj =
     (obj \<noteq> JUndefined
      \<and> (case js_opt_path obj [''propstat'', ''prop'', ''calendar-data''] of
            JNumber n \<Rightarrow> n = 0
          | JObject fs \<Rightarrow> False
          | JArray vs \<Rightarrow> False
          | _ \<Rightarrow> True))"

definition entry_events ::
  "event_decoder \<Rightarrow> url_resolver \<Rightarrow> string option \<Rightarrow> json \<Rightarrow> parsed_event list \<times> error list" where
  "entry_events decode resolve baseUrl obj =
     (case events_loop decode resolve baseUrl [obj] [] [] of Inl e \<Rightarrow> ([], []) | Inr r \<Rightarrow> r)"

definition entry_todos ::
  "todo_decoder \<Rightarrow> url_resolver \<Rightarrow> string option \<Rightarrow> json \<Rightarrow> parsed_todo list \<times> error list" where
  "entry_todos decode resolve baseUrl obj =
     (case todos_loop decode resolve baseUrl [obj] [] [] of Inl e \<Rightarrow> ([], []) | Inr r \<Rightarrow> r)"

text \<open>
  A decoded batch of three entries whose calendar data are the texts \<open>GOOD1\<close>, \<open>BAD\<close> and
  \<open>GOOD3\<close>, and decoders that fail on \<open>BAD\<close> and give one component for any other text.
\<close>

definition example_entry :: "string \<Rightarrow> json" where
  "example_entry text =
     JObject [(''href'', JString (''/cal/'' @ text @ ''.ics'')),
       (''propstat'', JObject [(''prop'',
          JObject [(''getetag'', JString ''v1''), (''calendar-data'', JString text)])])]"

definition example_batch :: json where
  "example_batch =
     JObject [(''multistatus'', JObject [(''response'',
       JArray [example_entry ''GOOD1'', example_entry ''BAD'', example_entry ''GOOD3''])])]"

definition example_event_decoder :: event_decoder where
  "example_event_decoder text =
     (if text = ''BAD'' then Inl (CodecError ''invalid calendar data'')
      else Inr [\<lparr>ve_uid = Some text, ve_summary = None,
                 ve_startDate = Some \<lparr>dt_isDate = False, dt_date = UTCDate 2024 1 1 9 0 0 0\<rparr>,
                 ve_endDate = None, ve_description = None, ve_location = None,
                 ve_dtstart_tzid = JUndefined, ve_dtend_tzid = JUndefined,
                 ve_rrule = None, ve_valarms = []\<rparr>])"

definition example_todo_decoder :: todo_decoder where
  "example_todo_decoder text =
     (if text = ''BAD'' then Inl (CodecError ''invalid calendar data'')
      else Inr [\<lparr>vt_uid = Some text, vt_summary = None, vt_description = None,
                 vt_location = None, vt_status = None, vt_sortOrder = None,
                 vt_dtstart = None, vt_due = None, vt_completed = None, vt_valarms = []\<rparr>])"

text \<open>
  A decoded batch whose second entry carries the number 123 as its calendar data, which is
  how the XML decoder reads \<open><calendar-data>123</calendar-data>\<close>, between the entries
  \<open>GOOD1\<close> and \<open>GOOD3\<close>; and the batch of these two entries alone.
\<close>

definition example_number_entry :: json where
  "example_number_entry =
     JObject [(''href'', JString ''/cal/number.ics''),
       (''propstat'', JObject [(''prop'',
          JObject [(''getetag'', JString ''v1''), (''calendar-data'', JNumber 123)])])]"

definition example_number_batch :: json where
  "example_number_batch =
     JObject [(''multistatus'', JObject [(''response'',
       JArray [example_entry ''GOOD1'', example_number_entry, example_entry ''GOOD3''])])]"

definition example_sibling_batch :: json where
  "example_sibling_batch =
     JObject [(''multistatus'', JObject [(''response'',
       JArray [example_entry ''GOOD1'', example_entry ''GOOD3''])])]"

section \<open>Properties of \<open>resolveUrl\<close>\<close>

lemma startsWith_append: "startsWith s p \<longleftrightarrow> (\<exists>rest. s = p @ rest)"
  unfolding startsWith_def
  by (metis append_eq_conv_conj append_take_drop_id)

lemma startsWith_slash: "startsWith s ''/'' \<longleftrightarrow> (\<exists>t. s = CHR ''/'' # t)"
  by (cases s) (auto simp: startsWith_def)

text \<open>
  Claim C7. When the path starts with the base path and the base path is not \<open>/\<close>, the
  result is the path without that prefix, with a leading slash put in front when the rest
  has none; in every other case the path comes back unchanged.
\<close>

theorem resolveUrl_spec:
  "(startsWith path basePath \<and> basePath \<noteq> ''/'' \<longrightarrow>
      (\<exists>rest. path = basePath @ rest \<and>
         resolveUrl basePath path = (if startsWith rest ''/'' then rest else ''/'' @ rest))
      \<and> startsWith (resolveUrl basePath path) ''/'')
   \<and> (\<not> (startsWith path basePath \<and> basePath \<noteq> ''/'') \<longrightarrow> resolveUrl basePath path = path)"
proof (intro conjI impI)
  assume h: "startsWith path basePath \<and> basePath \<noteq> ''/''"
  then obtain rest where r: "path = basePath @ rest"
    by (auto simp: startsWith_append)
  have s: "substring path (length basePath) = rest"
    by (simp add: substring_def r)
  show "\<exists>rest. path = basePath @ rest \<and>
         resolveUrl basePath path = (if startsWith rest ''/'' then rest else ''/'' @ rest)"
    using h r s by (auto simp: resolveUrl_def Let_def)
  show "startsWith (resolveUrl basePath path) ''/''"
    using h s by (auto simp: resolveUrl_def Let_def startsWith_def)
next
  assume "\<not> (startsWith path basePath \<and> basePath \<noteq> ''/'')"
  then show "resolveUrl basePath path = path"
    by (auto simp: resolveUrl_def)
qed

theorem resolveUrl_spec_witness:
  "startsWith ''/dav/cal/a.ics'' ''/dav'' \<and> ''/dav'' \<noteq> ''/''
   \<and> resolveUrl ''/dav'' ''/dav/cal/a.ics'' = ''/cal/a.ics''
   \<and> resolveUrl ''/dav/'' ''/dav/cal/a.ics'' = ''/cal/a.ics''
   \<and> startsWith ''/cal/a.ics'' ''/''
   \<and> \<not> startsWith ''/cal/a.ics'' ''/dav''
   \<and> resolveUrl ''/dav'' ''/cal/a.ics'' = ''/cal/a.ics''
   \<and> resolveUrl ''/'' ''/cal/a.ics'' = ''/cal/a.ics''"
  using resolveUrl_spec [of "''/dav/cal/a.ics''" "''/dav''"]
    resolveUrl_spec [of "''/cal/a.ics''" "''/dav''"]
  by (simp add: startsWith_def resolveUrl_def substring_def)

section \<open>Properties of \<open>diffRefs\<close>\<close>

lemma js_Map_fold:
  "fold (\<lambda>(k, v) m. m(k \<mapsto> v)) entries m = m ++ map_of (rev entries)"
  by (induction entries arbitrary: m) (auto simp: map_add_def fun_eq_iff split: option.splits)

lemma js_Map_map_of: "js_Map entries = map_of (rev entries)"
  by (simp add: js_Map_def js_Map_fold)

lemma js_Map_None: "js_Map entries k = None \<longleftrightarrow> k \<notin> fst ` set entries"
  by (simp add: js_Map_map_of map_of_eq_None_iff)

lemma js_Map_Some_mem: "js_Map entries k = Some v \<Longrightarrow> (k, v) \<in> set entries"
  by (auto simp: js_Map_map_of dest: map_of_SomeD)

lemma fold_remote_step:
  "fold (remote_step lm) rs (n, u) =
     (n @ map href (filter (\<lambda>r. lm (href r) = None) rs),
      u @ map href (filter (\<lambda>r. lm (href r) \<noteq> None \<and> lm (href r) \<noteq> Some (etag r)) rs))"
  by (induction rs arbitrary: n u) (auto simp: remote_step_def)

lemma fold_local_step:
  "fold (local_step rm) ls d = d @ map href (filter (\<lambda>l. rm (href l) = None) ls)"
  by (induction ls arbitrary: d) (auto simp: local_step_def)

lemma refs_Map_None:
  "js_Map (map (\<lambda>i. (href i, etag i)) refs) h = None \<longleftrightarrow> h \<notin> href ` set refs"
  by (simp add: js_Map_None image_image)

lemma refs_Map_Some:
  "(\<exists>e. js_Map (map (\<lambda>i. (href i, etag i)) refs) h = Some e) \<longleftrightarrow> h \<in> href ` set refs"
  using refs_Map_None [of refs h] by auto

lemma diffRefs_filter:
  "diffRefs remoteRefs localRefs =
     \<lparr>newItems = map href (filter (\<lambda>r. href r \<notin> href ` set localRefs) remoteRefs),
      updatedItems = map href (filter (\<lambda>r. href r \<in> href ` set localRefs \<and>
          js_Map (map (\<lambda>i. (href i, etag i)) localRefs) (href r) \<noteq> Some (etag r)) remoteRefs),
      deletedItems = map href (filter (\<lambda>l. href l \<notin> href ` set remoteRefs) localRefs)\<rparr>"
  by (simp add: diffRefs_def Let_def fold_remote_step fold_local_step refs_Map_None refs_Map_Some)

lemma refs_Map_single:
  assumes "single_etag refs" "r \<in> set refs"
  shows "js_Map (map (\<lambda>i. (href i, etag i)) refs) (href r) = Some (etag r)"
proof -
  obtain e where e: "js_Map (map (\<lambda>i. (href i, etag i)) refs) (href r) = Some e"
    using refs_Map_Some [of refs "href r"] assms(2) by auto
  then have "(href r, e) \<in> set (map (\<lambda>i. (href i, etag i)) refs)"
    by (rule js_Map_Some_mem)
  then obtain r' where "r' \<in> set refs" "href r' = href r" "etag r' = e"
    by auto
  with assms have "e = etag r"
    unfolding single_etag_def by metis
  with e show ?thesis by simp
qed


lemma set_newItems:
  "set (newItems (diffRefs remoteRefs localRefs)) = href ` set remoteRefs - href ` set localRefs"
  by (auto simp: diffRefs_filter)

lemma set_deletedItems:
  "set (deletedItems (diffRefs remoteRefs localRefs)) = href ` set localRefs - href ` set remoteRefs"
  by (auto simp: diffRefs_filter)

text \<open>
  Claim C1, as amended. The new hrefs are the remote hrefs absent locally and the deleted
  hrefs are the local hrefs absent remotely, for all lists. When no href carries two etags
  within the local list, the updated hrefs are those present on both sides with differing
  etags; when that holds on both sides, an href matching with equal etags is in none of
  the three lists; and two sides with the same pairs, each href carrying one etag, give
  three empty lists.
\<close>

theorem diffRefs_partition:
  "set (newItems (diffRefs remoteRefs localRefs)) = href ` set remoteRefs - href ` set localRefs
   \<and> set (deletedItems (diffRefs remoteRefs localRefs)) = href ` set localRefs - href ` set remoteRefs
   \<and> (single_etag localRefs \<longrightarrow>
        set (updatedItems (diffRefs remoteRefs localRefs)) =
          {h. \<exists>r \<in> set remoteRefs. \<exists>l \<in> set localRefs. href r = h \<and> href l = h \<and> etag r \<noteq> etag l})
   \<and> (single_etag remoteRefs \<and> single_etag localRefs \<longrightarrow>
        (\<forall>r \<in> set remoteRefs. \<forall>l \<in> set localRefs. href r = href l \<and> etag r = etag l \<longrightarrow>
           href r \<notin> set (newItems (diffRefs remoteRefs localRefs))
             \<union> set (updatedItems (diffRefs remoteRefs localRefs))
             \<union> set (deletedItems (diffRefs remoteRefs localRefs))))
   \<and> (single_etag remoteRefs \<and> set remoteRefs = set localRefs \<longrightarrow>
        diffRefs remoteRefs localRefs = \<lparr>newItems = [], updatedItems = [], deletedItems = []\<rparr>)"
proof (intro conjI impI)
  show "set (newItems (diffRefs remoteRefs localRefs)) = href ` set remoteRefs - href ` set localRefs"
    by (rule set_newItems)
  show "set (deletedItems (diffRefs remoteRefs localRefs)) = href ` set localRefs - href ` set remoteRefs"
    by (rule set_deletedItems)
next
  assume l: "single_etag localRefs"
  have m: "js_Map (map (\<lambda>i. (href i, etag i)) localRefs) (href x) = Some (etag x)"
    if "x \<in> set localRefs" for x
    using refs_Map_single [OF l that] .
  show "set (updatedItems (diffRefs remoteRefs localRefs)) =
          {h. \<exists>r \<in> set remoteRefs. \<exists>l \<in> set localRefs. href r = h \<and> href l = h \<and> etag r \<noteq> etag l}"
  proof (rule set_eqI, rule iffI)
    fix h assume "h \<in> set (updatedItems (diffRefs remoteRefs localRefs))"
    then obtain r where r: "r \<in> set remoteRefs" "href r = h" "href r \<in> href ` set localRefs"
      "js_Map (map (\<lambda>i. (href i, etag i)) localRefs) (href r) \<noteq> Some (etag r)"
      by (auto simp: diffRefs_filter)
    from r(3) obtain x where x: "x \<in> set localRefs" "href x = href r" by auto
    with m [OF x(1)] r(4) have "etag r \<noteq> etag x" by auto
    with r x show "h \<in> {h. \<exists>r \<in> set remoteRefs. \<exists>l \<in> set localRefs. href r = h \<and> href l = h \<and> etag r \<noteq> etag l}"
      by auto
  next
    fix h assume "h \<in> {h. \<exists>r \<in> set remoteRefs. \<exists>l \<in> set localRefs. href r = h \<and> href l = h \<and> etag r \<noteq> etag l}"
    then obtain r x where rx: "r \<in> set remoteRefs" "x \<in> set localRefs" "href r = h" "href x = h"
      "etag r \<noteq> etag x" by auto
    with m [OF rx(2)] have "js_Map (map (\<lambda>i. (href i, etag i)) localRefs) (href r) \<noteq> Some (etag r)"
      by auto
    moreover have "href r \<in> href ` set localRefs"
      using rx(2,3,4) by (metis imageI)
    ultimately show "h \<in> set (updatedItems (diffRefs remoteRefs localRefs))"
      using rx by (auto simp: diffRefs_filter)
  qed
next
  assume a: "single_etag remoteRefs \<and> single_etag localRefs"
  show "\<forall>r \<in> set remoteRefs. \<forall>l \<in> set localRefs. href r = href l \<and> etag r = etag l \<longrightarrow>
           href r \<notin> set (newItems (diffRefs remoteRefs localRefs))
             \<union> set (updatedItems (diffRefs remoteRefs localRefs))
             \<union> set (deletedItems (diffRefs remoteRefs localRefs))"
  proof (intro ballI impI)
    fix r x assume rx: "r \<in> set remoteRefs" "x \<in> set localRefs" "href r = href x \<and> etag r = etag x"
    have m: "js_Map (map (\<lambda>i. (href i, etag i)) localRefs) (href r) = Some (etag r)"
      using refs_Map_single [of localRefs x] a rx by simp
    have u: "href r \<notin> set (updatedItems (diffRefs remoteRefs localRefs))"
    proof
      assume "href r \<in> set (updatedItems (diffRefs remoteRefs localRefs))"
      then obtain r' where r': "r' \<in> set remoteRefs" "href r' = href r"
        "js_Map (map (\<lambda>i. (href i, etag i)) localRefs) (href r') \<noteq> Some (etag r')"
        by (auto simp: diffRefs_filter)
      from a rx(1) r'(1,2) have "etag r' = etag r"
        unfolding single_etag_def by metis
      with r' m show False by simp
    qed
    have "href r \<in> href ` set localRefs"
      using rx(2,3) by (metis imageI)
    then have n: "href r \<notin> set (newItems (diffRefs remoteRefs localRefs))"
      by (simp add: set_newItems)
    have "href r \<in> href ` set remoteRefs"
      using rx(1) by (rule imageI)
    then have d: "href r \<notin> set (deletedItems (diffRefs remoteRefs localRefs))"
      by (simp add: set_deletedItems)
    from n u d show "href r \<notin> set (newItems (diffRefs remoteRefs localRefs))
             \<union> set (updatedItems (diffRefs remoteRefs localRefs))
             \<union> set (deletedItems (diffRefs remoteRefs localRefs))"
      by simp
  qed
next
  assume a: "single_etag remoteRefs \<and> set remoteRefs = set localRefs"
  then have l: "single_etag localRefs"
    unfolding single_etag_def by metis
  have mem: "x \<in> set localRefs" if "x \<in> set remoteRefs" for x
    using a that by blast
  have mem': "x \<in> set remoteRefs" if "x \<in> set localRefs" for x
    using a that by blast
  have 1: "filter (\<lambda>r. href r \<notin> href ` set localRefs) remoteRefs = []"
    unfolding filter_empty_conv using mem by blast
  have 2: "filter (\<lambda>r. href r \<in> href ` set localRefs \<and>
          js_Map (map (\<lambda>i. (href i, etag i)) localRefs) (href r) \<noteq> Some (etag r)) remoteRefs = []"
    unfolding filter_empty_conv using refs_Map_single [OF l] mem by blast
  have 3: "filter (\<lambda>l. href l \<notin> href ` set remoteRefs) localRefs = []"
    unfolding filter_empty_conv using mem' by blast
  show "diffRefs remoteRefs localRefs = \<lparr>newItems = [], updatedItems = [], deletedItems = []\<rparr>"
    unfolding diffRefs_filter 1 2 3 by simp
qed

theorem diffRefs_partition_witness:
  "single_etag [\<lparr>href = ''a'', etag = ''2''\<rparr>, \<lparr>href = ''b'', etag = ''1''\<rparr>, \<lparr>href = ''c'', etag = ''5''\<rparr>]
   \<and> single_etag [\<lparr>href = ''a'', etag = ''1''\<rparr>, \<lparr>href = ''c'', etag = ''5''\<rparr>, \<lparr>href = ''d'', etag = ''9''\<rparr>]
   \<and> diffRefs [\<lparr>href = ''a'', etag = ''2''\<rparr>, \<lparr>href = ''b'', etag = ''1''\<rparr>, \<lparr>href = ''c'', etag = ''5''\<rparr>]
               [\<lparr>href = ''a'', etag = ''1''\<rparr>, \<lparr>href = ''c'', etag = ''5''\<rparr>, \<lparr>href = ''d'', etag = ''9''\<rparr>]
       = \<lparr>newItems = [''b''], updatedItems = [''a''], deletedItems = [''d'']\<rparr>
   \<and> diffRefs [\<lparr>href = ''a'', etag = ''2''\<rparr>, \<lparr>href = ''b'', etag = ''1''\<rparr>, \<lparr>href = ''c'', etag = ''5''\<rparr>]
               [\<lparr>href = ''a'', etag = ''2''\<rparr>, \<lparr>href = ''b'', etag = ''1''\<rparr>, \<lparr>href = ''c'', etag = ''5''\<rparr>]
       = \<lparr>newItems = [], updatedItems = [], deletedItems = []\<rparr>"
proof -
  define R :: "(string, string) item_ref list"
    where "R = [\<lparr>href = ''a'', etag = ''2''\<rparr>, \<lparr>href = ''b'', etag = ''1''\<rparr>, \<lparr>href = ''c'', etag = ''5''\<rparr>]"
  define L :: "(string, string) item_ref list"
    where "L = [\<lparr>href = ''a'', etag = ''1''\<rparr>, \<lparr>href = ''c'', etag = ''5''\<rparr>, \<lparr>href = ''d'', etag = ''9''\<rparr>]"
  have sR: "single_etag R"
    by (simp add: R_def single_etag_def)
  have sL: "single_etag L"
    by (simp add: L_def single_etag_def)
  have d: "diffRefs R L = \<lparr>newItems = [''b''], updatedItems = [''a''], deletedItems = [''d'']\<rparr>"
    by (simp add: R_def L_def diffRefs_def js_Map_def remote_step_def local_step_def)
  have "single_etag R \<and> set R = set R \<longrightarrow>
          diffRefs R R = \<lparr>newItems = [], updatedItems = [], deletedItems = []\<rparr>"
    using diffRefs_partition [of R R] by (elim conjE)
  with sR have e: "diffRefs R R = \<lparr>newItems = [], updatedItems = [], deletedItems = []\<rparr>"
    by blast
  from sR sL d e show ?thesis
    unfolding R_def L_def by (intro conjI)
qed

text \<open>
  With an href listed twice, under two etags, two identical sides do not give three empty
  lists: the local map keeps the last etag, and the first remote entry differs from it.
\<close>

theorem diffRefs_duplicate_href_counterexample:
  "diffRefs [\<lparr>href = ''/cal/a.ics'', etag = ''1''\<rparr>, \<lparr>href = ''/cal/a.ics'', etag = ''2''\<rparr>]
            [\<lparr>href = ''/cal/a.ics'', etag = ''1''\<rparr>, \<lparr>href = ''/cal/a.ics'', etag = ''2''\<rparr>]
     = \<lparr>newItems = [], updatedItems = [''/cal/a.ics''], deletedItems = []\<rparr>"
  by (simp add: diffRefs_def js_Map_def remote_step_def local_step_def)

section \<open>Properties of synchronisation\<close>

lemma getCtag_trace: "snd (getCtag net xml calendarUrl trace) = trace @ [ctag_request calendarUrl]"
  by (simp add: getCtag_def axios_request_def split: option.splits sum.splits)

lemma getItemRefs_trace:
  "snd (getItemRefs net xml calendarUrl component trace) = trace @ [refs_request calendarUrl component]"
  by (simp add: getItemRefs_def axios_request_def Let_def split: option.splits sum.splits)

lemma sync_requests:
  "getCtag net xml calendarUrl trace = (Inr remoteCtag, tr) \<longrightarrow>
     tr = trace @ [ctag_request calendarUrl]
     \<and> (\<not> truthy ctag \<or> ctag = remoteCtag \<longrightarrow>
          syncChanges net xml calendarUrl ctag localRefs trace =
            (Inr \<lparr>changed = False, newCtag = remoteCtag,
                  newEvents = [], updatedEvents = [], deletedEvents = []\<rparr>,
             trace @ [ctag_request calendarUrl])
          \<and> syncTodoChanges net xml calendarUrl ctag localRefs trace =
            (Inr \<lparr>todos_changed = False, todos_newCtag = remoteCtag,
                  newTodos = [], updatedTodos = [], deletedTodos = []\<rparr>,
             trace @ [ctag_request calendarUrl]))
     \<and> (truthy ctag \<and> ctag \<noteq> remoteCtag \<longrightarrow>
          (\<forall>remoteRefs tr'.
             getItemRefs net xml calendarUrl ''VEVENT'' tr = (Inr remoteRefs, tr') \<longrightarrow>
               syncChanges net xml calendarUrl ctag localRefs trace =
                 (Inr \<lparr>changed = True, newCtag = remoteCtag,
                       newEvents = newItems (diffRefs remoteRefs localRefs),
                       updatedEvents = updatedItems (diffRefs remoteRefs localRefs),
                       deletedEvents = deletedItems (diffRefs remoteRefs localRefs)\<rparr>,
                  trace @ [ctag_request calendarUrl, refs_request calendarUrl ''VEVENT'']))
          \<and> (\<forall>remoteRefs tr'.
             getItemRefs net xml calendarUrl ''VTODO'' tr = (Inr remoteRefs, tr') \<longrightarrow>
               syncTodoChanges net xml calendarUrl ctag localRefs trace =
                 (Inr \<lparr>todos_changed = True, todos_newCtag = remoteCtag,
                       newTodos = newItems (diffRefs remoteRefs localRefs),
                       updatedTodos = updatedItems (diffRefs remoteRefs localRefs),
                       deletedTodos = deletedItems (diffRefs remoteRefs localRefs)\<rparr>,
                  trace @ [ctag_request calendarUrl, refs_request calendarUrl ''VTODO''])))"
proof (intro impI)
  assume g: "getCtag net xml calendarUrl trace = (Inr remoteCtag, tr)"
  have tr: "tr = trace @ [ctag_request calendarUrl]"
    using getCtag_trace [of net xml calendarUrl trace] g by simp
  have short: "syncChanges net xml calendarUrl ctag localRefs trace =
            (Inr \<lparr>changed = False, newCtag = remoteCtag,
                  newEvents = [], updatedEvents = [], deletedEvents = []\<rparr>,
             trace @ [ctag_request calendarUrl])
          \<and> syncTodoChanges net xml calendarUrl ctag localRefs trace =
            (Inr \<lparr>todos_changed = False, todos_newCtag = remoteCtag,
                  newTodos = [], updatedTodos = [], deletedTodos = []\<rparr>,
             trace @ [ctag_request calendarUrl])"
    if "\<not> truthy ctag \<or> ctag = remoteCtag"
    using that g tr by (auto simp: syncChanges_def syncTodoChanges_def)
  have ev: "syncChanges net xml calendarUrl ctag localRefs trace =
                 (Inr \<lparr>changed = True, newCtag = remoteCtag,
                       newEvents = newItems (diffRefs remoteRefs localRefs),
                       updatedEvents = updatedItems (diffRefs remoteRefs localRefs),
                       deletedEvents = deletedItems (diffRefs remoteRefs localRefs)\<rparr>,
                  trace @ [ctag_request calendarUrl, refs_request calendarUrl ''VEVENT''])"
    if c: "truthy ctag \<and> ctag \<noteq> remoteCtag"
      and r: "getItemRefs net xml calendarUrl ''VEVENT'' tr = (Inr remoteRefs, tr')"
    for remoteRefs tr'
  proof -
    have "tr' = tr @ [refs_request calendarUrl ''VEVENT'']"
      using getItemRefs_trace [of net xml calendarUrl "''VEVENT''" tr] r by simp
    with c r g tr show ?thesis
      by (simp add: syncChanges_def Let_def)
  qed
  have td: "syncTodoChanges net xml calendarUrl ctag localRefs trace =
                 (Inr \<lparr>todos_changed = True, todos_newCtag = remoteCtag,
                       newTodos = newItems (diffRefs remoteRefs localRefs),
                       updatedTodos = updatedItems (diffRefs remoteRefs localRefs),
                       deletedTodos = deletedItems (diffRefs remoteRefs localRefs)\<rparr>,
                  trace @ [ctag_request calendarUrl, refs_request calendarUrl ''VTODO''])"
    if c: "truthy ctag \<and> ctag \<noteq> remoteCtag"
      and r: "getItemRefs net xml calendarUrl ''VTODO'' tr = (Inr remoteRefs, tr')"
    for remoteRefs tr'
  proof -
    have "tr' = tr @ [refs_request calendarUrl ''VTODO'']"
      using getItemRefs_trace [of net xml calendarUrl "''VTODO''" tr] r by simp
    with c r g tr show ?thesis
      by (simp add: syncTodoChanges_def Let_def)
  qed
  from tr short ev td show "tr = trace @ [ctag_request calendarUrl]
     \<and> (\<not> truthy ctag \<or> ctag = remoteCtag \<longrightarrow>
          syncChanges net xml calendarUrl ctag localRefs trace =
            (Inr \<lparr>changed = False, newCtag = remoteCtag,
                  newEvents = [], updatedEvents = [], deletedEvents = []\<rparr>,
             trace @ [ctag_request calendarUrl])
          \<and> syncTodoChanges net xml calendarUrl ctag localRefs trace =
            (Inr \<lparr>todos_changed = False, todos_newCtag = remoteCtag,
                  newTodos = [], updatedTodos = [], deletedTodos = []\<rparr>,
             trace @ [ctag_request calendarUrl]))
     \<and> (truthy ctag \<and> ctag \<noteq> remoteCtag \<longrightarrow>
          (\<forall>remoteRefs tr'.
             getItemRefs net xml calendarUrl ''VEVENT'' tr = (Inr remoteRefs, tr') \<longrightarrow>
               syncChanges net xml calendarUrl ctag localRefs trace =
                 (Inr \<lparr>changed = True, newCtag = remoteCtag,
                       newEvents = newItems (diffRefs remoteRefs localRefs),
                       updatedEvents = updatedItems (diffRefs remoteRefs localRefs),
                       deletedEvents = deletedItems (diffRefs remoteRefs localRefs)\<rparr>,
                  trace @ [ctag_request calendarUrl, refs_request calendarUrl ''VEVENT'']))
          \<and> (\<forall>remoteRefs tr'.
             getItemRefs net xml calendarUrl ''VTODO'' tr = (Inr remoteRefs, tr') \<longrightarrow>
               syncTodoChanges net xml calendarUrl ctag localRefs trace =
                 (Inr \<lparr>todos_changed = True, todos_newCtag = remoteCtag,
                       newTodos = newItems (diffRefs remoteRefs localRefs),
                       updatedTodos = updatedItems (diffRefs remoteRefs localRefs),
                       deletedTodos = deletedItems (diffRefs remoteRefs localRefs)\<rparr>,
                  trace @ [ctag_request calendarUrl, refs_request calendarUrl ''VTODO''])))"
    by blast
qed

text \<open>
  Claim C2. Once the change tag of the collection has been fetched, \<open>syncChanges\<close> and
  \<open>syncTodoChanges\<close> with a previous token that is absent, empty or equal to the fetched
  one return \<open>changed = false\<close>, the fetched token and three empty lists, having sent the
  change-tag query only: one \<open>PROPFIND\<close> of depth 0 on the calendar URL. With any other
  previous token they send, after it, the reference query for their component kind: one
  \<open>REPORT\<close> of depth 1 on the calendar URL, asking for the etags of \<open>VEVENT\<close> or of
  \<open>VTODO\<close>; when it succeeds, they return \<open>changed = true\<close>, the fetched token and the
  three lists of \<open>diffRefs\<close> on the fetched and the local references.
\<close>

theorem sync_short_circuit:
  "getCtag net xml calendarUrl trace = (Inr remoteCtag, tr) \<longrightarrow>
     tr = trace @ [\<lparr>req_method = ''PROPFIND'', req_url = calendarUrl, req_headers = [(''Depth'', ''0'')], req_body = CtagPropfind\<rparr>]
     \<and> (\<not> truthy ctag \<or> ctag = remoteCtag \<longrightarrow>
          syncChanges net xml calendarUrl ctag localRefs trace =
            (Inr \<lparr>changed = False, newCtag = remoteCtag,
                  newEvents = [], updatedEvents = [], deletedEvents = []\<rparr>,
             trace @ [\<lparr>req_method = ''PROPFIND'', req_url = calendarUrl, req_headers = [(''Depth'', ''0'')], req_body = CtagPropfind\<rparr>])
          \<and> syncTodoChanges net xml calendarUrl ctag localRefs trace =
            (Inr \<lparr>todos_changed = False, todos_newCtag = remoteCtag,
                  newTodos = [], updatedTodos = [], deletedTodos = []\<rparr>,
             trace @ [\<lparr>req_method = ''PROPFIND'', req_url = calendarUrl, req_headers = [(''Depth'', ''0'')], req_body = CtagPropfind\<rparr>]))
     \<and> (truthy ctag \<and> ctag \<noteq> remoteCtag \<longrightarrow>
          (\<forall>remoteRefs tr'.
             getItemRefs net xml calendarUrl ''VEVENT'' tr = (Inr remoteRefs, tr') \<longrightarrow>
               syncChanges net xml calendarUrl ctag localRefs trace =
                 (Inr \<lparr>changed = True, newCtag = remoteCtag,
                       newEvents = newItems (diffRefs remoteRefs localRefs),
                       updatedEvents = updatedItems (diffRefs remoteRefs localRefs),
                       deletedEvents = deletedItems (diffRefs remoteRefs localRefs)\<rparr>,
                  trace @ [\<lparr>req_method = ''PROPFIND'', req_url = calendarUrl, req_headers = [(''Depth'', ''0'')], req_body = CtagPropfind\<rparr>, \<lparr>req_method = ''REPORT'', req_url = calendarUrl, req_headers = [(''Depth'', ''1'')], req_body = EtagCalendarQuery ''VEVENT''\<rparr>]))
          \<and> (\<forall>remoteRefs tr'.
             getItemRefs net xml calendarUrl ''VTODO'' tr = (Inr remoteRefs, tr') \<longrightarrow>
               syncTodoChanges net xml calendarUrl ctag localRefs trace =
                 (Inr \<lparr>todos_changed = True, todos_newCtag = remoteCtag,
                       newTodos = newItems (diffRefs remoteRefs localRefs),
                       updatedTodos = updatedItems (diffRefs remoteRefs localRefs),
                       deletedTodos = deletedItems (diffRefs remoteRefs localRefs)\<rparr>,
                  trace @ [\<lparr>req_method = ''PROPFIND'', req_url = calendarUrl, req_headers = [(''Depth'', ''0'')], req_body = CtagPropfind\<rparr>, \<lparr>req_method = ''REPORT'', req_url = calendarUrl, req_headers = [(''Depth'', ''1'')], req_body = EtagCalendarQuery ''VTODO''\<rparr>])))"
  by (rule sync_requests [unfolded ctag_request_def refs_request_def])

lemma example_getCtag:
  "getCtag example_transport example_xml ''/cal/'' [] = (Inr (JString ''abc''), [ctag_request ''/cal/''])"
  by (simp add: getCtag_def axios_request_def example_transport_def example_xml_def ctag_request_def)

lemma example_getItemRefs:
  "getItemRefs example_transport example_xml ''/cal/'' component [ctag_request ''/cal/''] =
     (Inr [\<lparr>href = JString ''/cal/a.ics'', etag = JString ''2''\<rparr>,
           \<lparr>href = JString ''/cal/b.ics'', etag = JString ''7''\<rparr>],
      [ctag_request ''/cal/'', refs_request ''/cal/'' component])"
  by (simp add: getItemRefs_def axios_request_def example_transport_def example_xml_def
      refs_request_def Let_def)

lemma example_diff:
  "diffRefs [\<lparr>href = JString ''/cal/a.ics'', etag = JString ''2''\<rparr>,
             \<lparr>href = JString ''/cal/b.ics'', etag = JString ''7''\<rparr>]
            [\<lparr>href = JString ''/cal/a.ics'', etag = JString ''1''\<rparr>,
             \<lparr>href = JString ''/cal/z.ics'', etag = JString ''4''\<rparr>]
     = \<lparr>newItems = [JString ''/cal/b.ics''], updatedItems = [JString ''/cal/a.ics''],
        deletedItems = [JString ''/cal/z.ics'']\<rparr>"
  by (simp add: diffRefs_def js_Map_def remote_step_def local_step_def)


theorem sync_short_circuit_witness:
  "getCtag example_transport example_xml ''/cal/'' [] = (Inr (JString ''abc''), [\<lparr>req_method = ''PROPFIND'', req_url = ''/cal/'', req_headers = [(''Depth'', ''0'')], req_body = CtagPropfind\<rparr>])
   \<and> syncChanges example_transport example_xml ''/cal/'' (JString ''abc'') [] [] =
       (Inr \<lparr>changed = False, newCtag = JString ''abc'',
             newEvents = [], updatedEvents = [], deletedEvents = []\<rparr>,
        [\<lparr>req_method = ''PROPFIND'', req_url = ''/cal/'', req_headers = [(''Depth'', ''0'')], req_body = CtagPropfind\<rparr>])
   \<and> syncTodoChanges example_transport example_xml ''/cal/'' JUndefined
         [\<lparr>href = JString ''/cal/a.ics'', etag = JString ''1''\<rparr>,
          \<lparr>href = JString ''/cal/z.ics'', etag = JString ''4''\<rparr>] [] =
       (Inr \<lparr>todos_changed = False, todos_newCtag = JString ''abc'',
             newTodos = [], updatedTodos = [], deletedTodos = []\<rparr>,
        [\<lparr>req_method = ''PROPFIND'', req_url = ''/cal/'', req_headers = [(''Depth'', ''0'')], req_body = CtagPropfind\<rparr>])
   \<and> syncChanges example_transport example_xml ''/cal/'' (JString ''old'')
         [\<lparr>href = JString ''/cal/a.ics'', etag = JString ''1''\<rparr>,
          \<lparr>href = JString ''/cal/z.ics'', etag = JString ''4''\<rparr>] [] =
       (Inr \<lparr>changed = True, newCtag = JString ''abc'',
             newEvents = [JString ''/cal/b.ics''], updatedEvents = [JString ''/cal/a.ics''],
             deletedEvents = [JString ''/cal/z.ics'']\<rparr>,
        [\<lparr>req_method = ''PROPFIND'', req_url = ''/cal/'', req_headers = [(''Depth'', ''0'')], req_body = CtagPropfind\<rparr>, \<lparr>req_method = ''REPORT'', req_url = ''/cal/'', req_headers = [(''Depth'', ''1'')], req_body = EtagCalendarQuery ''VEVENT''\<rparr>])
   \<and> syncTodoChanges example_transport example_xml ''/cal/'' (JString ''old'')
         [\<lparr>href = JString ''/cal/a.ics'', etag = JString ''1''\<rparr>,
          \<lparr>href = JString ''/cal/z.ics'', etag = JString ''4''\<rparr>] [] =
       (Inr \<lparr>todos_changed = True, todos_newCtag = JString ''abc'',
             newTodos = [JString ''/cal/b.ics''], updatedTodos = [JString ''/cal/a.ics''],
             deletedTodos = [JString ''/cal/z.ics'']\<rparr>,
        [\<lparr>req_method = ''PROPFIND'', req_url = ''/cal/'', req_headers = [(''Depth'', ''0'')], req_body = CtagPropfind\<rparr>, \<lparr>req_method = ''REPORT'', req_url = ''/cal/'', req_headers = [(''Depth'', ''1'')], req_body = EtagCalendarQuery ''VTODO''\<rparr>])"
proof -
  define L :: "(json, json) item_ref list"
    where "L = [\<lparr>href = JString ''/cal/a.ics'', etag = JString ''1''\<rparr>,
                \<lparr>href = JString ''/cal/z.ics'', etag = JString ''4''\<rparr>]"
  note g = example_getCtag
  have 1: "syncChanges example_transport example_xml ''/cal/'' (JString ''abc'') [] [] =
       (Inr \<lparr>changed = False, newCtag = JString ''abc'',
             newEvents = [], updatedEvents = [], deletedEvents = []\<rparr>,
        [ctag_request ''/cal/''])"
    using sync_short_circuit [where net = example_transport and xml = example_xml
        and calendarUrl = "''/cal/''" and trace = "[]" and remoteCtag = "JString ''abc''"
        and tr = "[ctag_request ''/cal/'']" and ctag = "JString ''abc''" and localRefs = "[]", THEN mp, OF g]
    by (simp add: ctag_request_def refs_request_def)
  have 2: "syncTodoChanges example_transport example_xml ''/cal/'' JUndefined L [] =
       (Inr \<lparr>todos_changed = False, todos_newCtag = JString ''abc'',
             newTodos = [], updatedTodos = [], deletedTodos = []\<rparr>,
        [ctag_request ''/cal/''])"
    using sync_short_circuit [where net = example_transport and xml = example_xml
        and calendarUrl = "''/cal/''" and trace = "[]" and remoteCtag = "JString ''abc''"
        and tr = "[ctag_request ''/cal/'']" and ctag = "JUndefined" and localRefs = "L", THEN mp, OF g]
    by (simp add: ctag_request_def refs_request_def)
  have c: "truthy (JString ''old'') \<and> JString ''old'' \<noteq> JString ''abc''"
    by simp
  have 3: "syncChanges example_transport example_xml ''/cal/'' (JString ''old'') L [] =
       (Inr \<lparr>changed = True, newCtag = JString ''abc'',
             newEvents = [JString ''/cal/b.ics''], updatedEvents = [JString ''/cal/a.ics''],
             deletedEvents = [JString ''/cal/z.ics'']\<rparr>,
        [ctag_request ''/cal/'', refs_request ''/cal/'' ''VEVENT''])"
    using sync_short_circuit [where net = example_transport and xml = example_xml
        and calendarUrl = "''/cal/''" and trace = "[]" and remoteCtag = "JString ''abc''"
        and tr = "[ctag_request ''/cal/'']" and ctag = "JString ''old''" and localRefs = "L", THEN mp, OF g] c example_getItemRefs [of "''VEVENT''"] example_diff
    unfolding L_def by (simp add: ctag_request_def refs_request_def)
  have 4: "syncTodoChanges example_transport example_xml ''/cal/'' (JString ''old'') L [] =
       (Inr \<lparr>todos_changed = True, todos_newCtag = JString ''abc'',
             newTodos = [JString ''/cal/b.ics''], updatedTodos = [JString ''/cal/a.ics''],
             deletedTodos = [JString ''/cal/z.ics'']\<rparr>,
        [ctag_request ''/cal/'', refs_request ''/cal/'' ''VTODO''])"
    using sync_short_circuit [where net = example_transport and xml = example_xml
        and calendarUrl = "''/cal/''" and trace = "[]" and remoteCtag = "JString ''abc''"
        and tr = "[ctag_request ''/cal/'']" and ctag = "JString ''old''" and localRefs = "L", THEN mp, OF g] c example_getItemRefs [of "''VTODO''"] example_diff
    unfolding L_def by (simp add: ctag_request_def refs_request_def)
  from g 1 2 3 4 show ?thesis
    unfolding L_def ctag_request_def refs_request_def by (intro conjI)
qed

section \<open>Properties of the writes\<close>

lemma trim_Nil: "trim [] = []"
  by (simp add: trim_def)

lemma isWeak_Nil: "\<not> isWeak (Some [])"
  by (simp add: isWeak_def startsWith_def)

lemma updateItem_sends:
  assumes "item_uid \<noteq> []" "item_href \<noteq> []" "build item_uid = Inr ics"
  shows "\<exists>rest. snd (updateItem net xml calendarUrl item_uid item_href item_etag build itemType trace)
           = trace @ update_request item_href item_etag ics # rest"
proof (cases "axios_request net (\<lambda>status. 200 \<le> status \<and> status < 300)
                (update_request item_href item_etag ics) trace")
  case (Pair r tr)
  have tr: "tr = trace @ [update_request item_href item_etag ics]"
    using Pair by (auto simp: axios_request_def split: option.splits if_splits)
  show ?thesis
  proof (cases r)
    case (Inl e)
    with Pair tr assms show ?thesis
      by (simp add: updateItem_def Let_def)
  next
    case (Inr response)
    have "snd (getCtag net xml (strip_slash calendarUrl) tr) = tr @ [ctag_request (strip_slash calendarUrl)]"
      by (rule getCtag_trace)
    with Pair Inr tr assms show ?thesis
      by (cases "getCtag net xml (strip_slash calendarUrl) tr")
         (auto simp: updateItem_def Let_def split: sum.splits)
  qed
qed

lemma createItem_spec:
  assumes url: "calendarUrl \<noteq> []"
    and uid: "uid = (case data_uid of None \<Rightarrow> fresh_uid | Some u \<Rightarrow> if u = [] then fresh_uid else u)"
    and b: "build uid = Inr ics"
    and req: "req = create_request (strip_slash calendarUrl @ ''/'' @ uid @ ''.ics'') ics"
    and cap: "capitalize itemType = Inr name"
  shows "(\<exists>rest. snd (createItem net xml fresh_uid calendarUrl data_uid build itemType trace)
            = trace @ req # rest)
    \<and> (net trace req = None \<longrightarrow>
         createItem net xml fresh_uid calendarUrl data_uid build itemType trace =
           (Inl (ErrorWith (''Failed to create '' @ itemType @ '': '') (AxiosError None)),
            trace @ [req]))
    \<and> (\<forall>response. net trace req = Some response \<longrightarrow>
         (resp_status response = 412 \<longrightarrow>
            createItem net xml fresh_uid calendarUrl data_uid build itemType trace =
              (Inl (Error (name @ '' with the specified uid already exists.'')), trace @ [req]))
         \<and> (resp_status response \<noteq> 201 \<and> resp_status response \<noteq> 204 \<longrightarrow>
              (\<exists>e. createItem net xml fresh_uid calendarUrl data_uid build itemType trace =
                 (Inl e, trace @ [req])))
         \<and> (resp_status response = 201 \<or> resp_status response = 204 \<longrightarrow>
              (\<forall>newCtag' tr'.
                 getCtag net xml (strip_slash calendarUrl) (trace @ [req]) = (Inr newCtag', tr') \<longrightarrow>
                 createItem net xml fresh_uid calendarUrl data_uid build itemType trace =
                   (Inr \<lparr>res_uid = uid,
                         res_href = (if endsWith (strip_slash calendarUrl) ''/''
                                     then strip_slash calendarUrl
                                     else strip_slash calendarUrl @ ''/'') @ uid @ ''.ics'',
                         res_etag = header_etag response, res_newCtag = newCtag'\<rparr>, tr'))))"
proof -
  have unfold: "createItem net xml fresh_uid calendarUrl data_uid build itemType trace =
      (case axios_request net (\<lambda>status. status = 201 \<or> status = 204) req trace of
         (Inl e, tr) \<Rightarrow> (Inl (create_catch itemType e), tr)
       | (Inr response, tr) \<Rightarrow>
           (case getCtag net xml (strip_slash calendarUrl) tr of
              (Inl e, tr') \<Rightarrow> (Inl (create_catch itemType e), tr')
            | (Inr newCtag', tr') \<Rightarrow>
                (Inr \<lparr>res_uid = uid,
                      res_href = (if endsWith (strip_slash calendarUrl) ''/''
                                  then strip_slash calendarUrl
                                  else strip_slash calendarUrl @ ''/'') @ uid @ ''.ics'',
                      res_etag = header_etag response, res_newCtag = newCtag'\<rparr>, tr')))"
    using url b unfolding createItem_def Let_def uid [symmetric] req [symmetric]
    by (simp add: req)
  have none: "createItem net xml fresh_uid calendarUrl data_uid build itemType trace =
           (Inl (ErrorWith (''Failed to create '' @ itemType @ '': '') (AxiosError None)),
            trace @ [req])" if "net trace req = None"
    using that unfolding unfold by (simp add: axios_request_def create_catch_def)
  have bad: "createItem net xml fresh_uid calendarUrl data_uid build itemType trace =
           (Inl (create_catch itemType (AxiosError (Some (resp_status response)))), trace @ [req])"
    if "net trace req = Some response" "resp_status response \<noteq> 201 \<and> resp_status response \<noteq> 204"
    for response
    using that unfolding unfold by (simp add: axios_request_def)
  have good: "createItem net xml fresh_uid calendarUrl data_uid build itemType trace =
      (case getCtag net xml (strip_slash calendarUrl) (trace @ [req]) of
              (Inl e, tr') \<Rightarrow> (Inl (create_catch itemType e), tr')
            | (Inr newCtag', tr') \<Rightarrow>
                (Inr \<lparr>res_uid = uid,
                      res_href = (if endsWith (strip_slash calendarUrl) ''/''
                                  then strip_slash calendarUrl
                                  else strip_slash calendarUrl @ ''/'') @ uid @ ''.ics'',
                      res_etag = header_etag response, res_newCtag = newCtag'\<rparr>, tr'))"
    if "net trace req = Some response" "resp_status response = 201 \<or> resp_status response = 204"
    for response
    using that unfolding unfold by (auto simp: axios_request_def)
  have sent: "\<exists>rest. snd (createItem net xml fresh_uid calendarUrl data_uid build itemType trace)
            = trace @ req # rest"
  proof (cases "net trace req")
    case None
    then show ?thesis using none by simp
  next
    case (Some response)
    show ?thesis
    proof (cases "resp_status response = 201 \<or> resp_status response = 204")
      case True
      have "snd (getCtag net xml (strip_slash calendarUrl) (trace @ [req]))
              = (trace @ [req]) @ [ctag_request (strip_slash calendarUrl)]"
        by (rule getCtag_trace)
      then show ?thesis
        unfolding good [OF Some True]
        by (cases "getCtag net xml (strip_slash calendarUrl) (trace @ [req])")
           (auto split: sum.splits)
    next
      case False
      then show ?thesis using bad [OF Some] by simp
    qed
  qed
  have c412: "create_catch itemType (AxiosError (Some 412)) =
      Error (name @ '' with the specified uid already exists.'')"
    using cap by (simp add: create_catch_def)
  show ?thesis
  proof (intro conjI allI impI)
    show "\<exists>rest. snd (createItem net xml fresh_uid calendarUrl data_uid build itemType trace)
            = trace @ req # rest"
      by (rule sent)
  next
    assume "net trace req = None"
    then show "createItem net xml fresh_uid calendarUrl data_uid build itemType trace =
           (Inl (ErrorWith (''Failed to create '' @ itemType @ '': '') (AxiosError None)),
            trace @ [req])"
      by (rule none)
  next
    fix response
    assume r: "net trace req = Some response" and s: "resp_status response = 412"
    then have "resp_status response \<noteq> 201 \<and> resp_status response \<noteq> 204" by simp
    from bad [OF r this] s c412
    show "createItem net xml fresh_uid calendarUrl data_uid build itemType trace =
              (Inl (Error (name @ '' with the specified uid already exists.'')), trace @ [req])"
      by simp
  next
    fix response
    assume r: "net trace req = Some response"
      and s: "resp_status response \<noteq> 201 \<and> resp_status response \<noteq> 204"
    from bad [OF r s]
    show "\<exists>e. createItem net xml fresh_uid calendarUrl data_uid build itemType trace =
                 (Inl e, trace @ [req])"
      by blast
  next
    fix response newCtag' tr'
    assume r: "net trace req = Some response"
      and s: "resp_status response = 201 \<or> resp_status response = 204"
      and g: "getCtag net xml (strip_slash calendarUrl) (trace @ [req]) = (Inr newCtag', tr')"
    show "createItem net xml fresh_uid calendarUrl data_uid build itemType trace =
                   (Inr \<lparr>res_uid = uid,
                         res_href = (if endsWith (strip_slash calendarUrl) ''/''
                                     then strip_slash calendarUrl
                                     else strip_slash calendarUrl @ ''/'') @ uid @ ''.ics'',
                         res_etag = header_etag response, res_newCtag = newCtag'\<rparr>, tr')"
      unfolding good [OF r s] g by simp
  qed
qed


lemma update_headers_no_validator:
  assumes "item_etag = None \<or> (\<exists>e. item_etag = Some e \<and> trim (strip_weak e) = [])"
  shows "update_headers item_etag = [(''Content-Type'', ''text/calendar; charset=utf-8'')]"
  using assms by (auto simp: update_headers_def Let_def isWeak_def startsWith_def)

lemma buildICSData_timed:
  "\<not> ev_wholeDay event \<Longrightarrow> \<exists>tree. buildICSData prodId now event uid = Inr tree"
  by (simp add: buildICSData_def add_event_times_def Let_def)

lemma buildTodoICSData_total: "\<exists>tree. buildTodoICSData prodId now todo uid = Inr tree"
  by (simp add: buildTodoICSData_def Let_def)

text \<open>
  Claim C10. When the etag of the item is absent, or empty once a leading weak marker is
  stripped and the rest trimmed, the headers of the write of an update hold no \<open>If-Match\<close>,
  and the update of an event or todo that has a uid and an href, and that encodes, sends
  that write with the content type as its only header.
\<close>

theorem update_without_validator:
  "(item_etag = None \<or> (\<exists>e. item_etag = Some e \<and> trim (strip_weak e) = [])) \<longrightarrow>
     ''If-Match'' \<notin> fst ` set (update_headers item_etag)
     \<and> (ev_etag event = item_etag \<and> or_empty (ev_uid event) \<noteq> [] \<and> ev_href event \<noteq> []
          \<and> buildICSData (cl_prodId cl) (cl_now cl) event (or_empty (ev_uid event)) = Inr tree \<longrightarrow>
          (\<exists>rest. snd (updateEvent cl calendarUrl event trace) =
             trace @ \<lparr>req_method = ''PUT'', req_url = ev_href event,
                      req_headers = [(''Content-Type'', ''text/calendar; charset=utf-8'')],
                      req_body = CalendarObject (cl_serialize cl tree)\<rparr> # rest))
     \<and> (td_etag todo = item_etag \<and> or_empty (td_uid todo) \<noteq> [] \<and> td_href todo \<noteq> []
          \<and> buildTodoICSData (cl_prodId cl) (cl_now cl) todo (or_empty (td_uid todo)) = Inr tree' \<longrightarrow>
          (\<exists>rest. snd (updateTodo cl calendarUrl todo trace) =
             trace @ \<lparr>req_method = ''PUT'', req_url = td_href todo,
                      req_headers = [(''Content-Type'', ''text/calendar; charset=utf-8'')],
                      req_body = CalendarObject (cl_serialize cl tree')\<rparr> # rest))"
proof (intro impI conjI)
  assume a: "item_etag = None \<or> (\<exists>e. item_etag = Some e \<and> trim (strip_weak e) = [])"
  note h = update_headers_no_validator [OF a]
  show "''If-Match'' \<notin> fst ` set (update_headers item_etag)"
    unfolding h by simp
  {
    assume e: "ev_etag event = item_etag \<and> or_empty (ev_uid event) \<noteq> [] \<and> ev_href event \<noteq> []
          \<and> buildICSData (cl_prodId cl) (cl_now cl) event (or_empty (ev_uid event)) = Inr tree"
    then have b: "serialized cl (buildICSData (cl_prodId cl) (cl_now cl) event (or_empty (ev_uid event)))
        = Inr (cl_serialize cl tree)"
      by (simp add: serialized_def)
    from e have u: "or_empty (ev_uid event) \<noteq> []" and r: "ev_href event \<noteq> []" by simp_all
    from updateItem_sends [of "or_empty (ev_uid event)" "ev_href event"
        "\<lambda>uid. serialized cl (buildICSData (cl_prodId cl) (cl_now cl) event uid)"
        "cl_serialize cl tree" "cl_net cl" "cl_xml cl" calendarUrl item_etag "''event''" trace,
        OF u r b] e h
    show "\<exists>rest. snd (updateEvent cl calendarUrl event trace) =
             trace @ \<lparr>req_method = ''PUT'', req_url = ev_href event,
                      req_headers = [(''Content-Type'', ''text/calendar; charset=utf-8'')],
                      req_body = CalendarObject (cl_serialize cl tree)\<rparr> # rest"
      by (simp add: updateEvent_def update_request_def)
  }
  {
    assume e: "td_etag todo = item_etag \<and> or_empty (td_uid todo) \<noteq> [] \<and> td_href todo \<noteq> []
          \<and> buildTodoICSData (cl_prodId cl) (cl_now cl) todo (or_empty (td_uid todo)) = Inr tree'"
    then have b: "serialized cl (buildTodoICSData (cl_prodId cl) (cl_now cl) todo (or_empty (td_uid todo)))
        = Inr (cl_serialize cl tree')"
      by (simp add: serialized_def)
    from e have u: "or_empty (td_uid todo) \<noteq> []" and r: "td_href todo \<noteq> []" by simp_all
    from updateItem_sends [of "or_empty (td_uid todo)" "td_href todo"
        "\<lambda>uid. serialized cl (buildTodoICSData (cl_prodId cl) (cl_now cl) todo uid)"
        "cl_serialize cl tree'" "cl_net cl" "cl_xml cl" calendarUrl item_etag "''todo''" trace,
        OF u r b] e h
    show "\<exists>rest. snd (updateTodo cl calendarUrl todo trace) =
             trace @ \<lparr>req_method = ''PUT'', req_url = td_href todo,
                      req_headers = [(''Content-Type'', ''text/calendar; charset=utf-8'')],
                      req_body = CalendarObject (cl_serialize cl tree')\<rparr> # rest"
      by (simp add: updateTodo_def update_request_def)
  }
qed

lemma example_update_trace:
  "snd (updateEvent example_client ''/cal/'' (example_event\<lparr>ev_etag := t\<rparr>) []) =
     [update_request ''/cal/e1.ics'' t ''BEGIN:VCALENDAR'', ctag_request ''/cal'']"
  by (simp add: updateEvent_def updateItem_def example_client_def example_event_def or_empty_def
      serialized_def buildICSData_def add_event_times_def Let_def axios_request_def
      update_request_def example_transport_def getCtag_def example_xml_def ctag_request_def
      strip_slash_def endsWith_def)


theorem update_without_validator_witness:
  "trim (strip_weak [CHR 0xA0]) = []
   \<and> ''If-Match'' \<notin> fst ` set (update_headers (Some [CHR 0xA0]))
   \<and> trim (strip_weak ''W/ '') = []
   \<and> ''If-Match'' \<notin> fst ` set (update_headers (Some ''W/ ''))
   \<and> ''If-Match'' \<notin> fst ` set (update_headers None)
   \<and> (\<exists>rest. snd (updateEvent example_client ''/cal/'' example_event []) =
         \<lparr>req_method = ''PUT'', req_url = ''/cal/e1.ics'',
          req_headers = [(''Content-Type'', ''text/calendar; charset=utf-8'')],
          req_body = CalendarObject ''BEGIN:VCALENDAR''\<rparr> # rest)
   \<and> (\<exists>rest. snd (updateTodo example_client ''/cal/'' (example_todo\<lparr>td_etag := Some ''W/ ''\<rparr>) []) =
         \<lparr>req_method = ''PUT'', req_url = ''/cal/t1.ics'',
          req_headers = [(''Content-Type'', ''text/calendar; charset=utf-8'')],
          req_body = CalendarObject ''BEGIN:VCALENDAR''\<rparr> # rest)"
proof -
  have w: "trim (strip_weak ''W/ '') = []"
    by (simp add: trim_def strip_weak_def startsWith_def is_space_def)
  obtain tree where tree: "buildICSData (cl_prodId example_client) (cl_now example_client)
      example_event (or_empty (ev_uid example_event)) = Inr tree"
  proof -
    have "\<not> ev_wholeDay example_event"
      by (simp add: example_event_def)
    from buildICSData_timed [OF this] show ?thesis
      using that by blast
  qed
  obtain tree' where tree': "buildTodoICSData (cl_prodId example_client) (cl_now example_client)
      (example_todo\<lparr>td_etag := Some ''W/ ''\<rparr>)
      (or_empty (td_uid (example_todo\<lparr>td_etag := Some ''W/ ''\<rparr>))) = Inr tree'"
    using buildTodoICSData_total by blast
  have e: "ev_etag example_event = None \<and> or_empty (ev_uid example_event) \<noteq> []
      \<and> ev_href example_event \<noteq> []"
    by (simp add: example_event_def or_empty_def)
  have t: "td_etag (example_todo\<lparr>td_etag := Some ''W/ ''\<rparr>) = Some ''W/ ''
      \<and> or_empty (td_uid (example_todo\<lparr>td_etag := Some ''W/ ''\<rparr>)) \<noteq> []
      \<and> td_href (example_todo\<lparr>td_etag := Some ''W/ ''\<rparr>) \<noteq> []"
    by (simp add: example_todo_def or_empty_def)
  have s: "cl_serialize example_client tree = ''BEGIN:VCALENDAR''"
    "cl_serialize example_client tree' = ''BEGIN:VCALENDAR''"
    by (simp_all add: example_client_def)
  have h: "ev_href example_event = ''/cal/e1.ics''"
    "td_href (example_todo\<lparr>td_etag := Some ''W/ ''\<rparr>) = ''/cal/t1.ics''"
    by (simp_all add: example_event_def example_todo_def)
  from update_without_validator [where item_etag = None and event = example_event
      and cl = example_client and tree = tree and calendarUrl = "''/cal/''" and trace = "[]"]
    e tree s h
  have 1: "''If-Match'' \<notin> fst ` set (update_headers None)"
    and 2: "\<exists>rest. snd (updateEvent example_client ''/cal/'' example_event []) =
         \<lparr>req_method = ''PUT'', req_url = ''/cal/e1.ics'',
          req_headers = [(''Content-Type'', ''text/calendar; charset=utf-8'')],
          req_body = CalendarObject ''BEGIN:VCALENDAR''\<rparr> # rest"
    by simp_all
  from update_without_validator [where item_etag = "Some ''W/ ''"
      and todo = "example_todo\<lparr>td_etag := Some ''W/ ''\<rparr>"
      and cl = example_client and tree' = tree' and calendarUrl = "''/cal/''" and trace = "[]"]
    w t tree' s h
  have 3: "''If-Match'' \<notin> fst ` set (update_headers (Some ''W/ ''))"
    and 4: "\<exists>rest. snd (updateTodo example_client ''/cal/'' (example_todo\<lparr>td_etag := Some ''W/ ''\<rparr>) []) =
         \<lparr>req_method = ''PUT'', req_url = ''/cal/t1.ics'',
          req_headers = [(''Content-Type'', ''text/calendar; charset=utf-8'')],
          req_body = CalendarObject ''BEGIN:VCALENDAR''\<rparr> # rest"
    by simp_all
  have n: "trim (strip_weak [CHR 0xA0]) = []"
    by (simp add: trim_def strip_weak_def startsWith_def is_space_def)
  then have "Some [CHR 0xA0] = None \<or> (\<exists>e. Some [CHR 0xA0] = Some e \<and> trim (strip_weak e) = [])"
    by simp
  from update_without_validator [where item_etag = "Some [CHR 0xA0]", THEN mp, OF this]
  have 5: "''If-Match'' \<notin> fst ` set (update_headers (Some [CHR 0xA0]))"
    by (rule conjunct1)
  from n 5 w 1 2 3 4 show ?thesis by (intro conjI)
qed

text \<open>
  Claim C4 at the etag \<open>W/"abc123"\<close>: the etag is weak, and the write of the update carries
  \<open>If-Match: "abc123"\<close>. The weak marker is stripped before \<open>isWeak\<close> is asked, so the
  check sees a strong etag.
\<close>

theorem update_weak_etag_sends_If_Match:
  "isWeak (Some (''W/'' @ [CHR 0x22] @ ''abc123'' @ [CHR 0x22]))
   \<and> update_headers (Some (''W/'' @ [CHR 0x22] @ ''abc123'' @ [CHR 0x22])) =
       [(''Content-Type'', ''text/calendar; charset=utf-8''),
        (''If-Match'', [CHR 0x22] @ ''abc123'' @ [CHR 0x22])]
   \<and> snd (updateEvent example_client ''/cal/''
            (example_event\<lparr>ev_etag := Some (''W/'' @ [CHR 0x22] @ ''abc123'' @ [CHR 0x22])\<rparr>) []) =
       [\<lparr>req_method = ''PUT'', req_url = ''/cal/e1.ics'',
         req_headers = [(''Content-Type'', ''text/calendar; charset=utf-8''),
                        (''If-Match'', [CHR 0x22] @ ''abc123'' @ [CHR 0x22])],
         req_body = CalendarObject ''BEGIN:VCALENDAR''\<rparr>,
        ctag_request ''/cal'']"
proof -
  have h: "update_headers (Some (''W/'' @ [CHR 0x22] @ ''abc123'' @ [CHR 0x22])) =
       [(''Content-Type'', ''text/calendar; charset=utf-8''),
        (''If-Match'', [CHR 0x22] @ ''abc123'' @ [CHR 0x22])]"
    by (simp add: update_headers_def isWeak_def strip_weak_def trim_def startsWith_def is_space_def)
  have w: "isWeak (Some (''W/'' @ [CHR 0x22] @ ''abc123'' @ [CHR 0x22]))"
    by (simp add: isWeak_def startsWith_def)
  from w h example_update_trace [of "Some (''W/'' @ [CHR 0x22] @ ''abc123'' @ [CHR 0x22])"]
  show ?thesis
    by (simp add: update_request_def)
qed

lemma capitalize_event: "capitalize ''event'' = Inr ''Event''"
  by (simp add: capitalize_def upper_char_def)

lemma capitalize_todo: "capitalize ''todo'' = Inr ''Todo''"
  by (simp add: capitalize_def upper_char_def)

lemma strip_slash_no_slash: "\<not> endsWith s ''/'' \<Longrightarrow> strip_slash s = s"
  by (simp add: strip_slash_def)

text \<open>
  Claim C5. A create of an event or todo with a calendar URL, whose data encode, sends one
  write: a \<open>PUT\<close> to the calendar URL (without one trailing slash), a slash, the uid and
  \<open>.ics\<close>, with the header \<open>If-None-Match: *\<close>. The uid is the one of the data, or the
  generated one when the data have none. A response with status 412 makes the create fail
  with the error \<open>Event with the specified uid already exists.\<close> (\<open>Todo ...\<close> for a
  todo); any response with a status other than 201 and 204 makes it fail after that one
  request; after status 201 or 204 the create returns the uid, the href, the etag of the
  response and the change tag, once the change tag has been fetched.
\<close>

theorem create_semantics:
  "(calendarUrl \<noteq> []
    \<and> uid = (case ev_uid eventData of None \<Rightarrow> cl_fresh_uid cl
              | Some u \<Rightarrow> if u = [] then cl_fresh_uid cl else u)
    \<and> buildICSData (cl_prodId cl) (cl_now cl) eventData uid = Inr tree
    \<and> req = \<lparr>req_method = ''PUT'', req_url = strip_slash calendarUrl @ ''/'' @ uid @ ''.ics'',
              req_headers = [(''Content-Type'', ''text/calendar; charset=utf-8''),
                             (''If-None-Match'', ''*'')],
              req_body = CalendarObject (cl_serialize cl tree)\<rparr> \<longrightarrow>
      (\<not> endsWith calendarUrl ''/'' \<longrightarrow> req_url req = calendarUrl @ ''/'' @ uid @ ''.ics'')
      \<and> (\<exists>rest. snd (createEvent cl calendarUrl eventData trace) = trace @ req # rest)
      \<and> (\<forall>response. cl_net cl trace req = Some response \<longrightarrow>
           (resp_status response = 412 \<longrightarrow>
              createEvent cl calendarUrl eventData trace =
                (Inl (Error ''Event with the specified uid already exists.''), trace @ [req]))
           \<and> (resp_status response \<noteq> 201 \<and> resp_status response \<noteq> 204 \<longrightarrow>
                (\<exists>e. createEvent cl calendarUrl eventData trace = (Inl e, trace @ [req])))
           \<and> (resp_status response = 201 \<or> resp_status response = 204 \<longrightarrow>
                (\<forall>newCtag' tr'.
                   getCtag (cl_net cl) (cl_xml cl) (strip_slash calendarUrl) (trace @ [req])
                     = (Inr newCtag', tr') \<longrightarrow>
                   createEvent cl calendarUrl eventData trace =
                     (Inr \<lparr>res_uid = uid,
                           res_href = (if endsWith (strip_slash calendarUrl) ''/''
                                       then strip_slash calendarUrl
                                       else strip_slash calendarUrl @ ''/'') @ uid @ ''.ics'',
                           res_etag = header_etag response, res_newCtag = newCtag'\<rparr>, tr')))))
   \<and> (calendarUrl \<noteq> []
    \<and> uid' = (case td_uid todoData of None \<Rightarrow> cl_fresh_uid cl
               | Some u \<Rightarrow> if u = [] then cl_fresh_uid cl else u)
    \<and> buildTodoICSData (cl_prodId cl) (cl_now cl) todoData uid' = Inr tree'
    \<and> req' = \<lparr>req_method = ''PUT'', req_url = strip_slash calendarUrl @ ''/'' @ uid' @ ''.ics'',
               req_headers = [(''Content-Type'', ''text/calendar; charset=utf-8''),
                              (''If-None-Match'', ''*'')],
               req_body = CalendarObject (cl_serialize cl tree')\<rparr> \<longrightarrow>
      (\<not> endsWith calendarUrl ''/'' \<longrightarrow> req_url req' = calendarUrl @ ''/'' @ uid' @ ''.ics'')
      \<and> (\<exists>rest. snd (createTodo cl calendarUrl todoData trace) = trace @ req' # rest)
      \<and> (\<forall>response. cl_net cl trace req' = Some response \<longrightarrow>
           (resp_status response = 412 \<longrightarrow>
              createTodo cl calendarUrl todoData trace =
                (Inl (Error ''Todo with the specified uid already exists.''), trace @ [req']))
           \<and> (resp_status response \<noteq> 201 \<and> resp_status response \<noteq> 204 \<longrightarrow>
                (\<exists>e. createTodo cl calendarUrl todoData trace = (Inl e, trace @ [req'])))
           \<and> (resp_status response = 201 \<or> resp_status response = 204 \<longrightarrow>
                (\<forall>newCtag' tr'.
                   getCtag (cl_net cl) (cl_xml cl) (strip_slash calendarUrl) (trace @ [req'])
                     = (Inr newCtag', tr') \<longrightarrow>
                   createTodo cl calendarUrl todoData trace =
                     (Inr \<lparr>res_uid = uid',
                           res_href = (if endsWith (strip_slash calendarUrl) ''/''
                                       then strip_slash calendarUrl
                                       else strip_slash calendarUrl @ ''/'') @ uid' @ ''.ics'',
                           res_etag = header_etag response, res_newCtag = newCtag'\<rparr>, tr')))))"
  (is "(?A1 \<longrightarrow> ?C1) \<and> (?A2 \<longrightarrow> ?C2)")
proof (rule conjI)
  show "?A1 \<longrightarrow> ?C1"
  proof (rule impI)
    assume a: ?A1
    then have url: "calendarUrl \<noteq> []"
      and uid: "uid = (case ev_uid eventData of None \<Rightarrow> cl_fresh_uid cl
              | Some u \<Rightarrow> if u = [] then cl_fresh_uid cl else u)"
      and b: "buildICSData (cl_prodId cl) (cl_now cl) eventData uid = Inr tree"
      and req: "req = \<lparr>req_method = ''PUT'', req_url = strip_slash calendarUrl @ ''/'' @ uid @ ''.ics'',
              req_headers = [(''Content-Type'', ''text/calendar; charset=utf-8''),
                             (''If-None-Match'', ''*'')],
              req_body = CalendarObject (cl_serialize cl tree)\<rparr>"
      by blast+
    have b': "serialized cl (buildICSData (cl_prodId cl) (cl_now cl) eventData uid)
        = Inr (cl_serialize cl tree)"
      using b by (simp add: serialized_def)
    have req': "req = create_request (strip_slash calendarUrl @ ''/'' @ uid @ ''.ics'')
        (cl_serialize cl tree)"
      using req by (simp add: create_request_def)
    have u: "\<not> endsWith calendarUrl ''/'' \<longrightarrow> req_url req = calendarUrl @ ''/'' @ uid @ ''.ics''"
      using req by (simp add: strip_slash_no_slash)
    note g = createItem_spec [where net = "cl_net cl" and xml = "cl_xml cl" and trace = trace
        and fresh_uid = "cl_fresh_uid cl" and data_uid = "ev_uid eventData" and uid = uid
        and itemType = "''event''" and calendarUrl = calendarUrl and name = "''Event''"
        and ics = "cl_serialize cl tree" and req = req
        and build = "\<lambda>uid. serialized cl (buildICSData (cl_prodId cl) (cl_now cl) eventData uid)",
        OF url uid b' req' capitalize_event, folded createEvent_def]
    from g have g1: "\<exists>rest. snd (createEvent cl calendarUrl eventData trace) = trace @ req # rest"
      by (rule conjunct1)
    from g have g3: "\<forall>response. cl_net cl trace req = Some response \<longrightarrow>
           (resp_status response = 412 \<longrightarrow>
              createEvent cl calendarUrl eventData trace =
                (Inl (Error (''Event'' @ '' with the specified uid already exists.'')), trace @ [req]))
           \<and> (resp_status response \<noteq> 201 \<and> resp_status response \<noteq> 204 \<longrightarrow>
                (\<exists>e. createEvent cl calendarUrl eventData trace = (Inl e, trace @ [req])))
           \<and> (resp_status response = 201 \<or> resp_status response = 204 \<longrightarrow>
                (\<forall>newCtag' tr'.
                   getCtag (cl_net cl) (cl_xml cl) (strip_slash calendarUrl) (trace @ [req])
                     = (Inr newCtag', tr') \<longrightarrow>
                   createEvent cl calendarUrl eventData trace =
                     (Inr \<lparr>res_uid = uid,
                           res_href = (if endsWith (strip_slash calendarUrl) ''/''
                                       then strip_slash calendarUrl
                                       else strip_slash calendarUrl @ ''/'') @ uid @ ''.ics'',
                           res_etag = header_etag response, res_newCtag = newCtag'\<rparr>, tr')))"
      by (elim conjE)
    from u g1 g3 show ?C1
      by (simp only: append_Nil append_Cons simp_thms)
  qed
next
  show "?A2 \<longrightarrow> ?C2"
  proof (rule impI)
    assume a: ?A2
    then have url: "calendarUrl \<noteq> []"
      and uid: "uid' = (case td_uid todoData of None \<Rightarrow> cl_fresh_uid cl
               | Some u \<Rightarrow> if u = [] then cl_fresh_uid cl else u)"
      and b: "buildTodoICSData (cl_prodId cl) (cl_now cl) todoData uid' = Inr tree'"
      and req: "req' = \<lparr>req_method = ''PUT'', req_url = strip_slash calendarUrl @ ''/'' @ uid' @ ''.ics'',
               req_headers = [(''Content-Type'', ''text/calendar; charset=utf-8''),
                              (''If-None-Match'', ''*'')],
               req_body = CalendarObject (cl_serialize cl tree')\<rparr>"
      by blast+
    have b': "serialized cl (buildTodoICSData (cl_prodId cl) (cl_now cl) todoData uid')
        = Inr (cl_serialize cl tree')"
      using b by (simp add: serialized_def)
    have req2: "req' = create_request (strip_slash calendarUrl @ ''/'' @ uid' @ ''.ics'')
        (cl_serialize cl tree')"
      using req by (simp add: create_request_def)
    have u: "\<not> endsWith calendarUrl ''/'' \<longrightarrow> req_url req' = calendarUrl @ ''/'' @ uid' @ ''.ics''"
      using req by (simp add: strip_slash_no_slash)
    note g = createItem_spec [where net = "cl_net cl" and xml = "cl_xml cl" and trace = trace
        and fresh_uid = "cl_fresh_uid cl" and data_uid = "td_uid todoData" and uid = uid'
        and itemType = "''todo''" and calendarUrl = calendarUrl and name = "''Todo''"
        and ics = "cl_serialize cl tree'" and req = req'
        and build = "\<lambda>uid. serialized cl (buildTodoICSData (cl_prodId cl) (cl_now cl) todoData uid)",
        OF url uid b' req2 capitalize_todo, folded createTodo_def]
    from g have g1: "\<exists>rest. snd (createTodo cl calendarUrl todoData trace) = trace @ req' # rest"
      by (rule conjunct1)
    from g have g3: "\<forall>response. cl_net cl trace req' = Some response \<longrightarrow>
           (resp_status response = 412 \<longrightarrow>
              createTodo cl calendarUrl todoData trace =
                (Inl (Error (''Todo'' @ '' with the specified uid already exists.'')), trace @ [req']))
           \<and> (resp_status response \<noteq> 201 \<and> resp_status response \<noteq> 204 \<longrightarrow>
                (\<exists>e. createTodo cl calendarUrl todoData trace = (Inl e, trace @ [req'])))
           \<and> (resp_status response = 201 \<or> resp_status response = 204 \<longrightarrow>
                (\<forall>newCtag' tr'.
                   getCtag (cl_net cl) (cl_xml cl) (strip_slash calendarUrl) (trace @ [req'])
                     = (Inr newCtag', tr') \<longrightarrow>
                   createTodo cl calendarUrl todoData trace =
                     (Inr \<lparr>res_uid = uid',
                           res_href = (if endsWith (strip_slash calendarUrl) ''/''
                                       then strip_slash calendarUrl
                                       else strip_slash calendarUrl @ ''/'') @ uid' @ ''.ics'',
                           res_etag = header_etag response, res_newCtag = newCtag'\<rparr>, tr')))"
      by (elim conjE)
    from u g1 g3 show ?C2
      by (simp only: append_Nil append_Cons simp_thms)
  qed
qed


lemma example_getCtag_any:
  "getCtag example_transport example_xml url tr = (Inr (JString ''abc''), tr @ [ctag_request url])"
  by (simp add: getCtag_def axios_request_def example_transport_def example_xml_def ctag_request_def)

theorem create_semantics_witness:
  "createEvent example_client ''/cal/'' example_event [] =
     (Inr \<lparr>res_uid = ''e1'', res_href = ''/cal/e1.ics'', res_etag = ''v1'',
           res_newCtag = JString ''abc''\<rparr>,
      [\<lparr>req_method = ''PUT'', req_url = ''/cal/e1.ics'',
        req_headers = [(''Content-Type'', ''text/calendar; charset=utf-8''), (''If-None-Match'', ''*'')],
        req_body = CalendarObject ''BEGIN:VCALENDAR''\<rparr>,
       ctag_request ''/cal''])
   \<and> createTodo example_client ''/cal'' (example_todo\<lparr>td_uid := Some ''taken''\<rparr>) [] =
     (Inl (Error ''Todo with the specified uid already exists.''),
      [\<lparr>req_method = ''PUT'', req_url = ''/cal/taken.ics'',
        req_headers = [(''Content-Type'', ''text/calendar; charset=utf-8''), (''If-None-Match'', ''*'')],
        req_body = CalendarObject ''BEGIN:VCALENDAR''\<rparr>])"
proof -
  define ereq where "ereq = \<lparr>req_method = ''PUT'', req_url = ''/cal/e1.ics'',
        req_headers = [(''Content-Type'', ''text/calendar; charset=utf-8''), (''If-None-Match'', ''*'')],
        req_body = CalendarObject ''BEGIN:VCALENDAR''\<rparr>"
  define treq where "treq = \<lparr>req_method = ''PUT'', req_url = ''/cal/taken.ics'',
        req_headers = [(''Content-Type'', ''text/calendar; charset=utf-8''), (''If-None-Match'', ''*'')],
        req_body = CalendarObject ''BEGIN:VCALENDAR''\<rparr>"
  define td where "td = example_todo\<lparr>td_uid := Some ''taken''\<rparr>"
  obtain tree where tree: "buildICSData (cl_prodId example_client) (cl_now example_client)
      example_event ''e1'' = Inr tree"
  proof -
    have "\<not> ev_wholeDay example_event"
      by (simp add: example_event_def)
    from buildICSData_timed [OF this] show ?thesis
      using that by blast
  qed
  obtain tree' where tree': "buildTodoICSData (cl_prodId example_client) (cl_now example_client)
      td ''taken'' = Inr tree'"
    using buildTodoICSData_total by blast
  have ss: "strip_slash ''/cal/'' = ''/cal''" "strip_slash ''/cal'' = ''/cal''"
    by (simp_all add: strip_slash_def endsWith_def)
  have e1: "''/cal/'' \<noteq> []
    \<and> ''e1'' = (case ev_uid example_event of None \<Rightarrow> cl_fresh_uid example_client
              | Some u \<Rightarrow> if u = [] then cl_fresh_uid example_client else u)
    \<and> buildICSData (cl_prodId example_client) (cl_now example_client) example_event ''e1'' = Inr tree
    \<and> ereq = \<lparr>req_method = ''PUT'', req_url = strip_slash ''/cal/'' @ ''/'' @ ''e1'' @ ''.ics'',
              req_headers = [(''Content-Type'', ''text/calendar; charset=utf-8''),
                             (''If-None-Match'', ''*'')],
              req_body = CalendarObject (cl_serialize example_client tree)\<rparr>"
    using tree by (simp add: example_event_def ss ereq_def example_client_def)
  have t1: "''/cal'' \<noteq> []
    \<and> ''taken'' = (case td_uid td of None \<Rightarrow> cl_fresh_uid example_client
               | Some u \<Rightarrow> if u = [] then cl_fresh_uid example_client else u)
    \<and> buildTodoICSData (cl_prodId example_client) (cl_now example_client) td ''taken'' = Inr tree'
    \<and> treq = \<lparr>req_method = ''PUT'', req_url = strip_slash ''/cal'' @ ''/'' @ ''taken'' @ ''.ics'',
               req_headers = [(''Content-Type'', ''text/calendar; charset=utf-8''),
                              (''If-None-Match'', ''*'')],
               req_body = CalendarObject (cl_serialize example_client tree')\<rparr>"
    using tree' by (simp add: td_def ss treq_def example_client_def)
  have n1: "cl_net example_client [] ereq =
      Some \<lparr>resp_status = 201, resp_headers = [(''etag'', ''v1'')], resp_data = []\<rparr>"
    by (simp add: example_client_def example_transport_def ereq_def)
  have n2: "cl_net example_client [] treq =
      Some \<lparr>resp_status = 412, resp_headers = [], resp_data = []\<rparr>"
    by (simp add: example_client_def example_transport_def treq_def)
  have g: "getCtag (cl_net example_client) (cl_xml example_client) (strip_slash ''/cal/'') ([] @ [ereq])
      = (Inr (JString ''abc''), [ereq, ctag_request ''/cal''])"
    by (simp add: example_client_def example_getCtag_any ss)
  from create_semantics [where cl = example_client and calendarUrl = "''/cal/''"
      and eventData = example_event and uid = "''e1''" and tree = tree and req = ereq
      and trace = "[]", THEN conjunct1, THEN mp, OF e1]
  have "\<forall>response. cl_net example_client [] ereq = Some response \<longrightarrow>
      (resp_status response = 201 \<or> resp_status response = 204 \<longrightarrow>
         (\<forall>newCtag' tr'.
            getCtag (cl_net example_client) (cl_xml example_client) (strip_slash ''/cal/'') ([] @ [ereq])
              = (Inr newCtag', tr') \<longrightarrow>
            createEvent example_client ''/cal/'' example_event [] =
              (Inr \<lparr>res_uid = ''e1'',
                    res_href = (if endsWith (strip_slash ''/cal/'') ''/''
                                then strip_slash ''/cal/''
                                else strip_slash ''/cal/'' @ ''/'') @ ''e1'' @ ''.ics'',
                    res_etag = header_etag response, res_newCtag = newCtag'\<rparr>, tr')))"
    by blast
  from this [rule_format, OF n1 _ g]
  have 1: "createEvent example_client ''/cal/'' example_event [] =
     (Inr \<lparr>res_uid = ''e1'', res_href = ''/cal/e1.ics'', res_etag = ''v1'',
           res_newCtag = JString ''abc''\<rparr>, [ereq, ctag_request ''/cal''])"
    by (simp add: ss endsWith_def header_etag_def)
  from create_semantics [where cl = example_client and calendarUrl = "''/cal''"
      and todoData = td and uid' = "''taken''" and tree' = tree' and req' = treq
      and trace = "[]", THEN conjunct2, THEN mp, OF t1]
  have "\<forall>response. cl_net example_client [] treq = Some response \<longrightarrow>
      (resp_status response = 412 \<longrightarrow>
         createTodo example_client ''/cal'' td [] =
           (Inl (Error ''Todo with the specified uid already exists.''), [] @ [treq]))"
    by blast
  from this [rule_format, OF n2]
  have 2: "createTodo example_client ''/cal'' td [] =
     (Inl (Error ''Todo with the specified uid already exists.''), [treq])"
    by simp
  from 1 2 show ?thesis
    unfolding ereq_def treq_def td_def by (intro conjI)
qed

section \<open>Properties of the encoding\<close>

lemma digit_char_in: "digit_char n \<in> set ''0123456789''"
proof -
  have "n mod 10 < length ''0123456789''" by simp
  then show ?thesis
    unfolding digit_char_def by (rule nth_mem)
qed

lemma digit_char_not:
  "digit_char n \<noteq> CHR ''T''" "digit_char n \<noteq> CHR ''-''" "digit_char n \<noteq> CHR '':''"
  "digit_char n \<noteq> CHR ''Z''" "digit_char n \<noteq> CHR ''.''"
  using digit_char_in [of n] by auto

lemma iso_year_chars: "c \<in> set (iso_year y) \<Longrightarrow> c \<notin> {CHR ''T'', CHR '':'', CHR ''Z'', CHR ''.''}"
  using digit_char_not
  by (auto simp: iso_year_def pad6_def pad4_def pad3_def pad2_def split: if_splits)

lemma date_text_chars:
  "c \<in> set (iso_year y @ ''-'' @ pad2 mo @ ''-'' @ pad2 d)
     \<Longrightarrow> c \<notin> {CHR ''T'', CHR '':'', CHR ''Z'', CHR ''.''}"
  using iso_year_chars [of c y] digit_char_not
  by (auto simp: pad2_def)

lemma takeWhile_stop:
  "(\<And>c. c \<in> set xs \<Longrightarrow> c \<noteq> x) \<Longrightarrow> takeWhile (\<lambda>c. c \<noteq> x) (xs @ x # ys) = xs"
  by (induction xs) simp_all

lemma split_T_first_date:
  "toISOString (UTCDate y mo d h mi s ms) = Inr isoText
     \<Longrightarrow> split_T_first isoText = iso_year y @ ''-'' @ pad2 mo @ ''-'' @ pad2 d"
proof -
  assume "toISOString (UTCDate y mo d h mi s ms) = Inr isoText"
  then have t: "isoText = (iso_year y @ ''-'' @ pad2 mo @ ''-'' @ pad2 d)
      @ CHR ''T'' # (pad2 h @ '':'' @ pad2 mi @ '':'' @ pad2 s @ ''.'' @ pad3 ms @ ''Z'')"
    by simp
  have "c \<noteq> CHR ''T''" if "c \<in> set (iso_year y @ ''-'' @ pad2 mo @ ''-'' @ pad2 d)" for c
    using date_text_chars [OF that] by blast
  then show ?thesis
    unfolding t split_T_first_def by (rule takeWhile_stop)
qed

lemma fold_addSubcomponent:
  "fold (\<lambda>a. addSubcomponent (f a)) al (Component n ps cs) = Component n ps (cs @ map f al)"
  by (induction al arbitrary: cs) simp_all

lemma add_alarms_Component:
  "add_alarms as (Component n ps cs) =
     Component n ps (cs @ map build_valarm (case as of None \<Rightarrow> [] | Some al \<Rightarrow> al))"
  by (simp add: add_alarms_def fold_addSubcomponent split: option.splits)

lemma add_event_times_wholeDay:
  assumes "ev_wholeDay event"
    and "ev_start event = UTCDate y mo d h mi s ms"
    and "ev_end event = UTCDate y' mo' d' h' mi' s' ms'"
    and "\<not> list_ex (\<lambda>p. prop_name p = ''dtstart'') ps"
    and "\<not> list_ex (\<lambda>p. prop_name p = ''dtend'') ps"
  shows "add_event_times event (Component n ps cs) =
     Inr (Component n
       (ps @ [\<lparr>prop_name = ''dtstart'', prop_params = [],
                prop_value = DateValue (iso_year y @ ''-'' @ pad2 mo @ ''-'' @ pad2 d)\<rparr>,
              \<lparr>prop_name = ''dtend'', prop_params = [],
                prop_value = DateValue (iso_year y' @ ''-'' @ pad2 mo' @ ''-'' @ pad2 d')\<rparr>]) cs)"
proof -
  obtain s1 where s1: "toISOString (UTCDate y mo d h mi s ms) = Inr s1" by simp
  obtain s2 where s2: "toISOString (UTCDate y' mo' d' h' mi' s' ms') = Inr s2" by simp
  note d1 = split_T_first_date [OF s1]
  note d2 = split_T_first_date [OF s2]
  show ?thesis
    using assms(4,5)
    unfolding add_event_times_def assms(2,3) s1 s2 Let_def
    by (simp add: assms(1) d1 d2)
qed


lemma formatDateOnly_digits:
  assumes "0 \<le> y" "y \<le> 9999"
  shows "formatDateOnly (UTCDate y mo d h mi s ms) = Inr (pad4 (nat y) @ pad2 mo @ pad2 d)"
proof -
  obtain t where t: "toISOString (UTCDate y mo d h mi s ms) = Inr t" by simp
  have "filter (\<lambda>c. c \<noteq> CHR ''-'') (iso_year y @ ''-'' @ pad2 mo @ ''-'' @ pad2 d)
      = pad4 (nat y) @ pad2 mo @ pad2 d"
    using assms digit_char_not(2)
    by (simp add: iso_year_def pad4_def pad3_def pad2_def)
  then show ?thesis
    unfolding formatDateOnly_def t using split_T_first_date [OF t] by simp
qed

text \<open>
  Claim C8. For an event with \<open>wholeDay\<close> set and valid start and end dates, the encoder
  builds one event component whose only start and end properties are \<open>dtstart\<close> and
  \<open>dtend\<close> with date-only values and no parameter (so no time zone identifier); the text of
  each value is the year, month and day of the date in UTC, without \<open>T\<close>, \<open>:\<close> or \<open>Z\<close>.
  \<open>formatDateOnly\<close> gives the same digits without separators.
\<close>

theorem wholeDay_encoding:
  "ev_wholeDay event \<and> ev_start event = UTCDate y mo d h mi s ms
     \<and> ev_end event = UTCDate y' mo' d' h' mi' s' ms' \<longrightarrow>
     (\<exists>props vprops subs.
        buildICSData prodId now event uid =
          Inr (Component ''vcalendar'' props [Component ''vevent'' vprops subs])
        \<and> filter (\<lambda>p. prop_name p = ''dtstart'' \<or> prop_name p = ''dtend'') vprops =
            [\<lparr>prop_name = ''dtstart'', prop_params = [],
               prop_value = DateValue (iso_year y @ ''-'' @ pad2 mo @ ''-'' @ pad2 d)\<rparr>,
             \<lparr>prop_name = ''dtend'', prop_params = [],
               prop_value = DateValue (iso_year y' @ ''-'' @ pad2 mo' @ ''-'' @ pad2 d')\<rparr>])
     \<and> set (iso_year y @ ''-'' @ pad2 mo @ ''-'' @ pad2 d) \<inter> {CHR ''T'', CHR '':'', CHR ''Z''} = {}
     \<and> set (iso_year y' @ ''-'' @ pad2 mo' @ ''-'' @ pad2 d') \<inter> {CHR ''T'', CHR '':'', CHR ''Z''} = {}
     \<and> (0 \<le> y \<and> y \<le> 9999 \<longrightarrow>
          formatDateOnly (ev_start event) = Inr (pad4 (nat y) @ pad2 mo @ pad2 d))"
  (is "?A \<longrightarrow> ?B \<and> ?C \<and> ?D \<and> ?E")
proof (rule impI)
  assume a: ?A
  then have w: "ev_wholeDay event" and st: "ev_start event = UTCDate y mo d h mi s ms"
    and en: "ev_end event = UTCDate y' mo' d' h' mi' s' ms'"
    by simp_all
  have v0: "addPropertyWithValue ''dtstamp'' (UtcTimeValue now)
              (assign_field ''uid'' (TextValue uid) (Component ''vevent'' [] [])) =
      Component ''vevent''
        [\<lparr>prop_name = ''uid'', prop_params = [], prop_value = TextValue uid\<rparr>,
         \<lparr>prop_name = ''dtstamp'', prop_params = [], prop_value = UtcTimeValue now\<rparr>] []"
    by simp
  have t: "add_event_times event (Component ''vevent''
        [\<lparr>prop_name = ''uid'', prop_params = [], prop_value = TextValue uid\<rparr>,
         \<lparr>prop_name = ''dtstamp'', prop_params = [], prop_value = UtcTimeValue now\<rparr>] []) =
     Inr (Component ''vevent''
       ([\<lparr>prop_name = ''uid'', prop_params = [], prop_value = TextValue uid\<rparr>,
         \<lparr>prop_name = ''dtstamp'', prop_params = [], prop_value = UtcTimeValue now\<rparr>]
        @ [\<lparr>prop_name = ''dtstart'', prop_params = [],
                prop_value = DateValue (iso_year y @ ''-'' @ pad2 mo @ ''-'' @ pad2 d)\<rparr>,
              \<lparr>prop_name = ''dtend'', prop_params = [],
                prop_value = DateValue (iso_year y' @ ''-'' @ pad2 mo' @ ''-'' @ pad2 d')\<rparr>]) [])"
    by (rule add_event_times_wholeDay [OF w st en]) simp_all
  have b: ?B
    unfolding buildICSData_def Let_def v0 t
    by (cases "ev_recurrenceRule event") (simp_all add: add_alarms_Component)
  have c: ?C
    using date_text_chars [of _ y mo d] by blast
  have d: ?D
    using date_text_chars [of _ y' mo' d'] by blast
  have e: ?E
    unfolding st using formatDateOnly_digits by blast
  from b c d e show "?B \<and> ?C \<and> ?D \<and> ?E"
    by (intro conjI)
qed


theorem wholeDay_encoding_witness:
  "(\<exists>props vprops subs.
      buildICSData ''-//example//EN'' (UTCDate 2024 1 1 0 0 0 0)
        (example_event\<lparr>ev_wholeDay := True, ev_start := UTCDate 2024 3 1 0 0 0 0,
           ev_end := UTCDate 2024 3 2 0 0 0 0\<rparr>) ''e1'' =
        Inr (Component ''vcalendar'' props [Component ''vevent'' vprops subs])
      \<and> filter (\<lambda>p. prop_name p = ''dtstart'' \<or> prop_name p = ''dtend'') vprops =
          [\<lparr>prop_name = ''dtstart'', prop_params = [], prop_value = DateValue ''2024-03-01''\<rparr>,
           \<lparr>prop_name = ''dtend'', prop_params = [], prop_value = DateValue ''2024-03-02''\<rparr>])
   \<and> formatDateOnly (UTCDate 2024 3 1 0 0 0 0) = Inr ''20240301''"
proof -
  define ev where "ev = example_event\<lparr>ev_wholeDay := True, ev_start := UTCDate 2024 3 1 0 0 0 0,
           ev_end := UTCDate 2024 3 2 0 0 0 0\<rparr>"
  have h: "ev_wholeDay ev \<and> ev_start ev = UTCDate 2024 3 1 0 0 0 0
     \<and> ev_end ev = UTCDate 2024 3 2 0 0 0 0"
    by (simp add: ev_def)
  have t1: "iso_year 2024 @ ''-'' @ pad2 3 @ ''-'' @ pad2 1 = ''2024-03-01''"
    by (simp add: iso_year_def pad4_def pad3_def pad2_def digit_char_def)
  have t2: "iso_year 2024 @ ''-'' @ pad2 3 @ ''-'' @ pad2 2 = ''2024-03-02''"
    by (simp add: iso_year_def pad4_def pad3_def pad2_def digit_char_def)
  have t3: "pad4 (nat 2024) @ pad2 3 @ pad2 1 = ''20240301''"
    by (simp add: pad4_def pad3_def pad2_def digit_char_def)
  note w = wholeDay_encoding [where event = ev and y = 2024 and mo = 3 and d = 1 and h = 0
      and mi = 0 and s = 0 and ms = 0 and y' = 2024 and mo' = 3 and d' = 2 and h' = 0
      and mi' = 0 and s' = 0 and ms' = 0 and prodId = "''-//example//EN''"
      and now = "UTCDate 2024 1 1 0 0 0 0" and uid = "''e1''", THEN mp, OF h]
  from w have 1: "\<exists>props vprops subs.
        buildICSData ''-//example//EN'' (UTCDate 2024 1 1 0 0 0 0) ev ''e1'' =
          Inr (Component ''vcalendar'' props [Component ''vevent'' vprops subs])
        \<and> filter (\<lambda>p. prop_name p = ''dtstart'' \<or> prop_name p = ''dtend'') vprops =
            [\<lparr>prop_name = ''dtstart'', prop_params = [],
               prop_value = DateValue (iso_year 2024 @ ''-'' @ pad2 3 @ ''-'' @ pad2 1)\<rparr>,
             \<lparr>prop_name = ''dtend'', prop_params = [],
               prop_value = DateValue (iso_year 2024 @ ''-'' @ pad2 3 @ ''-'' @ pad2 2)\<rparr>]"
    by (rule conjunct1)
  from w h have 2: "formatDateOnly (UTCDate 2024 3 1 0 0 0 0) = Inr (pad4 (nat 2024) @ pad2 3 @ pad2 1)"
    by simp
  from 1 2 show ?thesis
    unfolding t1 t2 t3 ev_def by (intro conjI)
qed

section \<open>Properties of the calendar listing\<close>

lemma includes_iff: "str_includes s t \<longleftrightarrow> (\<exists>pre post. s = pre @ t @ post)"
proof (induction s)
  case Nil
  then show ?case by simp
next
  case (Cons c cs)
  show ?case
  proof
    assume "str_includes (c # cs) t"
    then consider "startsWith (c # cs) t" | "str_includes cs t" by auto
    then show "\<exists>pre post. c # cs = pre @ t @ post"
    proof cases
      case 1
      then obtain post where "c # cs = t @ post"
        by (auto simp: startsWith_append)
      then have "c # cs = [] @ t @ post" by simp
      then show ?thesis by blast
    next
      case 2
      with Cons.IH obtain pre post where "cs = pre @ t @ post" by blast
      then have "c # cs = (c # pre) @ t @ post" by simp
      then show ?thesis by blast
    qed
  next
    assume "\<exists>pre post. c # cs = pre @ t @ post"
    then obtain pre post where e: "c # cs = pre @ t @ post" by blast
    show "str_includes (c # cs) t"
    proof (cases pre)
      case Nil
      with e have "startsWith (c # cs) t"
        by (auto simp: startsWith_append)
      then show ?thesis by simp
    next
      case (Cons p ps)
      with e have "cs = ps @ t @ post" by simp
      with Cons.IH have "str_includes cs t" by blast
      then show ?thesis by simp
    qed
  qed
qed

lemma comp_names_Inr:
  "comp_names cs = Inr ns \<Longrightarrow> ns = map (\<lambda>c. js_opt_get c ''name'') cs"
proof (induction cs arbitrary: ns)
  case Nil
  then show ?case by simp
next
  case (Cons c cs)
  then show ?case
    by (cases c) (auto split: sum.splits)
qed

lemma comp_names_defined:
  "JUndefined \<notin> set cs \<Longrightarrow> comp_names cs = Inr (map (\<lambda>c. js_opt_get c ''name'') cs)"
proof (induction cs)
  case Nil
  then show ?case by simp
next
  case (Cons c cs)
  then show ?case
    by (cases c) auto
qed


lemma find_first:
  "find P xs = Some x \<longleftrightarrow>
     (\<exists>before after. xs = before @ x # after \<and> P x \<and> (\<forall>b \<in> set before. \<not> P b))"
proof (induction xs)
  case Nil
  then show ?case by simp
next
  case (Cons a xs)
  show ?case
  proof (cases "P a")
    case True
    have "(\<exists>before after. a # xs = before @ x # after \<and> P x \<and> (\<forall>b \<in> set before. \<not> P b))
        \<longleftrightarrow> a = x"
    proof
      assume "\<exists>before after. a # xs = before @ x # after \<and> P x \<and> (\<forall>b \<in> set before. \<not> P b)"
      then obtain before after where e: "a # xs = before @ x # after"
        and n: "\<forall>b \<in> set before. \<not> P b" by blast
      show "a = x"
      proof (cases before)
        case Nil
        with e show ?thesis by simp
      next
        case (Cons b bs)
        with e have "a = b" by simp
        with Cons n True show ?thesis by simp
      qed
    next
      assume "a = x"
      with True have "a # xs = [] @ x # xs \<and> P x \<and> (\<forall>b \<in> set []. \<not> P b)" by simp
      then show "\<exists>before after. a # xs = before @ x # after \<and> P x \<and> (\<forall>b \<in> set before. \<not> P b)"
        by blast
    qed
    with True show ?thesis by simp
  next
    case False
    have "(\<exists>before after. a # xs = before @ x # after \<and> P x \<and> (\<forall>b \<in> set before. \<not> P b))
        \<longleftrightarrow> (\<exists>before after. xs = before @ x # after \<and> P x \<and> (\<forall>b \<in> set before. \<not> P b))"
    proof
      assume "\<exists>before after. a # xs = before @ x # after \<and> P x \<and> (\<forall>b \<in> set before. \<not> P b)"
      then obtain before after where e: "a # xs = before @ x # after" and px: "P x"
        and n: "\<forall>b \<in> set before. \<not> P b" by blast
      show "\<exists>before after. xs = before @ x # after \<and> P x \<and> (\<forall>b \<in> set before. \<not> P b)"
      proof (cases before)
        case Nil
        with e px False show ?thesis by simp
      next
        case (Cons b bs)
        with e n have "xs = bs @ x # after \<and> P x \<and> (\<forall>b \<in> set bs. \<not> P b)"
          using px by simp
        then show ?thesis by blast
      qed
    next
      assume "\<exists>before after. xs = before @ x # after \<and> P x \<and> (\<forall>b \<in> set before. \<not> P b)"
      then obtain before after where "xs = before @ x # after" "P x" "\<forall>b \<in> set before. \<not> P b"
        by blast
      with False have "a # xs = (a # before) @ x # after \<and> P x \<and> (\<forall>b \<in> set (a # before). \<not> P b)"
        by simp
      then show "\<exists>before after. a # xs = before @ x # after \<and> P x \<and> (\<forall>b \<in> set before. \<not> P b)"
        by blast
    qed
    with False Cons.IH show ?thesis by simp
  qed
qed

lemma status_ok_iff:
  "status_ok block \<longleftrightarrow>
     (\<exists>s pre post. js_opt_get block ''status'' = JString s \<and> toLowerCase s = pre @ ''200 ok'' @ post)"
  by (cases "js_opt_get block ''status''") (simp_all add: status_ok_def includes_iff)

lemma calendars_loop_listed:
  "calendars_loop resolve baseUrl responses acc = Inr cals \<Longrightarrow>
     map (\<lambda>c. (displayName c, cal_ctag c, supportedComponents c)) cals =
       map (\<lambda>c. (displayName c, cal_ctag c, supportedComponents c)) acc
       @ List.map_filter listed_entry responses"
proof (induction responses arbitrary: acc)
  case Nil
  then show ?case by simp
next
  case (Cons res rest)
  show ?case
  proof (cases "find status_ok (toArray (js_opt_get res ''propstat''))")
    case None
    then have "listed_entry res = None"
      by (simp add: listed_entry_def first_ok_block_def)
    with None Cons show ?thesis
      by simp
  next
    case (Some block)
    obtain names where names: "comp_names (toArray (js_opt_path (js_opt_get block ''prop'')
        [''supported-calendar-component-set'', ''comp''])) = Inr names"
      using Cons.prems Some by (auto simp: Let_def split: sum.splits)
    have k: "filter (\<lambda>name. name \<in> set known_components) names = known_kinds block"
      using comp_names_Inr [OF names] by (simp add: known_kinds_def)
    show ?thesis
    proof (cases "JString ''VEVENT'' \<notin> set (known_kinds block)
        \<and> JString ''VTODO'' \<notin> set (known_kinds block)")
      case True
      then have "listed_entry res = None"
        using Some by (simp add: listed_entry_def first_ok_block_def)
      moreover have "calendars_loop resolve baseUrl rest acc = Inr cals"
        using Cons.prems Some names True by (simp add: Let_def k)
      ultimately show ?thesis
        using Cons.IH by simp
    next
      case False
      then have l: "listed_entry res =
          Some (or_empty_text (js_opt_path block [''prop'', ''displayname'']),
                js_opt_path block [''prop'', ''getctag''], known_kinds block)"
        using Some by (auto simp: listed_entry_def first_ok_block_def)
      obtain u where u: "entry_url resolve baseUrl res = Inr u"
        using Cons.prems Some names False by (auto simp: Let_def k split: sum.splits)
      have "calendars_loop resolve baseUrl rest
          (acc @ [\<lparr>displayName = or_empty_text (js_opt_get (js_opt_get block ''prop'') ''displayname''),
                   cal_url = u, cal_ctag = js_opt_get (js_opt_get block ''prop'') ''getctag'',
                   supportedComponents = known_kinds block\<rparr>]) = Inr cals"
        using Cons.prems Some names False u by (auto simp: Let_def k)
      from Cons.IH [OF this] l show ?thesis
        by simp
    qed
  qed
qed

lemma calendars_loop_total:
  "(\<And>r block. r \<in> set responses \<Longrightarrow> first_ok_block r = Some block \<Longrightarrow>
       JUndefined \<notin> set (toArray (js_opt_path block
         [''prop'', ''supported-calendar-component-set'', ''comp'']))
       \<and> (\<exists>u. entry_url resolve baseUrl r = Inr u))
   \<Longrightarrow> \<exists>cals. calendars_loop resolve baseUrl responses acc = Inr cals"
proof (induction responses arbitrary: acc)
  case Nil
  then show ?case by simp
next
  case (Cons res rest)
  have ih: "\<exists>cals. calendars_loop resolve baseUrl rest acc' = Inr cals" for acc'
  proof (rule Cons.IH)
    fix r block
    assume r: "r \<in> set rest" and b: "first_ok_block r = Some block"
    from r have "r \<in> set (res # rest)" by simp
    from Cons.prems [OF this b]
    show "JUndefined \<notin> set (toArray (js_opt_path block
         [''prop'', ''supported-calendar-component-set'', ''comp'']))
       \<and> (\<exists>u. entry_url resolve baseUrl r = Inr u)" .
  qed
  show ?case
  proof (cases "find status_ok (toArray (js_opt_get res ''propstat''))")
    case None
    with ih show ?thesis by simp
  next
    case (Some block)
    then have f: "first_ok_block res = Some block"
      by (simp add: first_ok_block_def)
    have "res \<in> set (res # rest)" by simp
    from Cons.prems [OF this f]
    have d: "JUndefined \<notin> set (toArray (js_opt_path (js_opt_get block ''prop'')
        [''supported-calendar-component-set'', ''comp'']))"
      and "\<exists>u. entry_url resolve baseUrl res = Inr u"
      by simp_all
    then obtain u where u: "entry_url resolve baseUrl res = Inr u" by blast
    note n = comp_names_defined [OF d]
    show ?thesis
      using Some n u ih by (simp add: Let_def)
  qed
qed


text \<open>
  Claim C6. When \<open>parseCalendars\<close> returns, its calendars are, in order, those of the
  listed entries of the response: an entry is listed when it has a property-status block
  whose status contains \<open>200 ok\<close>, and the names of the components of the first such block
  that are among the six known kinds hold \<open>VEVENT\<close> or \<open>VTODO\<close>. The first such block is
  the one with no such block before it; a status contains \<open>200 ok\<close> when its lower-case
  text has it as a substring. An entry without such a block raises no error, and neither
  does any entry whose components are all defined and whose URL resolves. An entry whose
  known kinds hold neither \<open>VEVENT\<close> nor \<open>VTODO\<close> (only \<open>VJOURNAL\<close>, say) is not listed.
\<close>

theorem calendar_listing_filter:
  "(xml responseData = Inr jsonData
      \<and> parseCalendars xml resolve responseData baseUrl = Inr cals \<longrightarrow>
      map (\<lambda>c. (displayName c, cal_ctag c, supportedComponents c)) cals =
        List.map_filter listed_entry (toArray (js_opt_path jsonData [''multistatus'', ''response''])))
   \<and> (xml responseData = Inr jsonData
      \<and> (\<forall>r \<in> set (toArray (js_opt_path jsonData [''multistatus'', ''response''])).
            \<forall>block. first_ok_block r = Some block \<longrightarrow>
              JUndefined \<notin> set (toArray (js_opt_path block
                [''prop'', ''supported-calendar-component-set'', ''comp'']))
              \<and> (\<exists>u. entry_url resolve baseUrl r = Inr u)) \<longrightarrow>
      (\<exists>cals. parseCalendars xml resolve responseData baseUrl = Inr cals))
   \<and> (first_ok_block entry = Some block \<longleftrightarrow>
        (\<exists>before after. toArray (js_opt_get entry ''propstat'') = before @ block # after
           \<and> status_ok block \<and> (\<forall>b \<in> set before. \<not> status_ok b)))
   \<and> (status_ok block \<longleftrightarrow>
        (\<exists>s pre post. js_opt_get block ''status'' = JString s
           \<and> toLowerCase s = pre @ ''200 ok'' @ post))
   \<and> set (known_kinds block) =
        set (map (\<lambda>c. js_opt_get c ''name'')
               (toArray (js_opt_path block [''prop'', ''supported-calendar-component-set'', ''comp''])))
        \<inter> set known_components
   \<and> (listed_entry entry \<noteq> None \<longleftrightarrow>
        (\<exists>b. first_ok_block entry = Some b
           \<and> (JString ''VEVENT'' \<in> set (known_kinds b) \<or> JString ''VTODO'' \<in> set (known_kinds b))))"
  (is "?A \<and> ?B \<and> ?C \<and> ?D \<and> ?E \<and> ?F")
proof -
  have a: ?A
    using calendars_loop_listed [of resolve baseUrl _ "[]" cals]
    by (auto simp: parseCalendars_def)
  have b: ?B
  proof (rule impI)
    assume h: "xml responseData = Inr jsonData
      \<and> (\<forall>r \<in> set (toArray (js_opt_path jsonData [''multistatus'', ''response''])).
            \<forall>block. first_ok_block r = Some block \<longrightarrow>
              JUndefined \<notin> set (toArray (js_opt_path block
                [''prop'', ''supported-calendar-component-set'', ''comp'']))
              \<and> (\<exists>u. entry_url resolve baseUrl r = Inr u))"
    have "\<exists>cals. calendars_loop resolve baseUrl
        (toArray (js_opt_path jsonData [''multistatus'', ''response''])) [] = Inr cals"
      by (rule calendars_loop_total) (use h in blast)
    with h show "\<exists>cals. parseCalendars xml resolve responseData baseUrl = Inr cals"
      by (simp add: parseCalendars_def)
  qed
  have c: ?C
    unfolding first_ok_block_def by (rule find_first)
  have d: ?D
    by (rule status_ok_iff)
  have e: ?E
    by (auto simp: known_kinds_def)
  have f: ?F
    by (auto simp: listed_entry_def split: option.splits)
  from a b c d e f show ?thesis
    by (intro conjI)
qed

lemma example_listing_parsed:
  "parseCalendars (\<lambda>body. Inr example_listing) (\<lambda>h b. Inl TypeError) [] None =
     Inr [\<lparr>displayName = JString ''Work'', cal_url = JString ''/cal/work/'',
           cal_ctag = JString ''c1'',
           supportedComponents = [JString ''VEVENT'', JString ''VTODO'']\<rparr>]"
  by (simp add: parseCalendars_def example_listing_def toArray_def status_ok_def toLowerCase_def
      lower_char_def startsWith_def Let_def known_components_def entry_url_def truthy_str_def
      or_empty_text_def)


theorem calendar_listing_filter_witness:
  "parseCalendars (\<lambda>body. Inr example_listing) (\<lambda>h b. Inl TypeError) [] None =
     Inr [\<lparr>displayName = JString ''Work'', cal_url = JString ''/cal/work/'',
           cal_ctag = JString ''c1'',
           supportedComponents = [JString ''VEVENT'', JString ''VTODO'']\<rparr>]
   \<and> List.map_filter listed_entry
        (toArray (js_opt_path example_listing [''multistatus'', ''response''])) =
       [(JString ''Work'', JString ''c1'', [JString ''VEVENT'', JString ''VTODO''])]"
proof -
  note p = example_listing_parsed
  have x: "(\<lambda>body. Inr example_listing) [] = (Inr example_listing :: error + json)"
    by simp
  from calendar_listing_filter [where xml = "\<lambda>body. Inr example_listing"
      and responseData = "[]" and jsonData = example_listing
      and resolve = "\<lambda>h b. Inl TypeError" and baseUrl = None
      and cals = "[\<lparr>displayName = JString ''Work'', cal_url = JString ''/cal/work/'',
           cal_ctag = JString ''c1'',
           supportedComponents = [JString ''VEVENT'', JString ''VTODO'']\<rparr>]",
      THEN conjunct1, THEN mp, OF conjI, OF x p]
  have "List.map_filter listed_entry
        (toArray (js_opt_path example_listing [''multistatus'', ''response''])) =
       [(JString ''Work'', JString ''c1'', [JString ''VEVENT'', JString ''VTODO''])]"
    by simp
  with p show ?thesis by (intro conjI)
qed

section \<open>Properties of the parsers of events and todos\<close>

lemma js_get_defined: "obj \<noteq> JUndefined \<Longrightarrow> js_get obj k = Inr (js_opt_get obj k)"
  by (cases obj) simp_all

lemma vevents_loop_acc:
  "vevents_loop r b obj d vs events =
     (events @ fst (vevents_loop r b obj d vs []), snd (vevents_loop r b obj d vs []))"
proof (induction vs arbitrary: events)
  case Nil
  then show ?case by simp
next
  case (Cons v vs)
  show ?case
  proof (cases "convert_vevent r b obj d v")
    case (Inl e)
    then show ?thesis by simp
  next
    case (Inr ev)
    from Cons [of "events @ [ev]"] Cons [of "[ev]"] Inr show ?thesis by simp
  qed
qed

lemma vtodos_loop_acc:
  "vtodos_loop r b obj d vs todos =
     (todos @ fst (vtodos_loop r b obj d vs []), snd (vtodos_loop r b obj d vs []))"
proof (induction vs arbitrary: todos)
  case Nil
  then show ?case by simp
next
  case (Cons v vs)
  show ?case
  proof (cases "convert_vtodo r b obj d v")
    case (Inl e)
    then show ?thesis by simp
  next
    case (Inr td)
    from Cons [of "todos @ [td]"] Cons [of "[td]"] Inr show ?thesis by simp
  qed
qed

lemma text_entry_data:
  assumes "text_entry obj"
  shows "obj \<noteq> JUndefined"
    and "truthy (js_opt_get (js_opt_get (js_opt_get obj ''propstat'') ''prop'') ''calendar-data'')
      \<Longrightarrow> \<exists>raw. js_opt_get (js_opt_get (js_opt_get obj ''propstat'') ''prop'') ''calendar-data''
            = JString raw"
  using assms
  by (auto simp: text_entry_def
      split: json.splits)

lemma events_loop_step:
  assumes t: "text_entry obj"
  shows "events_loop dec r b (obj # rest) events logged =
     events_loop dec r b rest (events @ fst (entry_events dec r b obj))
       (logged @ snd (entry_events dec r b obj))"
proof -
  define eventData where "eventData = js_opt_get (js_opt_get obj ''propstat'') ''prop''"
  define rawData where "rawData = js_opt_get eventData ''calendar-data''"
  have g: "js_get obj ''propstat'' = Inr (js_opt_get obj ''propstat'')"
    using text_entry_data(1) [OF t] by (rule js_get_defined)
  show ?thesis
  proof (cases "truthy eventData \<and> truthy rawData")
    case False
    then show ?thesis
      using g by (auto simp: entry_events_def eventData_def rawData_def Let_def)
  next
    case True
    then obtain raw where raw: "rawData = JString raw"
      using text_entry_data(2) [OF t] by (auto simp: eventData_def rawData_def)
    show ?thesis
    proof (cases "dec (replace_cr [CHR 0x0D] 0 raw)")
      case (Inl e)
      with True raw g show ?thesis
        by (simp add: entry_events_def eventData_def [symmetric] rawData_def [symmetric] Let_def)
    next
      case (Inr vevents)
      obtain evs err where l: "vevents_loop r b obj eventData vevents [] = (evs, err)"
        by (cases "vevents_loop r b obj eventData vevents []")
      have l': "vevents_loop r b obj eventData vevents events = (events @ evs, err)"
        using vevents_loop_acc [of r b obj eventData vevents events] l by simp
      from True raw g Inr l l' show ?thesis
        by (cases err)
           (simp_all add: entry_events_def eventData_def [symmetric] rawData_def [symmetric] Let_def)
    qed
  qed
qed

lemma todos_loop_step:
  assumes t: "text_entry obj"
  shows "todos_loop dec r b (obj # rest) todos logged =
     todos_loop dec r b rest (todos @ fst (entry_todos dec r b obj))
       (logged @ snd (entry_todos dec r b obj))"
proof -
  define todoData where "todoData = js_opt_get (js_opt_get obj ''propstat'') ''prop''"
  define rawData where "rawData = js_opt_get todoData ''calendar-data''"
  have g: "js_get obj ''propstat'' = Inr (js_opt_get obj ''propstat'')"
    using text_entry_data(1) [OF t] by (rule js_get_defined)
  show ?thesis
  proof (cases "truthy todoData \<and> truthy rawData")
    case False
    then show ?thesis
      using g by (auto simp: entry_todos_def todoData_def rawData_def Let_def)
  next
    case True
    then obtain raw where raw: "rawData = JString raw"
      using text_entry_data(2) [OF t] by (auto simp: todoData_def rawData_def)
    show ?thesis
    proof (cases "dec (replace_cr [CHR 0x0D, CHR 0x0A] 0 raw)")
      case (Inl e)
      with True raw g show ?thesis
        by (simp add: entry_todos_def todoData_def [symmetric] rawData_def [symmetric] Let_def)
    next
      case (Inr vtodos)
      obtain tds err where l: "vtodos_loop r b obj todoData vtodos [] = (tds, err)"
        by (cases "vtodos_loop r b obj todoData vtodos []")
      have l': "vtodos_loop r b obj todoData vtodos todos = (todos @ tds, err)"
        using vtodos_loop_acc [of r b obj todoData vtodos todos] l by simp
      from True raw g Inr l l' show ?thesis
        by (cases err)
           (simp_all add: entry_todos_def todoData_def [symmetric] rawData_def [symmetric] Let_def)
    qed
  qed
qed

lemma events_loop_text:
  "(\<And>obj. obj \<in> set entries \<Longrightarrow> text_entry obj) \<Longrightarrow>
   events_loop dec r b entries events logged =
     Inr (events @ concat (map (\<lambda>obj. fst (entry_events dec r b obj)) entries),
          logged @ concat (map (\<lambda>obj. snd (entry_events dec r b obj)) entries))"
proof (induction entries arbitrary: events logged)
  case Nil
  then show ?case by simp
next
  case (Cons obj rest)
  have "text_entry obj" using Cons.prems by simp
  note s = events_loop_step [OF this]
  have "\<And>x. x \<in> set rest \<Longrightarrow> text_entry x" using Cons.prems by simp
  note ih = Cons.IH [OF this]
  show ?case
    by (simp only: s ih list.map concat.simps append_assoc)
qed

lemma todos_loop_text:
  "(\<And>obj. obj \<in> set entries \<Longrightarrow> text_entry obj) \<Longrightarrow>
   todos_loop dec r b entries todos logged =
     Inr (todos @ concat (map (\<lambda>obj. fst (entry_todos dec r b obj)) entries),
          logged @ concat (map (\<lambda>obj. snd (entry_todos dec r b obj)) entries))"
proof (induction entries arbitrary: todos logged)
  case Nil
  then show ?case by simp
next
  case (Cons obj rest)
  have "text_entry obj" using Cons.prems by simp
  note s = todos_loop_step [OF this]
  have "\<And>x. x \<in> set rest \<Longrightarrow> text_entry x" using Cons.prems by simp
  note ih = Cons.IH [OF this]
  show ?case
    by (simp only: s ih list.map concat.simps append_assoc)
qed


lemma js_opt_get_object: "js_opt_get v k = JString s \<Longrightarrow> truthy v"
  by (cases v) simp_all

lemma entry_events_decode_fails:
  assumes "js_opt_path obj [''propstat'', ''prop'', ''calendar-data''] = JString raw"
    and "raw \<noteq> []" and "dec (replace_cr [CHR 0x0D] 0 raw) = Inl e"
  shows "entry_events dec r b obj = ([], [e])"
proof -
  have o: "obj \<noteq> JUndefined" using assms(1) by auto
  have "js_opt_get (js_opt_get (js_opt_get obj ''propstat'') ''prop'') ''calendar-data'' = JString raw"
    using assms(1) by simp
  then have "truthy (js_opt_get (js_opt_get obj ''propstat'') ''prop'')"
    by (rule js_opt_get_object)
  with assms js_get_defined [OF o] show ?thesis
    by (simp add: entry_events_def Let_def)
qed

lemma entry_todos_decode_fails:
  assumes "js_opt_path obj [''propstat'', ''prop'', ''calendar-data''] = JString raw"
    and "raw \<noteq> []" and "dec (replace_cr [CHR 0x0D, CHR 0x0A] 0 raw) = Inl e"
  shows "entry_todos dec r b obj = ([], [e])"
proof -
  have o: "obj \<noteq> JUndefined" using assms(1) by auto
  have "js_opt_get (js_opt_get (js_opt_get obj ''propstat'') ''prop'') ''calendar-data'' = JString raw"
    using assms(1) by simp
  then have "truthy (js_opt_get (js_opt_get obj ''propstat'') ''prop'')"
    by (rule js_opt_get_object)
  with assms js_get_defined [OF o] show ?thesis
    by (simp add: entry_todos_def Let_def)
qed


text \<open>
  Fault isolation among entries whose calendar data are text. For a decoded multistatus
  response whose entries carry their calendar data as text (or carry none),
  \<open>parseEvents\<close> and \<open>parseTodos\<close> return, and never raise: the
  objects returned are those of every entry parsed alone, in order, and the errors logged
  are those of every entry parsed alone. An entry whose text the codec fails to decode
  contributes no object and logs that one error; what its siblings contribute does not
  depend on it.
\<close>

theorem batch_fault_isolation:
  "(xml responseData = Inr jsonData \<and> response_entries jsonData = Inr entries
      \<and> (\<forall>obj \<in> set entries. text_entry obj) \<longrightarrow>
      parseEvents xml decode resolve responseData baseUrl =
        Inr (concat (map (\<lambda>obj. fst (entry_events decode resolve baseUrl obj)) entries),
             concat (map (\<lambda>obj. snd (entry_events decode resolve baseUrl obj)) entries))
      \<and> parseTodos xml decode' resolve responseData baseUrl =
        Inr (concat (map (\<lambda>obj. fst (entry_todos decode' resolve baseUrl obj)) entries),
             concat (map (\<lambda>obj. snd (entry_todos decode' resolve baseUrl obj)) entries)))
   \<and> (js_opt_path entry [''propstat'', ''prop'', ''calendar-data''] = JString raw \<and> raw \<noteq> []
      \<and> decode (replace_cr [CHR 0x0D] 0 raw) = Inl e \<longrightarrow>
      entry_events decode resolve baseUrl entry = ([], [e]))
   \<and> (js_opt_path entry [''propstat'', ''prop'', ''calendar-data''] = JString raw \<and> raw \<noteq> []
      \<and> decode' (replace_cr [CHR 0x0D, CHR 0x0A] 0 raw) = Inl e' \<longrightarrow>
      entry_todos decode' resolve baseUrl entry = ([], [e']))"
  (is "(?A \<longrightarrow> ?B) \<and> (?C \<longrightarrow> ?D) \<and> (?E \<longrightarrow> ?F)")
proof -
  have 1: "?A \<longrightarrow> ?B"
  proof (rule impI)
    assume a: ?A
    then have t: "\<And>obj. obj \<in> set entries \<Longrightarrow> text_entry obj" by blast
    from a events_loop_text [of entries decode resolve baseUrl "[]" "[]", OF t]
      todos_loop_text [of entries decode' resolve baseUrl "[]" "[]", OF t]
    show ?B
      by (simp add: parseEvents_def parseTodos_def)
  qed
  have 2: "?C \<longrightarrow> ?D"
    using entry_events_decode_fails by blast
  have 3: "?E \<longrightarrow> ?F"
    using entry_todos_decode_fails by blast
  show ?thesis
    by (rule conjI [OF 1 conjI [OF 2 3]])
qed

lemma example_entry_text: "text_entry (example_entry text)"
  by (simp add: text_entry_def example_entry_def)

lemma example_entry_events:
  "text \<noteq> ''BAD'' \<Longrightarrow> text \<noteq> [] \<Longrightarrow> replace_cr [CHR 0x0D] 0 text = text \<Longrightarrow>
   map pe_uid (fst (entry_events example_event_decoder (\<lambda>h b. Inl TypeError) None (example_entry text)))
     = [Some text]
   \<and> snd (entry_events example_event_decoder (\<lambda>h b. Inl TypeError) None (example_entry text)) = []"
  by (simp add: entry_events_def example_entry_def example_event_decoder_def Let_def
      convert_vevent_def entry_url_def truthy_str_def)

lemma example_entry_todos:
  "text \<noteq> ''BAD'' \<Longrightarrow> text \<noteq> [] \<Longrightarrow> replace_cr [CHR 0x0D, CHR 0x0A] 0 text = text \<Longrightarrow>
   map pt_uid (fst (entry_todos example_todo_decoder (\<lambda>h b. Inl TypeError) None (example_entry text)))
     = [Some text]
   \<and> snd (entry_todos example_todo_decoder (\<lambda>h b. Inl TypeError) None (example_entry text)) = []"
  by (simp add: entry_todos_def example_entry_def example_todo_decoder_def Let_def
      convert_vtodo_def todo_date_def entry_url_def truthy_str_def)


theorem batch_fault_isolation_witness:
  "map_sum (\<lambda>e. e) (\<lambda>r. (map pe_uid (fst r), snd r))
     (parseEvents (\<lambda>body. Inr example_batch) example_event_decoder (\<lambda>h b. Inl TypeError) [] None)
     = Inr ([Some ''GOOD1'', Some ''GOOD3''], [CodecError ''invalid calendar data''])
   \<and> map_sum (\<lambda>e. e) (\<lambda>r. (map pt_uid (fst r), snd r))
     (parseTodos (\<lambda>body. Inr example_batch) example_todo_decoder (\<lambda>h b. Inl TypeError) [] None)
     = Inr ([Some ''GOOD1'', Some ''GOOD3''], [CodecError ''invalid calendar data''])
   \<and> entry_events example_event_decoder (\<lambda>h b. Inl TypeError) None (example_entry ''BAD'')
     = ([], [CodecError ''invalid calendar data''])
   \<and> entry_todos example_todo_decoder (\<lambda>h b. Inl TypeError) None (example_entry ''BAD'')
     = ([], [CodecError ''invalid calendar data''])"
proof -
  define entries where
    "entries = [example_entry ''GOOD1'', example_entry ''BAD'', example_entry ''GOOD3'']"
  have h: "(\<lambda>body. Inr example_batch) [] = (Inr example_batch :: error + json)
      \<and> response_entries example_batch = Inr entries
      \<and> (\<forall>obj \<in> set entries. text_entry obj)"
    by (simp add: response_entries_def example_batch_def entries_def example_entry_text)
  have r1: "replace_cr [CHR 0x0D] 0 ''GOOD1'' = ''GOOD1''"
      "replace_cr [CHR 0x0D] 0 ''GOOD3'' = ''GOOD3''"
      "replace_cr [CHR 0x0D, CHR 0x0A] 0 ''GOOD1'' = ''GOOD1''"
      "replace_cr [CHR 0x0D, CHR 0x0A] 0 ''GOOD3'' = ''GOOD3''"
    by (simp_all add: startsWith_def)
  have b: "js_opt_path (example_entry ''BAD'') [''propstat'', ''prop'', ''calendar-data'']
        = JString ''BAD'' \<and> ''BAD'' \<noteq> []
      \<and> example_event_decoder (replace_cr [CHR 0x0D] 0 ''BAD'')
        = Inl (CodecError ''invalid calendar data'')"
    by (simp add: example_entry_def example_event_decoder_def startsWith_def)
  have b': "js_opt_path (example_entry ''BAD'') [''propstat'', ''prop'', ''calendar-data'']
        = JString ''BAD'' \<and> ''BAD'' \<noteq> []
      \<and> example_todo_decoder (replace_cr [CHR 0x0D, CHR 0x0A] 0 ''BAD'')
        = Inl (CodecError ''invalid calendar data'')"
    by (simp add: example_entry_def example_todo_decoder_def startsWith_def)
  note t = batch_fault_isolation [where xml = "\<lambda>body. Inr example_batch" and responseData = "[]"
      and jsonData = example_batch and entries = entries and decode = example_event_decoder
      and decode' = example_todo_decoder and resolve = "\<lambda>h b. Inl TypeError" and baseUrl = None
      and entry = "example_entry ''BAD''" and raw = "''BAD''"
      and e = "CodecError ''invalid calendar data''" and e' = "CodecError ''invalid calendar data''"]
  from t h have p: "parseEvents (\<lambda>body. Inr example_batch) example_event_decoder
        (\<lambda>h b. Inl TypeError) [] None =
      Inr (concat (map (\<lambda>obj. fst (entry_events example_event_decoder (\<lambda>h b. Inl TypeError) None obj)) entries),
           concat (map (\<lambda>obj. snd (entry_events example_event_decoder (\<lambda>h b. Inl TypeError) None obj)) entries))"
    and q: "parseTodos (\<lambda>body. Inr example_batch) example_todo_decoder
        (\<lambda>h b. Inl TypeError) [] None =
      Inr (concat (map (\<lambda>obj. fst (entry_todos example_todo_decoder (\<lambda>h b. Inl TypeError) None obj)) entries),
           concat (map (\<lambda>obj. snd (entry_todos example_todo_decoder (\<lambda>h b. Inl TypeError) None obj)) entries))"
    by blast+
  from t b have 3: "entry_events example_event_decoder (\<lambda>h b. Inl TypeError) None (example_entry ''BAD'')
     = ([], [CodecError ''invalid calendar data''])"
    by blast
  from t b' have 4: "entry_todos example_todo_decoder (\<lambda>h b. Inl TypeError) None (example_entry ''BAD'')
     = ([], [CodecError ''invalid calendar data''])"
    by blast
  have 1: "map_sum (\<lambda>e. e) (\<lambda>r. (map pe_uid (fst r), snd r))
     (parseEvents (\<lambda>body. Inr example_batch) example_event_decoder (\<lambda>h b. Inl TypeError) [] None)
     = Inr ([Some ''GOOD1'', Some ''GOOD3''], [CodecError ''invalid calendar data''])"
    unfolding p entries_def
    using example_entry_events [of "''GOOD1''"] example_entry_events [of "''GOOD3''"] r1 3
    by (simp add: map_concat)
  have 2: "map_sum (\<lambda>e. e) (\<lambda>r. (map pt_uid (fst r), snd r))
     (parseTodos (\<lambda>body. Inr example_batch) example_todo_decoder (\<lambda>h b. Inl TypeError) [] None)
     = Inr ([Some ''GOOD1'', Some ''GOOD3''], [CodecError ''invalid calendar data''])"
    unfolding q entries_def
    using example_entry_todos [of "''GOOD1''"] example_entry_todos [of "''GOOD3''"] r1 4
    by (simp add: map_concat)
  from 1 2 3 4 show ?thesis by (intro conjI)
qed

text \<open>
  Claim C9, at a response of three entries of which the second carries the number 123 as
  its calendar data. \<open>rawCalendarData.replace\<close> is called before the \<open>try\<close> block is
  entered, and a number has no such method: \<open>parseEvents\<close> and \<open>parseTodos\<close> raise
  \<open>TypeError\<close> to the caller, whatever the codec does. The object of the first entry, already
  decoded, and that of the third are lost, although the two sibling entries alone give both
  objects and log no error. So this one malformed entry aborts the whole batch.
\<close>

theorem batch_aborted_by_number_data:
  "parseEvents (\<lambda>body. Inr example_number_batch) example_event_decoder (\<lambda>h b. Inr b) [] None
     = Inl TypeError
   \<and> parseTodos (\<lambda>body. Inr example_number_batch) example_todo_decoder (\<lambda>h b. Inr b) [] None
     = Inl TypeError
   \<and> map_sum (\<lambda>e. e) (\<lambda>r. (map pe_uid (fst r), snd r))
       (parseEvents (\<lambda>body. Inr example_sibling_batch) example_event_decoder (\<lambda>h b. Inr b) [] None)
     = Inr ([Some ''GOOD1'', Some ''GOOD3''], [])
   \<and> map_sum (\<lambda>e. e) (\<lambda>r. (map pt_uid (fst r), snd r))
       (parseTodos (\<lambda>body. Inr example_sibling_batch) example_todo_decoder (\<lambda>h b. Inr b) [] None)
     = Inr ([Some ''GOOD1'', Some ''GOOD3''], [])"
proof -
  have r: "replace_cr [CHR 0x0D] 0 ''GOOD1'' = ''GOOD1''"
      "replace_cr [CHR 0x0D] 0 ''GOOD3'' = ''GOOD3''"
      "replace_cr [CHR 0x0D, CHR 0x0A] 0 ''GOOD1'' = ''GOOD1''"
      "replace_cr [CHR 0x0D, CHR 0x0A] 0 ''GOOD3'' = ''GOOD3''"
    by (simp_all add: startsWith_def)
  have 1: "parseEvents (\<lambda>body. Inr example_number_batch) example_event_decoder (\<lambda>h b. Inr b) [] None
     = Inl TypeError"
    by (simp add: parseEvents_def response_entries_def example_number_batch_def
        example_number_entry_def example_entry_def example_event_decoder_def r Let_def
        convert_vevent_def entry_url_def truthy_str_def startsWith_def)
  have 2: "parseTodos (\<lambda>body. Inr example_number_batch) example_todo_decoder (\<lambda>h b. Inr b) [] None
     = Inl TypeError"
    by (simp add: parseTodos_def response_entries_def example_number_batch_def
        example_number_entry_def example_entry_def example_todo_decoder_def r Let_def
        convert_vtodo_def todo_date_def entry_url_def truthy_str_def startsWith_def)
  have 3: "map_sum (\<lambda>e. e) (\<lambda>r. (map pe_uid (fst r), snd r))
       (parseEvents (\<lambda>body. Inr example_sibling_batch) example_event_decoder (\<lambda>h b. Inr b) [] None)
     = Inr ([Some ''GOOD1'', Some ''GOOD3''], [])"
    by (simp add: parseEvents_def response_entries_def example_sibling_batch_def
        example_entry_def example_event_decoder_def r Let_def
        convert_vevent_def entry_url_def truthy_str_def startsWith_def)
  have 4: "map_sum (\<lambda>e. e) (\<lambda>r. (map pt_uid (fst r), snd r))
       (parseTodos (\<lambda>body. Inr example_sibling_batch) example_todo_decoder (\<lambda>h b. Inr b) [] None)
     = Inr ([Some ''GOOD1'', Some ''GOOD3''], [])"
    by (simp add: parseTodos_def response_entries_def example_sibling_batch_def
        example_entry_def example_todo_decoder_def r Let_def
        convert_vtodo_def todo_date_def entry_url_def truthy_str_def startsWith_def)
  from 1 2 3 4 show ?thesis by (intro conjI)
qed

end
